(* ===== verification/Flowy_Prelude.thy ===== *)
theory Flowy_Prelude
  imports Main
begin

text \<open>
  Shared vocabulary of the flowy development: the Python values and exceptions the
  models return, the Python builtins the sources call (\<open>set.remove\<close>,
  \<open>dict[k]\<close>, \<open>list.index\<close>, \<open>str.split\<close>, \<open>str.rsplit\<close>,
  \<open>str.endswith\<close>, slicing), and the generic lemmas about them that the component
  theories use through the \<open>py_simps\<close> collection.
\<close>

named_theorems py_simps "evaluation rules of the Python builtins model"

section \<open>Python values and exceptions\<close>

text \<open>
  A raised exception is the left value of a sum, \<open>py_error + 'a\<close>. Only the
  exception classes that the modelled code can raise are listed; \<open>SWFResponseError\<close>
  is the transport failure that the code catches and logs.
\<close>

datatype py_error =
    KeyError
  | ValueError
  | TypeError
  | AssertionError
  | NotImplementedError
  | SWFResponseError
  | StopIteration
  | PaginationError             \<comment> \<open>\<open>_PaginationError\<close> of swf.py\<close>
  | RuntimeError
  | RegistrationError           \<comment> \<open>\<open>RegistrationError\<close> of swf.py\<close>

text \<open>
  Payloads exchanged with the remote service are strings (JSON text) or Python's
  \<open>None\<close> (the value the history projector stores for a fired timer).
\<close>

datatype pyval = PyNone | PyStr string

type_synonym call_key = string
type_synonym token = string

text \<open>Sequencing of statements that may raise: the first exception propagates.\<close>

definition py_bind :: "py_error + 'a \<Rightarrow> ('a \<Rightarrow> py_error + 'b) \<Rightarrow> py_error + 'b" where
  "py_bind r f = (case r of Inl e \<Rightarrow> Inl e | Inr x \<Rightarrow> f x)"

section \<open>Builtins on sets, dictionaries and lists\<close>

definition py_set_remove :: "'a \<Rightarrow> 'a set \<Rightarrow> py_error + 'a set" where
  "py_set_remove x A = (if x \<in> A then Inr (A - {x}) else Inl KeyError)"

definition py_dict_get :: "('k \<rightharpoonup> 'v) \<Rightarrow> 'k \<Rightarrow> py_error + 'v" where
  "py_dict_get m k = (case m k of None \<Rightarrow> Inl KeyError | Some v \<Rightarrow> Inr v)"

fun py_list_index :: "'a list \<Rightarrow> 'a \<Rightarrow> py_error + nat" where
  "py_list_index [] x = Inl ValueError"
| "py_list_index (y # ys) x =
     (if y = x then Inr 0
      else (case py_list_index ys x of Inl e \<Rightarrow> Inl e | Inr i \<Rightarrow> Inr (Suc i)))"

text \<open>\<open>s[:n]\<close> for \<open>n \<ge> 0\<close>; strings count bytes here, Python counts code points.\<close>

definition py_prefix :: "nat \<Rightarrow> string \<Rightarrow> string" where
  "py_prefix n s = take n s"

section \<open>Builtins on strings\<close>

definition py_endswith :: "string \<Rightarrow> string \<Rightarrow> bool" where
  "py_endswith s suf \<longleftrightarrow> length suf \<le> length s \<and> drop (length s - length suf) s = suf"

text \<open>\<open>s.split(d)\<close> for a one-character separator: the pieces between separators.\<close>

fun py_split_acc :: "char \<Rightarrow> string \<Rightarrow> string \<Rightarrow> string list" where
  "py_split_acc d cur [] = [rev cur]"
| "py_split_acc d cur (c # cs) =
     (if c = d then rev cur # py_split_acc d [] cs else py_split_acc d (c # cur) cs)"

definition py_split :: "char \<Rightarrow> string \<Rightarrow> string list" where
  "py_split d s = py_split_acc d [] s"

text \<open>\<open>s.rsplit(d, 1)\<close>: split at the last separator only.\<close>

definition py_rsplit1 :: "char \<Rightarrow> string \<Rightarrow> string list" where
  "py_rsplit1 d s =
     (if d \<in> set s
      then [rev (tl (dropWhile (\<lambda>c. c \<noteq> d) (rev s))), rev (takeWhile (\<lambda>c. c \<noteq> d) (rev s))]
      else [s])"

section \<open>Lemmas on the builtins\<close>

lemma py_bind_simps [simp, py_simps]:
  "py_bind (Inl e) f = Inl e" "py_bind (Inr x) f = f x"
  by (simp_all add: py_bind_def)

lemma py_bind_Inr_iff:
  "py_bind r f = Inr y \<longleftrightarrow> (\<exists>x. r = Inr x \<and> f x = Inr y)"
  by (cases r) auto

lemma py_bind_Inl_iff:
  "py_bind r f = Inl e \<longleftrightarrow> r = Inl e \<or> (\<exists>x. r = Inr x \<and> f x = Inl e)"
  by (cases r) auto

lemma py_set_remove_Inr [py_simps]:
  "py_set_remove x A = Inr B \<longleftrightarrow> x \<in> A \<and> B = A - {x}"
  by (auto simp: py_set_remove_def)

lemma py_set_remove_Inl [py_simps]:
  "py_set_remove x A = Inl e \<longleftrightarrow> x \<notin> A \<and> e = KeyError"
  by (auto simp: py_set_remove_def)

lemma py_dict_get_Inr [py_simps]:
  "py_dict_get m k = Inr v \<longleftrightarrow> m k = Some v"
  by (auto simp: py_dict_get_def split: option.splits)

lemma py_dict_get_Inl [py_simps]:
  "py_dict_get m k = Inl e \<longleftrightarrow> m k = None \<and> e = KeyError"
  by (auto simp: py_dict_get_def split: option.splits)

lemma py_list_index_Inr:
  "py_list_index xs x = Inr i \<Longrightarrow> i < length xs \<and> xs ! i = x \<and> x \<notin> set (take i xs)"
proof (induction xs arbitrary: i)
  case Nil
  then show ?case by simp
next
  case (Cons y ys)
  then show ?case
    by (cases "y = x") (auto split: sum.splits)
qed

lemma py_list_index_in:
  "x \<in> set xs \<Longrightarrow> \<exists>i. py_list_index xs x = Inr i"
  by (induction xs) (auto split: sum.splits)

lemma py_list_index_notin [py_simps]:
  "x \<notin> set xs \<Longrightarrow> py_list_index xs x = Inl ValueError"
  by (induction xs) auto

lemma py_prefix_length [py_simps]: "length (py_prefix n s) = min n (length s)"
  by (simp add: py_prefix_def)

lemma py_prefix_short [py_simps]: "length s \<le> n \<Longrightarrow> py_prefix n s = s"
  by (simp add: py_prefix_def)

lemma py_endswith_append [py_simps]: "py_endswith (s @ suf) suf"
  by (simp add: py_endswith_def)

lemma py_split_acc_nonempty [py_simps]: "py_split_acc d cur s \<noteq> []"
  by (induction d cur s rule: py_split_acc.induct) auto

lemma py_split_acc_no_sep:
  "d \<notin> set s \<Longrightarrow> py_split_acc d cur s = [rev cur @ s]"
  by (induction d cur s rule: py_split_acc.induct) auto

text \<open>The last piece of a split is the text after the last separator.\<close>

lemma last_py_split_acc:
  "last (py_split_acc d cur s) =
     (if d \<in> set s then rev (takeWhile (\<lambda>c. c \<noteq> d) (rev s)) else rev cur @ s)"
proof (induction d cur s rule: py_split_acc.induct)
  case (1 d cur)
  then show ?case by simp
next
  case (2 d cur c cs)
  show ?case
  proof (cases "c = d")
    case True
    with "2.IH"(1) show ?thesis
      by (auto simp: py_split_acc_nonempty takeWhile_append)
  next
    case False
    with "2.IH"(2) show ?thesis
      by (auto simp: takeWhile_append)
  qed
qed

lemma last_py_split:
  "last (py_split d s) =
     (if d \<in> set s then rev (takeWhile (\<lambda>c. c \<noteq> d) (rev s)) else s)"
  by (simp add: py_split_def last_py_split_acc)

lemma last_py_rsplit1:
  "last (py_rsplit1 d s) =
     (if d \<in> set s then rev (takeWhile (\<lambda>c. c \<noteq> d) (rev s)) else s)"
  by (simp add: py_rsplit1_def)

lemma rev_takeWhile_after_sep [py_simps]:
  "d \<notin> set k \<Longrightarrow> rev (takeWhile (\<lambda>c. c \<noteq> d) (rev (u @ d # k))) = k"
  by (auto simp: takeWhile_append)

end
