(* ===== verification/Keys.thy ===== *)
theory Keys
  imports Flowy_Prelude
begin

text \<open>
  Call keys on the wire (src/flowy/backend/swf.py, lines 646-673). A call identifier
  is an integer; the remote service sees it as the decimal string \<open>str(call_id)\<close>
  for activities, as \<open>'<call_id>:t'\<close> for timers (\<open>_timer_key\<close>) and as
  \<open>'<uuid>-<call_id>'\<close> for sub-workflows (\<open>_subworkflow_key\<close>); the history
  projector recovers the call key with \<open>_timer_call_key\<close> and
  \<open>_subworkflow_call_key\<close>. This theory holds Python's \<open>str\<close> and \<open>int\<close> on
  integers, the key encoders and decoders, and their round trips.
\<close>

section \<open>Python's str() and int() on integers\<close>

definition digit_char :: "nat \<Rightarrow> char" where
  "digit_char d = char_of (48 + d)"

definition char_digit :: "char \<Rightarrow> nat option" where
  "char_digit c = (let n = of_char c in if 48 \<le> n \<and> n \<le> 57 then Some (n - 48) else None)"

fun nat_str :: "nat \<Rightarrow> string" where
  "nat_str n = (if n < 10 then [digit_char n] else nat_str (n div 10) @ [digit_char (n mod 10)])"

declare nat_str.simps [simp del]

text \<open>\<open>str(i)\<close> for a Python int.\<close>

definition int_str :: "int \<Rightarrow> string" where
  "int_str i = (if i < 0 then CHR ''-'' # nat_str (nat (- i)) else nat_str (nat i))"

fun digits_val :: "nat \<Rightarrow> string \<Rightarrow> nat option" where
  "digits_val acc [] = Some acc"
| "digits_val acc (c # cs) =
     (case char_digit c of None \<Rightarrow> None | Some d \<Rightarrow> digits_val (10 * acc + d) cs)"

definition parse_nat :: "string \<Rightarrow> nat option" where
  "parse_nat s = (if s = [] then None else digits_val 0 s)"

text \<open>
  \<open>int(s)\<close> on a string: an optional sign and decimal digits, \<open>ValueError\<close>
  otherwise. (Python also strips surrounding blanks and accepts \<open>_\<close> between
  digits; the keys the engine produces contain neither.)
\<close>

definition py_int :: "string \<Rightarrow> py_error + int" where
  "py_int s =
     (if s \<noteq> [] \<and> hd s = CHR ''-''
      then (case parse_nat (tl s) of None \<Rightarrow> Inl ValueError | Some n \<Rightarrow> Inr (- int n))
      else if s \<noteq> [] \<and> hd s = CHR ''+''
      then (case parse_nat (tl s) of None \<Rightarrow> Inl ValueError | Some n \<Rightarrow> Inr (int n))
      else (case parse_nat s of None \<Rightarrow> Inl ValueError | Some n \<Rightarrow> Inr (int n)))"

section \<open>Key encoders and decoders (swf.py)\<close>

text \<open>\<open>_timer_key(call_key)\<close>: \<open>'%s:t' % call_key\<close>.\<close>

definition timer_key :: "string \<Rightarrow> string" where
  "timer_key k = k @ '':t''"

text \<open>
  \<open>_timer_call_key(timer_key)\<close>: assert the \<open>':t'\<close> suffix and strip it. The
  body names \<open>timer_id\<close>, which is bound nowhere (a \<open>NameError\<close> as written);
  the model reads it as the parameter, the evident intent (see the findings).
\<close>

definition timer_call_key :: "string \<Rightarrow> py_error + string" where
  "timer_call_key t =
     (if py_endswith t '':t'' then Inr (take (length t - 2) t) else Inl AssertionError)"

text \<open>
  \<open>_subworkflow_key(call_key)\<close>: \<open>'%s-%s' % (uuid.uuid4(), call_key)\<close>. The
  fresh UUID is an argument: any string.
\<close>

definition subworkflow_key :: "string \<Rightarrow> string \<Rightarrow> string" where
  "subworkflow_key uuid k = uuid @ ''-'' @ k"

text \<open>\<open>_subworkflow_call_key(w)\<close>: \<open>w.split('-')[-1]\<close>.\<close>

definition subworkflow_call_key :: "string \<Rightarrow> string" where
  "subworkflow_call_key w = last (py_split CHR ''-'' w)"

text \<open>\<open>_subworkflow_id(w)\<close>: \<open>w.rsplit('-', 1)[-1]\<close>.\<close>

definition subworkflow_id :: "string \<Rightarrow> string" where
  "subworkflow_id w = last (py_rsplit1 CHR ''-'' w)"

text \<open>
  \<open>_timer_encode(val, name)\<close>: \<open>None\<close> stays unset; otherwise the value is
  clamped at 0 and must then be strictly positive, else \<open>ValueError\<close>.
\<close>

definition timer_encode :: "int option \<Rightarrow> py_error + string option" where
  "timer_encode v =
     (case v of
        None \<Rightarrow> Inr None
      | Some x \<Rightarrow> (let x' = max x 0 in if x' = 0 then Inl ValueError else Inr (Some (int_str x'))))"

section \<open>Decimal digits\<close>

lemma digit_char_simps [simp]:
  "digit_char 0 = CHR ''0''" "digit_char 1 = CHR ''1''" "digit_char 2 = CHR ''2''"
  "digit_char 3 = CHR ''3''" "digit_char 4 = CHR ''4''" "digit_char 5 = CHR ''5''"
  "digit_char 6 = CHR ''6''" "digit_char 7 = CHR ''7''" "digit_char 8 = CHR ''8''"
  "digit_char 9 = CHR ''9''" "digit_char (Suc 0) = CHR ''1''"
  unfolding digit_char_def by code_simp+

lemma char_digit_digit_char [simp]: "d < 10 \<Longrightarrow> char_digit (digit_char d) = Some d"
  by (simp add: digit_char_def char_digit_def)

lemma nat_str_digits: "c \<in> set (nat_str n) \<Longrightarrow> char_digit c \<noteq> None"
proof (induction n rule: nat_str.induct)
  case (1 n)
  then show ?case
    by (cases "n < 10") (auto simp: nat_str.simps [of n])
qed

lemma nat_str_nonempty [simp]: "nat_str n \<noteq> []"
  by (simp add: nat_str.simps [of n])

lemma char_digit_sep [simp]:
  "char_digit CHR ''-'' = None" "char_digit CHR '':'' = None" "char_digit CHR ''+'' = None"
  by (simp_all add: char_digit_def)

lemma nat_str_no_sep [simp]:
  "CHR ''-'' \<notin> set (nat_str n)" "CHR '':'' \<notin> set (nat_str n)" "CHR ''+'' \<notin> set (nat_str n)"
  using nat_str_digits [of _ n] by force+

lemma digits_val_append:
  "digits_val acc (xs @ ys) = (case digits_val acc xs of None \<Rightarrow> None | Some a \<Rightarrow> digits_val a ys)"
  by (induction acc xs rule: digits_val.induct) (auto split: option.splits)

lemma digits_val_nat_str:
  "digits_val acc (nat_str n) = Some (acc * 10 ^ length (nat_str n) + n)"
proof (induction n arbitrary: acc rule: nat_str.induct)
  case (1 n)
  show ?case
  proof (cases "n < 10")
    case True
    then show ?thesis by (simp add: nat_str.simps [of n])
  next
    case False
    then have "nat_str n = nat_str (n div 10) @ [digit_char (n mod 10)]"
      by (simp add: nat_str.simps [of n])
    with False "1.IH" show ?thesis
      by (simp add: digits_val_append algebra_simps)
  qed
qed

lemma parse_nat_nat_str [simp]: "parse_nat (nat_str n) = Some n"
  by (simp add: parse_nat_def digits_val_nat_str)

lemma hd_nat_str_not_sign [simp]:
  "hd (nat_str n) \<noteq> CHR ''-''" "hd (nat_str n) \<noteq> CHR ''+''"
  using hd_in_set [OF nat_str_nonempty, of n] nat_str_no_sep [of n] by metis+

text \<open>\<open>int(str(i)) == i\<close> for every Python int.\<close>

lemma py_int_int_str [simp]: "py_int (int_str i) = Inr i"
  by (simp add: py_int_def int_str_def)

lemma int_str_no_colon [simp]: "CHR '':'' \<notin> set (int_str i)"
  by (simp add: int_str_def)

lemma int_str_nonneg_no_dash [simp]: "0 \<le> i \<Longrightarrow> CHR ''-'' \<notin> set (int_str i)"
  by (simp add: int_str_def)

lemma int_str_inj [simp]: "int_str i = int_str j \<longleftrightarrow> i = j"
  by (metis py_int_int_str sum.inject(2))

lemma digits_val_colon: "CHR '':'' \<in> set s \<Longrightarrow> digits_val acc s = None"
  by (induction acc s rule: digits_val.induct) (auto split: option.splits)

lemma py_int_colon: "CHR '':'' \<in> set s \<Longrightarrow> py_int s = Inl ValueError"
  by (cases s) (auto simp: py_int_def parse_nat_def digits_val_colon split: option.splits)

lemma py_int_timer_key [simp]: "py_int (timer_key k) = Inl ValueError"
  by (simp add: py_int_colon timer_key_def)

lemma py_endswith_set: "py_endswith s suf \<Longrightarrow> set suf \<subseteq> set s"
  unfolding py_endswith_def by (metis set_drop_subset)

lemma timer_call_key_int_str [simp]: "timer_call_key (int_str i) = Inl AssertionError"
  using py_endswith_set [of "int_str i" "'':t''"] by (auto simp: timer_call_key_def)

section \<open>Round trips and equivalences of the key codecs\<close>

lemma last_split_subworkflow_key [py_simps]:
  "CHR ''-'' \<notin> set k \<Longrightarrow> last (py_split CHR ''-'' (uuid @ CHR ''-'' # k)) = k"
  by (simp add: last_py_split takeWhile_append)

lemma timer_call_key_Inr_imp: "timer_call_key t = Inr k \<Longrightarrow> t = timer_key k"
proof -
  assume "timer_call_key t = Inr k"
  then have "py_endswith t '':t''" and k: "k = take (length t - 2) t"
    by (auto simp: timer_call_key_def split: if_splits)
  then have "drop (length t - 2) t = '':t''"
    by (simp add: py_endswith_def numeral_2_eq_2)
  then show "t = timer_key k"
    by (metis append_take_drop_id k timer_key_def)
qed

lemma timer_call_key_timer_key [simp]: "timer_call_key (timer_key k) = Inr k"
  by (simp add: timer_call_key_def timer_key_def py_endswith_def)

lemma timer_key_neq [simp]: "timer_key k \<noteq> k"
  by (simp add: timer_key_def)

lemma timer_key_not_int_str [simp]: "timer_key k \<noteq> int_str i"
  by (metis int_str_no_colon in_set_conv_decomp timer_key_def append_Cons)

text \<open>Timer keys round-trip: \<open>_timer_call_key\<close> accepts exactly the keys
  \<open>_timer_key\<close> produces, and returns the call key that was encoded.\<close>

theorem timer_key_roundtrip: "timer_call_key t = Inr k \<longleftrightarrow> t = timer_key k"
  using timer_call_key_Inr_imp timer_call_key_timer_key by blast

text \<open>Sub-workflow keys round-trip: whatever UUID prefixes it, a call key without a
  dash is recovered by \<open>_subworkflow_call_key\<close>.\<close>

theorem subworkflow_key_roundtrip:
  "CHR ''-'' \<notin> set k \<Longrightarrow> subworkflow_call_key (subworkflow_key uuid k) = k"
  by (simp add: subworkflow_call_key_def subworkflow_key_def last_split_subworkflow_key)

theorem subworkflow_key_roundtrip_witness:
  "CHR ''-'' \<notin> set ''7'' \<and>
   subworkflow_call_key (subworkflow_key ''0b7c3e1a-4f2d-4c59-9a8e-1d2f3a4b5c6d'' ''7'') = ''7''"
  using subworkflow_key_roundtrip [of "''7''" "''0b7c3e1a-4f2d-4c59-9a8e-1d2f3a4b5c6d''"] by simp

text \<open>The two decoders of sub-workflow identifiers agree: \<open>_subworkflow_id\<close>
  (\<open>rsplit('-', 1)[-1]\<close>) and \<open>_subworkflow_call_key\<close> (\<open>split('-')[-1]\<close>)
  return the same text on every string.\<close>

theorem subworkflow_id_eq_call_key: "subworkflow_id w = subworkflow_call_key w"
  by (simp add: subworkflow_id_def subworkflow_call_key_def last_py_split last_py_rsplit1)

text \<open>An integer call identifier survives the sub-workflow encoding exactly when
  it is not negative: the dash of a negative number is taken for the separator.\<close>

theorem subworkflow_int_key_roundtrip_iff:
  "subworkflow_call_key (subworkflow_key uuid (int_str i)) = int_str i \<longleftrightarrow> 0 \<le> i"
proof (cases "0 \<le> i")
  case True
  then show ?thesis
    by (simp add: subworkflow_call_key_def subworkflow_key_def last_split_subworkflow_key)
next
  case False
  then have "int_str i = CHR ''-'' # nat_str (nat (- i))"
    by (simp add: int_str_def)
  moreover have "last (py_split CHR ''-'' ((uuid @ ''-'') @ CHR ''-'' # nat_str (nat (- i)))) =
      nat_str (nat (- i))"
    by (rule last_split_subworkflow_key) simp
  ultimately show ?thesis
    using False by (simp add: subworkflow_call_key_def subworkflow_key_def)
qed

end
