(* ===== verification/History.thy ===== *)
theory History
  imports Keys
begin

text \<open>
  The history projector, \<open>parse_events\<close> in src/flowy/backend/swf.py (lines
  414-493): one left-to-right scan over the events of a workflow execution that
  builds the snapshot \<open>(running, timedout, results, errors, order)\<close>, keeping the
  transient index \<open>event2call\<close> from the \<open>eventId\<close> of a scheduling event to
  its call key. Every Python exception the scan can raise (\<open>KeyError\<close> from the
  index or from \<open>set.remove\<close>, \<open>AssertionError\<close> from a timer key) is a left
  value. The theory proves the snapshot invariant (the four parts are pairwise
  disjoint, \<open>order\<close> is duplicate-free) for histories that schedule each call key
  once, and that the four-set snapshot refines a per-key status machine.
\<close>

section \<open>Events and the snapshot\<close>

text \<open>
  The event kinds the scan distinguishes, each with the attributes it reads; every
  other \<open>eventType\<close> (\<open>WorkflowExecutionStarted\<close>, decision-task events, ...)
  is \<open>OtherEvent\<close> and is skipped.
\<close>

datatype event =
    ActivityTaskScheduled int call_key           \<comment> \<open>\<open>eventId\<close>, \<open>activityId\<close>\<close>
  | ActivityTaskCompleted int string             \<comment> \<open>\<open>scheduledEventId\<close>, \<open>result\<close>\<close>
  | ActivityTaskFailed int string                \<comment> \<open>\<open>scheduledEventId\<close>, \<open>reason\<close>\<close>
  | ActivityTaskTimedOut int                     \<comment> \<open>\<open>scheduledEventId\<close>\<close>
  | ScheduleActivityTaskFailed call_key string   \<comment> \<open>\<open>activityId\<close>, \<open>cause\<close>\<close>
  | StartChildWorkflowExecutionInitiated string  \<comment> \<open>\<open>workflowId\<close>\<close>
  | ChildWorkflowExecutionCompleted string string  \<comment> \<open>\<open>workflowId\<close>, \<open>result\<close>\<close>
  | ChildWorkflowExecutionFailed string string   \<comment> \<open>\<open>workflowId\<close>, \<open>reason\<close>\<close>
  | ChildWorkflowExecutionTimedOut string        \<comment> \<open>\<open>workflowId\<close>\<close>
  | StartChildWorkflowExecutionFailed string string  \<comment> \<open>\<open>workflowId\<close>, \<open>cause\<close>\<close>
  | TimerStarted string                          \<comment> \<open>\<open>timerId\<close>\<close>
  | TimerFired string                            \<comment> \<open>\<open>timerId\<close>\<close>
  | OtherEvent string                            \<comment> \<open>\<open>eventType\<close>\<close>

record snapshot =
  running :: "call_key set"
  timedout :: "call_key set"
  results :: "call_key \<rightharpoonup> pyval"
  errors :: "call_key \<rightharpoonup> string"
  order :: "call_key list"

text \<open>The scan's local state: the snapshot under construction and \<open>event2call\<close>.\<close>

record parse_state = snapshot +
  event2call :: "int \<rightharpoonup> call_key"

definition parse_init :: parse_state where
  "parse_init =
     \<lparr>running = {}, timedout = {}, results = Map.empty, errors = Map.empty, order = [],
      event2call = Map.empty\<rparr>"

section \<open>One event\<close>

text \<open>The three terminal updates shared by activities and sub-workflows.\<close>

definition finish_result :: "call_key \<Rightarrow> pyval \<Rightarrow> parse_state \<Rightarrow> py_error + parse_state" where
  "finish_result k v st =
     py_bind (py_set_remove k (running st))
       (\<lambda>r. Inr (st\<lparr>running := r, results := (results st)(k \<mapsto> v), order := order st @ [k]\<rparr>))"

definition finish_error :: "call_key \<Rightarrow> string \<Rightarrow> parse_state \<Rightarrow> py_error + parse_state" where
  "finish_error k reason st =
     py_bind (py_set_remove k (running st))
       (\<lambda>r. Inr (st\<lparr>running := r, errors := (errors st)(k \<mapsto> reason), order := order st @ [k]\<rparr>))"

definition finish_timeout :: "call_key \<Rightarrow> parse_state \<Rightarrow> py_error + parse_state" where
  "finish_timeout k st =
     py_bind (py_set_remove k (running st))
       (\<lambda>r. Inr (st\<lparr>running := r, timedout := insert k (timedout st), order := order st @ [k]\<rparr>))"

text \<open>A rejected schedule: the call never ran, it is an error at once.\<close>

definition schedule_failed :: "call_key \<Rightarrow> string \<Rightarrow> parse_state \<Rightarrow> parse_state" where
  "schedule_failed k cause st = st\<lparr>errors := (errors st)(k \<mapsto> cause), order := order st @ [k]\<rparr>"

fun parse_event :: "parse_state \<Rightarrow> event \<Rightarrow> py_error + parse_state" where
  "parse_event st (ActivityTaskScheduled eid k) =
     Inr (st\<lparr>event2call := (event2call st)(eid \<mapsto> k), running := insert k (running st)\<rparr>)"
| "parse_event st (ActivityTaskCompleted sid r) =
     py_bind (py_dict_get (event2call st) sid) (\<lambda>k. finish_result k (PyStr r) st)"
| "parse_event st (ActivityTaskFailed sid reason) =
     py_bind (py_dict_get (event2call st) sid) (\<lambda>k. finish_error k reason st)"
| "parse_event st (ActivityTaskTimedOut sid) =
     py_bind (py_dict_get (event2call st) sid) (\<lambda>k. finish_timeout k st)"
| "parse_event st (ScheduleActivityTaskFailed k cause) = Inr (schedule_failed k cause st)"
| "parse_event st (StartChildWorkflowExecutionInitiated w) =
     Inr (st\<lparr>running := insert (subworkflow_call_key w) (running st)\<rparr>)"
| "parse_event st (ChildWorkflowExecutionCompleted w r) =
     finish_result (subworkflow_call_key w) (PyStr r) st"
| "parse_event st (ChildWorkflowExecutionFailed w reason) =
     finish_error (subworkflow_call_key w) reason st"
| "parse_event st (ChildWorkflowExecutionTimedOut w) =
     finish_timeout (subworkflow_call_key w) st"
| "parse_event st (StartChildWorkflowExecutionFailed w cause) =
     Inr (schedule_failed (subworkflow_call_key w) cause st)"
| "parse_event st (TimerStarted t) =
     py_bind (timer_call_key t) (\<lambda>k. Inr (st\<lparr>running := insert k (running st)\<rparr>))"
| "parse_event st (TimerFired t) =
     py_bind (timer_call_key t) (\<lambda>k.
       py_bind (py_set_remove k (running st)) (\<lambda>r.
         Inr (st\<lparr>running := r, results := (results st)(t \<mapsto> PyNone)\<rparr>)))"
| "parse_event st (OtherEvent ty) = Inr st"

section \<open>The scan\<close>

fun parse_events_from :: "parse_state \<Rightarrow> event list \<Rightarrow> py_error + parse_state" where
  "parse_events_from st [] = Inr st"
| "parse_events_from st (e # es) = py_bind (parse_event st e) (\<lambda>st'. parse_events_from st' es)"

definition parse_events :: "event list \<Rightarrow> py_error + snapshot" where
  "parse_events evs = py_bind (parse_events_from parse_init evs) (\<lambda>st. Inr (snapshot.truncate st))"

section \<open>The snapshot invariant\<close>

text \<open>
  The parts of a snapshot: running \<open>R\<close>, timed out \<open>T\<close>, with a result
  \<open>D\<close>, with an error \<open>E\<close>, arrival order \<open>L\<close>.
\<close>

definition parts_disjoint :: "'k set \<Rightarrow> 'k set \<Rightarrow> 'k set \<Rightarrow> 'k set \<Rightarrow> 'k list \<Rightarrow> bool" where
  "parts_disjoint R T D E L \<longleftrightarrow>
     R \<inter> T = {} \<and> R \<inter> D = {} \<and> R \<inter> E = {} \<and> T \<inter> D = {} \<and> T \<inter> E = {} \<and> D \<inter> E = {} \<and>
     distinct L \<and> set L \<subseteq> T \<union> D \<union> E"

definition snap_inv :: "'a snapshot_scheme \<Rightarrow> bool" where
  "snap_inv s \<longleftrightarrow>
     parts_disjoint (running s) (timedout s) (dom (results s)) (dom (errors s)) (order s)"

text \<open>A key is fresh when no part of the snapshot mentions it yet.\<close>

definition fresh_for :: "'a snapshot_scheme \<Rightarrow> call_key \<Rightarrow> bool" where
  "fresh_for s k \<longleftrightarrow>
     k \<notin> running s \<and> k \<notin> timedout s \<and> k \<notin> dom (results s) \<and> k \<notin> dom (errors s)"

text \<open>
  The well-formedness the remote service guarantees: an event that introduces a call
  key introduces a fresh one; a fired timer's tagged key names no call.
\<close>

fun event_fresh :: "parse_state \<Rightarrow> event \<Rightarrow> bool" where
  "event_fresh st (ActivityTaskScheduled eid k) = fresh_for st k"
| "event_fresh st (ScheduleActivityTaskFailed k cause) = fresh_for st k"
| "event_fresh st (StartChildWorkflowExecutionInitiated w) = fresh_for st (subworkflow_call_key w)"
| "event_fresh st (StartChildWorkflowExecutionFailed w cause) =
     fresh_for st (subworkflow_call_key w)"
| "event_fresh st (TimerStarted t) = (case timer_call_key t of Inl e \<Rightarrow> True | Inr k \<Rightarrow> fresh_for st k)"
| "event_fresh st (TimerFired t) = (t \<notin> running st \<and> t \<notin> timedout st \<and> t \<notin> dom (errors st))"
| "event_fresh st e = True"

fun fresh_history :: "parse_state \<Rightarrow> event list \<Rightarrow> bool" where
  "fresh_history st [] = True"
| "fresh_history st (e # es) =
     (event_fresh st e \<and> (case parse_event st e of Inl err \<Rightarrow> True | Inr st' \<Rightarrow> fresh_history st' es))"

section \<open>The abstract view: one status per call key\<close>

datatype call_status = NotFound | Running | Completed pyval | Failed string | TimedOut

definition snap_status :: "'a snapshot_scheme \<Rightarrow> call_key \<Rightarrow> call_status" where
  "snap_status s k =
     (if k \<in> running s then Running
      else if k \<in> timedout s then TimedOut
      else (case errors s k of
              Some r \<Rightarrow> Failed r
            | None \<Rightarrow> (case results s k of Some v \<Rightarrow> Completed v | None \<Rightarrow> NotFound)))"

type_synonym abs_state = "(int \<rightharpoonup> call_key) \<times> (call_key \<Rightarrow> call_status)"

definition abs_of :: "parse_state \<Rightarrow> abs_state" where
  "abs_of st = (event2call st, snap_status st)"

text \<open>
  The specification of the scan: each event moves one call key (two for a fired
  timer) to its new status; a terminal event for a call that is not running raises.
\<close>

definition abs_finish :: "call_key \<Rightarrow> call_status \<Rightarrow> abs_state \<Rightarrow> py_error + abs_state" where
  "abs_finish k s a = (if snd a k = Running then Inr (fst a, (snd a)(k := s)) else Inl KeyError)"

fun abs_step :: "abs_state \<Rightarrow> event \<Rightarrow> py_error + abs_state" where
  "abs_step (m, f) (ActivityTaskScheduled eid k) = Inr (m(eid \<mapsto> k), f(k := Running))"
| "abs_step (m, f) (ActivityTaskCompleted sid r) =
     py_bind (py_dict_get m sid) (\<lambda>k. abs_finish k (Completed (PyStr r)) (m, f))"
| "abs_step (m, f) (ActivityTaskFailed sid reason) =
     py_bind (py_dict_get m sid) (\<lambda>k. abs_finish k (Failed reason) (m, f))"
| "abs_step (m, f) (ActivityTaskTimedOut sid) =
     py_bind (py_dict_get m sid) (\<lambda>k. abs_finish k TimedOut (m, f))"
| "abs_step (m, f) (ScheduleActivityTaskFailed k cause) = Inr (m, f(k := Failed cause))"
| "abs_step (m, f) (StartChildWorkflowExecutionInitiated w) =
     Inr (m, f(subworkflow_call_key w := Running))"
| "abs_step (m, f) (ChildWorkflowExecutionCompleted w r) =
     abs_finish (subworkflow_call_key w) (Completed (PyStr r)) (m, f)"
| "abs_step (m, f) (ChildWorkflowExecutionFailed w reason) =
     abs_finish (subworkflow_call_key w) (Failed reason) (m, f)"
| "abs_step (m, f) (ChildWorkflowExecutionTimedOut w) =
     abs_finish (subworkflow_call_key w) TimedOut (m, f)"
| "abs_step (m, f) (StartChildWorkflowExecutionFailed w cause) =
     Inr (m, f(subworkflow_call_key w := Failed cause))"
| "abs_step (m, f) (TimerStarted t) = py_bind (timer_call_key t) (\<lambda>k. Inr (m, f(k := Running)))"
| "abs_step (m, f) (TimerFired t) =
     py_bind (timer_call_key t) (\<lambda>k.
       py_bind (abs_finish k NotFound (m, f)) (\<lambda>(m', f'). Inr (m', f'(t := Completed PyNone))))"
| "abs_step (m, f) (OtherEvent ty) = Inr (m, f)"

text \<open>Events that bring a call key into \<open>running\<close>, and terminal events of the
  activity scheduled by event \<open>sid\<close>.\<close>

fun introduces :: "event \<Rightarrow> bool" where
  "introduces (ActivityTaskScheduled eid k) = True"
| "introduces (StartChildWorkflowExecutionInitiated w) = True"
| "introduces (TimerStarted t) = True"
| "introduces e = False"

fun terminal_for :: "int \<Rightarrow> event \<Rightarrow> bool" where
  "terminal_for sid (ActivityTaskCompleted s r) = (s = sid)"
| "terminal_for sid (ActivityTaskFailed s r) = (s = sid)"
| "terminal_for sid (ActivityTaskTimedOut s) = (s = sid)"
| "terminal_for sid e = False"

fun abs_run :: "abs_state \<Rightarrow> event list \<Rightarrow> py_error + abs_state" where
  "abs_run a [] = Inr a"
| "abs_run a (e # es) = py_bind (abs_step a e) (\<lambda>a'. abs_run a' es)"

section \<open>Lemmas: the invariant\<close>

text \<open>How each kind of event moves a key between the parts of a snapshot.\<close>

lemma pd_move_T:
  "k \<in> R \<Longrightarrow> parts_disjoint R T D E L \<Longrightarrow> parts_disjoint (R - {k}) (insert k T) D E (L @ [k])"
  by (auto simp: parts_disjoint_def)
lemma pd_move_D:
  "k \<in> R \<Longrightarrow> parts_disjoint R T D E L \<Longrightarrow> parts_disjoint (R - {k}) T (insert k D) E (L @ [k])"
  by (auto simp: parts_disjoint_def)
lemma pd_move_E:
  "k \<in> R \<Longrightarrow> parts_disjoint R T D E L \<Longrightarrow> parts_disjoint (R - {k}) T D (insert k E) (L @ [k])"
  by (auto simp: parts_disjoint_def)
lemma pd_add_R:
  "k \<notin> R \<union> T \<union> D \<union> E \<Longrightarrow> parts_disjoint R T D E L \<Longrightarrow> parts_disjoint (insert k R) T D E L"
  by (auto simp: parts_disjoint_def)
lemma pd_add_E:
  "k \<notin> R \<union> T \<union> D \<union> E \<Longrightarrow> parts_disjoint R T D E L \<Longrightarrow> parts_disjoint R T D (insert k E) (L @ [k])"
  by (auto simp: parts_disjoint_def)
lemma pd_fire:
  "t \<notin> R \<Longrightarrow> t \<notin> T \<Longrightarrow> t \<notin> E \<Longrightarrow> parts_disjoint R T D E L \<Longrightarrow> parts_disjoint (R - {k}) T (insert t D) E L"
  by (auto simp: parts_disjoint_def)

lemma snap_inv_running:
  "snap_inv s \<Longrightarrow> k \<in> running s \<Longrightarrow> k \<notin> timedout s \<and> errors s k = None \<and> results s k = None"
  by (auto simp: snap_inv_def parts_disjoint_def)

lemma snap_inv_truncate [simp]: "snap_inv (snapshot.truncate st) = snap_inv st"
  by (simp add: snap_inv_def snapshot.defs)

lemma snap_inv_parse_init: "snap_inv parse_init"
  by (simp add: snap_inv_def parts_disjoint_def parse_init_def)

lemma finish_result_inv:
  "finish_result k v st = Inr st' \<Longrightarrow> snap_inv st \<Longrightarrow> snap_inv st'"
  by (auto simp: finish_result_def snap_inv_def py_bind_Inr_iff py_simps intro: pd_move_D)

lemma finish_error_inv:
  "finish_error k r st = Inr st' \<Longrightarrow> snap_inv st \<Longrightarrow> snap_inv st'"
  by (auto simp: finish_error_def snap_inv_def py_bind_Inr_iff py_simps intro: pd_move_E)

lemma finish_timeout_inv:
  "finish_timeout k st = Inr st' \<Longrightarrow> snap_inv st \<Longrightarrow> snap_inv st'"
  by (auto simp: finish_timeout_def snap_inv_def py_bind_Inr_iff py_simps intro: pd_move_T)

lemma parse_event_inv:
  assumes "parse_event st e = Inr st'" "snap_inv st" "event_fresh st e"
  shows "snap_inv st'"
proof (cases e)
  case (ActivityTaskScheduled eid k)
  with assms show ?thesis
    by (auto simp: snap_inv_def fresh_for_def intro: pd_add_R)
next
  case (ActivityTaskCompleted sid r)
  with assms show ?thesis
    by (auto simp: py_bind_Inr_iff intro: finish_result_inv)
next
  case (ActivityTaskFailed sid r)
  with assms show ?thesis
    by (auto simp: py_bind_Inr_iff intro: finish_error_inv)
next
  case (ActivityTaskTimedOut sid)
  with assms show ?thesis
    by (auto simp: py_bind_Inr_iff intro: finish_timeout_inv)
next
  case (ScheduleActivityTaskFailed k c)
  with assms show ?thesis
    by (auto simp: snap_inv_def fresh_for_def schedule_failed_def intro: pd_add_E)
next
  case (StartChildWorkflowExecutionInitiated w)
  with assms show ?thesis
    by (auto simp: snap_inv_def fresh_for_def intro: pd_add_R)
next
  case (ChildWorkflowExecutionCompleted w r)
  with assms show ?thesis by (auto intro: finish_result_inv)
next
  case (ChildWorkflowExecutionFailed w r)
  with assms show ?thesis by (auto intro: finish_error_inv)
next
  case (ChildWorkflowExecutionTimedOut w)
  with assms show ?thesis by (auto intro: finish_timeout_inv)
next
  case (StartChildWorkflowExecutionFailed w c)
  with assms show ?thesis
    by (auto simp: snap_inv_def fresh_for_def schedule_failed_def intro: pd_add_E)
next
  case (TimerStarted t)
  with assms show ?thesis
    by (auto simp: py_bind_Inr_iff snap_inv_def fresh_for_def intro: pd_add_R)
next
  case (TimerFired t)
  with assms show ?thesis
    by (auto simp: py_bind_Inr_iff py_simps snap_inv_def intro: pd_fire)
next
  case (OtherEvent ty)
  with assms show ?thesis by simp
qed

lemma parse_events_from_inv:
  "parse_events_from st evs = Inr st' \<Longrightarrow> snap_inv st \<Longrightarrow> fresh_history st evs \<Longrightarrow> snap_inv st'"
proof (induction st evs rule: parse_events_from.induct)
  case (1 st)
  then show ?case by simp
next
  case (2 st e es)
  then obtain st1 where st1: "parse_event st e = Inr st1" "parse_events_from st1 es = Inr st'"
    by (auto simp: py_bind_Inr_iff)
  with "2.prems" have "snap_inv st1" "fresh_history st1 es"
    by (auto intro: parse_event_inv)
  with st1 "2.IH" show ?case by blast
qed


section \<open>Lemmas: refinement of the per-key status machine\<close>

lemma snap_status_Running_iff [simp]: "snap_status s k = Running \<longleftrightarrow> k \<in> running s"
  by (simp add: snap_status_def split: option.splits)

lemma snap_status_add_running:
  "snap_status (s\<lparr>running := insert k (running s)\<rparr>) = (snap_status s)(k := Running)"
  by (auto simp: snap_status_def fun_eq_iff split: option.splits)

lemma abs_of_add_running:
  "abs_of (st\<lparr>running := insert k (running st)\<rparr>) = (event2call st, (snap_status st)(k := Running))"
  by (simp add: abs_of_def snap_status_add_running)

lemma finish_result_refines:
  "snap_inv st \<Longrightarrow> map_sum id abs_of (finish_result k v st) = abs_finish k (Completed v) (abs_of st)"
  by (cases "k \<in> running st")
     (auto simp: finish_result_def abs_finish_def abs_of_def py_set_remove_def snap_status_def
        fun_eq_iff dest: snap_inv_running split: option.splits)

lemma finish_error_refines:
  "snap_inv st \<Longrightarrow> map_sum id abs_of (finish_error k r st) = abs_finish k (Failed r) (abs_of st)"
  by (cases "k \<in> running st")
     (auto simp: finish_error_def abs_finish_def abs_of_def py_set_remove_def snap_status_def
        fun_eq_iff dest: snap_inv_running split: option.splits)

lemma finish_timeout_refines:
  "snap_inv st \<Longrightarrow> map_sum id abs_of (finish_timeout k st) = abs_finish k TimedOut (abs_of st)"
  by (cases "k \<in> running st")
     (auto simp: finish_timeout_def abs_finish_def abs_of_def py_set_remove_def snap_status_def
        fun_eq_iff dest: snap_inv_running split: option.splits)

lemma schedule_failed_refines:
  "fresh_for st k \<Longrightarrow> abs_of (schedule_failed k c st) = (event2call st, (snap_status st)(k := Failed c))"
  by (auto simp: schedule_failed_def abs_of_def snap_status_def fresh_for_def fun_eq_iff
        split: option.splits)

lemma timer_fired_refines:
  assumes "snap_inv st" "k \<in> running st" "t \<noteq> k"
    and "t \<notin> running st" "t \<notin> timedout st" "t \<notin> dom (errors st)"
  shows "abs_of (st\<lparr>running := running st - {k}, results := (results st)(t \<mapsto> PyNone)\<rparr>) =
    (event2call st, ((snap_status st)(k := NotFound))(t := Completed PyNone))"
  using assms snap_inv_running [OF assms(1,2)]
  by (auto simp: abs_of_def snap_status_def fun_eq_iff split: option.splits)

lemma dict_get_refines:
  "(\<And>k. event2call st sid = Some k \<Longrightarrow> map_sum id abs_of (g k) = h k) \<Longrightarrow>
   map_sum id abs_of (py_bind (py_dict_get (event2call st) sid) g) = py_bind (py_dict_get (event2call st) sid) h"
  by (auto simp: py_dict_get_def split: option.splits)

lemma parse_event_refines:
  assumes "snap_inv st" "event_fresh st e"
  shows "map_sum id abs_of (parse_event st e) = abs_step (abs_of st) e"
proof (cases e)
  case (ActivityTaskScheduled eid k)
  then show ?thesis
    by (auto simp: abs_of_def snap_status_def fun_eq_iff split: option.splits)
next
  case (ActivityTaskCompleted sid r)
  with assms show ?thesis
    by (simp add: abs_of_def [of st] dict_get_refines finish_result_refines [unfolded abs_of_def [of st]])
next
  case (ActivityTaskFailed sid r)
  with assms show ?thesis
    by (simp add: abs_of_def [of st] dict_get_refines finish_error_refines [unfolded abs_of_def [of st]])
next
  case (ActivityTaskTimedOut sid)
  with assms show ?thesis
    by (simp add: abs_of_def [of st] dict_get_refines finish_timeout_refines [unfolded abs_of_def [of st]])
next
  case (ScheduleActivityTaskFailed k c)
  with assms show ?thesis by (simp add: schedule_failed_refines abs_of_def [of st])
next
  case (StartChildWorkflowExecutionInitiated w)
  then show ?thesis by (simp add: abs_of_add_running abs_of_def [of st])
next
  case (ChildWorkflowExecutionCompleted w r)
  with assms show ?thesis by (simp add: finish_result_refines abs_of_def [of st])
next
  case (ChildWorkflowExecutionFailed w r)
  with assms show ?thesis by (simp add: finish_error_refines abs_of_def [of st])
next
  case (ChildWorkflowExecutionTimedOut w)
  with assms show ?thesis by (simp add: finish_timeout_refines abs_of_def [of st])
next
  case (StartChildWorkflowExecutionFailed w c)
  with assms show ?thesis by (simp add: schedule_failed_refines abs_of_def [of st])
next
  case (TimerStarted t)
  then show ?thesis
    by (cases "timer_call_key t") (simp_all add: abs_of_add_running abs_of_def [of st])
next
  case (TimerFired t)
  show ?thesis
  proof (cases "timer_call_key t")
    case (Inl err)
    with TimerFired show ?thesis by (simp add: abs_of_def)
  next
    case (Inr k)
    then have "t = timer_key k" by (rule timer_call_key_Inr_imp)
    then have "t \<noteq> k" by simp
    show ?thesis
    proof (cases "k \<in> running st")
      case True
      with TimerFired Inr assms \<open>t \<noteq> k\<close> show ?thesis
        by (simp add: py_set_remove_def abs_finish_def timer_fired_refines abs_of_def [of st])
    next
      case False
      with TimerFired Inr show ?thesis
        by (simp add: py_set_remove_def abs_finish_def abs_of_def)
    qed
  qed
next
  case (OtherEvent ty)
  then show ?thesis by (simp add: abs_of_def)
qed

theorem parse_events_from_refines:
  "snap_inv st \<Longrightarrow> fresh_history st evs \<Longrightarrow>
   map_sum id abs_of (parse_events_from st evs) = abs_run (abs_of st) evs"
proof (induction evs arbitrary: st)
  case Nil
  then show ?case by simp
next
  case (Cons e es)
  show ?case
  proof (cases "parse_event st e")
    case (Inl err)
    with Cons.prems parse_event_refines [of st e] have "abs_step (abs_of st) e = Inl err"
      by simp
    with Inl show ?thesis by simp
  next
    case (Inr st1)
    with Cons.prems have "snap_inv st1" "fresh_history st1 es"
      by (auto intro: parse_event_inv)
    moreover from Inr Cons.prems parse_event_refines [of st e]
    have "abs_step (abs_of st) e = Inr (abs_of st1)" by simp
    ultimately show ?thesis using Inr Cons.IH by simp
  qed
qed

section \<open>Lemmas: whole histories\<close>

lemma parse_events_from_append:
  "parse_events_from st (xs @ ys) = py_bind (parse_events_from st xs) (\<lambda>st'. parse_events_from st' ys)"
  by (induction st xs rule: parse_events_from.induct) (auto simp: py_bind_def split: sum.splits)

lemma parse_init_abs [simp]: "abs_of parse_init = (Map.empty, \<lambda>k. NotFound)"
  by (simp add: abs_of_def parse_init_def snap_status_def fun_eq_iff)




text \<open>A fired timer's \<open>None\<close> result is stored under the tagged timer key
  \<open>'<k>:t'\<close>, not under the call key \<open>k\<close>: after the timer for \<open>k\<close> starts and
  fires, \<open>k\<close> itself has no result.\<close>

theorem timer_fired_result_tagged:
  "parse_events [TimerStarted (timer_key k), TimerFired (timer_key k)] =
     Inr \<lparr>running = {}, timedout = {}, results = [timer_key k \<mapsto> PyNone], errors = Map.empty, order = []\<rparr>"
  by (simp add: parse_events_def parse_init_def py_set_remove_def snapshot.defs)


lemma parse_event_not_introducing:
  "\<not> introduces e \<Longrightarrow> parse_event st e = Inr st' \<Longrightarrow>
   running st' \<subseteq> running st \<and> event2call st' = event2call st"
  by (cases e)
     (auto simp: py_bind_Inr_iff py_simps finish_result_def finish_error_def finish_timeout_def
        schedule_failed_def)

lemma parse_events_from_not_introducing:
  "\<not> list_ex introduces evs \<Longrightarrow> parse_events_from st evs = Inr st' \<Longrightarrow>
   running st' \<subseteq> running st \<and> event2call st' = event2call st"
proof (induction evs arbitrary: st)
  case Nil
  then show ?case by simp
next
  case (Cons e es)
  then obtain st1 where "parse_event st e = Inr st1" "parse_events_from st1 es = Inr st'"
    by (auto simp: py_bind_Inr_iff)
  moreover from Cons.prems have "\<not> introduces e" "\<not> list_ex introduces es" by simp_all
  ultimately have "running st1 \<subseteq> running st \<and> event2call st1 = event2call st"
    "running st' \<subseteq> running st1 \<and> event2call st' = event2call st1"
    using Cons.IH parse_event_not_introducing by blast+
  then show ?case by auto
qed

lemma terminal_removes:
  "terminal_for sid e \<Longrightarrow> parse_event st e = Inr st' \<Longrightarrow>
   \<exists>k. event2call st sid = Some k \<and> k \<notin> running st' \<and> event2call st' = event2call st"
  by (cases e)
     (auto simp: py_bind_Inr_iff py_simps finish_result_def finish_error_def finish_timeout_def)

lemma terminal_not_running:
  "terminal_for sid e \<Longrightarrow> event2call st sid = Some k \<Longrightarrow> k \<notin> running st \<Longrightarrow>
   parse_event st e = Inl KeyError"
  by (cases e)
     (auto simp: py_dict_get_def py_set_remove_def finish_result_def finish_error_def finish_timeout_def)

text \<open>At most one terminal event per scheduled activity: a second completion, failure or
  time-out for the same scheduling event, with no scheduling event in between, makes the
  projection raise.\<close>

theorem second_terminal_rejected:
  assumes "terminal_for sid e1" "terminal_for sid e2" "\<not> list_ex introduces mid"
  shows "parse_events_from st (e1 # mid @ [e2]) \<notin> range Inr"
proof (cases "parse_event st e1")
  case (Inl err)
  then show ?thesis by auto
next
  case (Inr st1)
  with assms(1) obtain k where k: "event2call st sid = Some k" "k \<notin> running st1"
    "event2call st1 = event2call st"
    by (blast dest: terminal_removes)
  show ?thesis
  proof (cases "parse_events_from st1 mid")
    case (Inl err)
    with Inr show ?thesis by (auto simp: parse_events_from_append)
  next
    case (Inr st2)
    with assms(3) have "running st2 \<subseteq> running st1" "event2call st2 = event2call st1"
      by (auto dest: parse_events_from_not_introducing)
    with k assms(2) have "parse_event st2 e2 = Inl KeyError"
      by (auto intro: terminal_not_running)
    with Inr \<open>parse_event st e1 = Inr st1\<close> show ?thesis
      by (auto simp: parse_events_from_append)
  qed
qed

theorem second_terminal_rejected_witness:
  "terminal_for 5 (ActivityTaskCompleted 5 ''x'') \<and> terminal_for 5 (ActivityTaskFailed 5 ''boom'')
   \<and> \<not> list_ex introduces [OtherEvent ''DecisionTaskScheduled'']
   \<and> parse_events_from (parse_init\<lparr>event2call := [5 \<mapsto> ''0''], running := {''0''}\<rparr>)
       (ActivityTaskCompleted 5 ''x'' # [OtherEvent ''DecisionTaskScheduled''] @ [ActivityTaskFailed 5 ''boom''])
     \<notin> range Inr"
  using second_terminal_rejected [of 5 "ActivityTaskCompleted 5 ''x''" "ActivityTaskFailed 5 ''boom''"
      "[OtherEvent ''DecisionTaskScheduled'']" "parse_init\<lparr>event2call := [5 \<mapsto> ''0''], running := {''0''}\<rparr>"]
  by simp

end
