(* ===== verification/Scheduler.thy ===== *)
theory Scheduler
  imports Keys
begin

text \<open>
  The decision accumulator, \<open>SWFScheduler\<close> in src/flowy/task.py (lines 262-315):
  the batch of outbound decisions of one decision round, a rate limit on scheduling
  decisions, and a \<open>closed\<close> flag that makes \<open>flush\<close> send the batch once. The
  transport call \<open>respond_decision_task_completed\<close> is recorded in the log
  \<open>sent\<close> together with its outcome, an argument of \<open>flush\<close> (\<open>False\<close> when it
  raises \<open>SWFResponseError\<close>, which the code logs and swallows). The theory proves
  that a round sends at most one batch, that every sent batch respects the rate limit,
  and that a terminal decision (complete, fail, restart) is always sent alone.
\<close>

section \<open>Decisions and proxy descriptors\<close>

text \<open>
  The entries of boto's \<open>Layer1Decisions\<close> batch that the engine produces, with the
  attributes the code sets.
\<close>

datatype decision =
    StartTimer string string                          \<comment> \<open>\<open>start_to_fire_timeout\<close>, \<open>timer_id\<close>\<close>
  | ScheduleActivityTask string string string string  \<comment> \<open>activity id, name, version, input\<close>
  | StartChildWorkflowExecution string string string string  \<comment> \<open>workflow id, name, version, input\<close>
  | CompleteWorkflowExecution string                  \<comment> \<open>result\<close>
  | FailWorkflowExecution string                      \<comment> \<open>reason\<close>
  | ContinueAsNewWorkflowExecution string "string list option"  \<comment> \<open>input, tag list\<close>

fun is_terminal :: "decision \<Rightarrow> bool" where
  "is_terminal (CompleteWorkflowExecution r) = True"
| "is_terminal (FailWorkflowExecution r) = True"
| "is_terminal (ContinueAsNewWorkflowExecution i t) = True"
| "is_terminal d = False"

text \<open>
  The \<open>spec\<close> objects the scheduler hands the batch to (module \<open>flowy.spec\<close>, not
  among the sources) describe one remote activity or sub-workflow; \<open>spec.schedule\<close>
  appends the one scheduling decision and \<open>spec.restart\<close> the continue-as-new
  decision. Both are modelled from the design description.
\<close>

datatype proxy_kind = ActivityProxy | WorkflowProxy

record remote_spec =
  spec_kind :: proxy_kind
  spec_name :: string
  spec_version :: string

definition spec_schedule :: "remote_spec \<Rightarrow> string \<Rightarrow> string \<Rightarrow> decision" where
  "spec_schedule sp cid input =
     (case spec_kind sp of
        ActivityProxy \<Rightarrow> ScheduleActivityTask cid (spec_name sp) (spec_version sp) input
      | WorkflowProxy \<Rightarrow> StartChildWorkflowExecution cid (spec_name sp) (spec_version sp) input)"

definition spec_restart :: "remote_spec \<Rightarrow> string \<Rightarrow> string list option \<Rightarrow> decision" where
  "spec_restart sp input tags = ContinueAsNewWorkflowExecution input tags"

section \<open>The scheduler\<close>

record scheduler =
  sch_token :: token
  rate_limit :: int
  decisions :: "decision list"
  closed :: bool
  sent :: "(token \<times> decision list \<times> bool) list"

text \<open>\<open>SWFScheduler(swf_client, token, rate_limit=64)\<close>.\<close>

definition new_scheduler :: "token \<Rightarrow> int \<Rightarrow> scheduler" where
  "new_scheduler tok lim =
     \<lparr>sch_token = tok, rate_limit = lim, decisions = [], closed = False, sent = []\<rparr>"

text \<open>
  \<open>flush()\<close>: a no-op returning \<open>False\<close> once closed; otherwise close, send the
  batch, and return whether the transport accepted it.
\<close>

definition flush :: "bool \<Rightarrow> scheduler \<Rightarrow> bool \<times> scheduler" where
  "flush ok s =
     (if closed s then (False, s)
      else (ok, s\<lparr>closed := True, sent := sent s @ [(sch_token s, decisions s, ok)]\<rparr>))"

text \<open>\<open>restart\<close>, \<open>fail\<close>, \<open>complete\<close>: replace the batch by one terminal decision
  and flush.\<close>

definition restart :: "bool \<Rightarrow> remote_spec \<Rightarrow> string \<Rightarrow> string list option \<Rightarrow> scheduler \<Rightarrow>
    bool \<times> scheduler" where
  "restart ok sp input tags s = flush ok (s\<lparr>decisions := [spec_restart sp input tags]\<rparr>)"

definition fail :: "bool \<Rightarrow> string \<Rightarrow> scheduler \<Rightarrow> bool \<times> scheduler" where
  "fail ok reason s = flush ok (s\<lparr>decisions := [FailWorkflowExecution (py_prefix 256 reason)]\<rparr>)"

definition complete :: "bool \<Rightarrow> string \<Rightarrow> scheduler \<Rightarrow> bool \<times> scheduler" where
  "complete ok result s = flush ok (s\<lparr>decisions := [CompleteWorkflowExecution result]\<rparr>)"

text \<open>
  The three scheduling operations append one decision while the batch is below the
  rate limit and drop it silently otherwise. A sub-workflow's remote identifier is
  \<open>'<uuid>-<call_id>'\<close>; the UUID is an argument.
\<close>

definition below_limit :: "scheduler \<Rightarrow> bool" where
  "below_limit s \<longleftrightarrow> int (length (decisions s)) < rate_limit s"

definition schedule_timer :: "int \<Rightarrow> int \<Rightarrow> scheduler \<Rightarrow> scheduler" where
  "schedule_timer delay call_id s =
     (if below_limit s
      then s\<lparr>decisions := decisions s @ [StartTimer (int_str delay) (int_str call_id)]\<rparr>
      else s)"

definition schedule_activity :: "remote_spec \<Rightarrow> int \<Rightarrow> string \<Rightarrow> scheduler \<Rightarrow> scheduler" where
  "schedule_activity sp call_id input s =
     (if below_limit s
      then s\<lparr>decisions := decisions s @ [spec_schedule sp (int_str call_id) input]\<rparr>
      else s)"

definition schedule_workflow ::
    "string \<Rightarrow> remote_spec \<Rightarrow> int \<Rightarrow> string \<Rightarrow> scheduler \<Rightarrow> scheduler" where
  "schedule_workflow uuid sp call_id input s =
     (if below_limit s
      then s\<lparr>decisions := decisions s @ [spec_schedule sp (subworkflow_key uuid (int_str call_id)) input]\<rparr>
      else s)"

definition nothing_scheduled :: "scheduler \<Rightarrow> bool" where
  "nothing_scheduled s \<longleftrightarrow> decisions s = [] \<and> \<not> closed s"

section \<open>Runs of the scheduler\<close>

text \<open>
  The operations a decision round can apply to its scheduler, in any order; the
  boolean of \<open>flush\<close>, \<open>restart\<close>, \<open>fail\<close> and \<open>complete\<close> is the outcome
  of the transport call.
\<close>

datatype sched_op =
    OpTimer int int
  | OpActivity remote_spec int string
  | OpWorkflow string remote_spec int string
  | OpFlush bool
  | OpRestart bool remote_spec string "string list option"
  | OpFail bool string
  | OpComplete bool string

fun sched_step :: "scheduler \<Rightarrow> sched_op \<Rightarrow> scheduler" where
  "sched_step s (OpTimer d c) = schedule_timer d c s"
| "sched_step s (OpActivity sp c i) = schedule_activity sp c i s"
| "sched_step s (OpWorkflow u sp c i) = schedule_workflow u sp c i s"
| "sched_step s (OpFlush ok) = snd (flush ok s)"
| "sched_step s (OpRestart ok sp i t) = snd (restart ok sp i t s)"
| "sched_step s (OpFail ok r) = snd (fail ok r s)"
| "sched_step s (OpComplete ok r) = snd (complete ok r s)"

fun sched_run :: "scheduler \<Rightarrow> sched_op list \<Rightarrow> scheduler" where
  "sched_run s [] = s"
| "sched_run s (op # ops) = sched_run (sched_step s op) ops"

text \<open>Scheduling operations, the terminal operations with the decision they send, and
  the decisions a sequence of scheduling operations asks for.\<close>

fun is_schedule_op :: "sched_op \<Rightarrow> bool" where
  "is_schedule_op (OpTimer d c) = True"
| "is_schedule_op (OpActivity sp c i) = True"
| "is_schedule_op (OpWorkflow u sp c i) = True"
| "is_schedule_op op = False"

fun terminal_of :: "sched_op \<Rightarrow> (decision \<times> bool) option" where
  "terminal_of (OpRestart ok sp i t) = Some (spec_restart sp i t, ok)"
| "terminal_of (OpFail ok r) = Some (FailWorkflowExecution (py_prefix 256 r), ok)"
| "terminal_of (OpComplete ok r) = Some (CompleteWorkflowExecution r, ok)"
| "terminal_of op = None"

fun scheduled_decisions :: "sched_op list \<Rightarrow> decision list" where
  "scheduled_decisions [] = []"
| "scheduled_decisions (OpTimer d c # ops) = StartTimer (int_str d) (int_str c) # scheduled_decisions ops"
| "scheduled_decisions (OpActivity sp c i # ops) = spec_schedule sp (int_str c) i # scheduled_decisions ops"
| "scheduled_decisions (OpWorkflow u sp c i # ops) =
     spec_schedule sp (subworkflow_key u (int_str c)) i # scheduled_decisions ops"
| "scheduled_decisions (op # ops) = scheduled_decisions ops"

text \<open>
  A batch the service may receive: within the rate limit (a terminal decision counts
  as one), a terminal decision alone, failure reasons within the 256-character field.
\<close>

definition batch_ok :: "int \<Rightarrow> decision list \<Rightarrow> bool" where
  "batch_ok lim b \<longleftrightarrow>
     int (length b) \<le> max 1 lim \<and> ((\<exists>d \<in> set b. is_terminal d) \<longrightarrow> length b = 1) \<and>
     (\<forall>r. FailWorkflowExecution r \<in> set b \<longrightarrow> length r \<le> 256)"

definition sched_inv :: "scheduler \<Rightarrow> bool" where
  "sched_inv s \<longleftrightarrow>
     (closed s \<longleftrightarrow> sent s \<noteq> []) \<and> length (sent s) \<le> 1 \<and>
     (\<forall>(t, b, ok) \<in> set (sent s). t = sch_token s \<and> batch_ok (rate_limit s) b) \<and>
     (\<not> closed s \<longrightarrow> int (length (decisions s)) \<le> max 0 (rate_limit s) \<and>
                     (\<forall>d \<in> set (decisions s). \<not> is_terminal d))"

section \<open>Lemmas: the scheduler invariant\<close>

lemma sched_step_frame [simp]:
  "sch_token (sched_step s op) = sch_token s" "rate_limit (sched_step s op) = rate_limit s"
  by (cases op; simp add: schedule_timer_def schedule_activity_def schedule_workflow_def
      flush_def restart_def fail_def complete_def)+

lemma sched_run_frame [simp]:
  "sch_token (sched_run s ops) = sch_token s" "rate_limit (sched_run s ops) = rate_limit s"
  by (induction ops arbitrary: s) simp_all

lemma sched_inv_new: "sched_inv (new_scheduler tok lim)"
  by (simp add: sched_inv_def new_scheduler_def)

lemma spec_schedule_not_terminal [simp]: "\<not> is_terminal (spec_schedule sp c i)"
  by (simp add: spec_schedule_def split: proxy_kind.splits)

lemma sched_inv_append:
  "sched_inv s \<Longrightarrow> below_limit s \<Longrightarrow> \<not> is_terminal d \<Longrightarrow>
   sched_inv (s\<lparr>decisions := decisions s @ [d]\<rparr>)"
  by (auto simp: sched_inv_def below_limit_def)

lemma batch_ok_flushable:
  "int (length b) \<le> max 0 lim \<Longrightarrow> \<forall>d \<in> set b. \<not> is_terminal d \<Longrightarrow> batch_ok lim b"
  by (auto simp: batch_ok_def)

lemma batch_ok_single_terminal:
  "is_terminal d \<Longrightarrow> (\<forall>r. d = FailWorkflowExecution r \<longrightarrow> length r \<le> 256) \<Longrightarrow> batch_ok lim [d]"
  by (auto simp: batch_ok_def)

lemma sched_inv_flush:
  "sched_inv s \<Longrightarrow> sched_inv (snd (flush ok s))"
  by (auto simp: sched_inv_def flush_def intro: batch_ok_flushable)

lemma sched_inv_terminal:
  "sched_inv s \<Longrightarrow> is_terminal d \<Longrightarrow> (\<forall>r. d = FailWorkflowExecution r \<longrightarrow> length r \<le> 256) \<Longrightarrow>
   sched_inv (snd (flush ok (s\<lparr>decisions := [d]\<rparr>)))"
  by (auto simp: sched_inv_def flush_def intro: batch_ok_single_terminal)

lemma sched_inv_step: "sched_inv s \<Longrightarrow> sched_inv (sched_step s op)"
  by (cases op)
     (auto simp: schedule_timer_def schedule_activity_def schedule_workflow_def restart_def fail_def
        complete_def spec_restart_def py_simps intro: sched_inv_append sched_inv_flush sched_inv_terminal)

lemma sched_inv_run: "sched_inv s \<Longrightarrow> sched_inv (sched_run s ops)"
  by (induction ops arbitrary: s) (simp_all add: sched_inv_step)

text \<open>C8: Exactly-once flush: whatever the workflow code does with its scheduler in
  one round, at most one batch of decisions is handed to the transport.\<close>

theorem sched_run_sends_once:
  "length (sent (sched_run (new_scheduler tok lim) ops)) \<le> 1"
  using sched_inv_run [OF sched_inv_new, of tok lim ops] by (simp add: sched_inv_def)

text \<open>C9: Every batch a round sends carries the round's task token, holds at most
  \<open>max 1 rate_limit\<close> decisions, holds a terminal decision (complete, fail, restart)
  only alone, and truncates failure reasons to 256 characters.\<close>

theorem sched_run_batches_ok:
  "\<forall>(t, b, ok) \<in> set (sent (sched_run (new_scheduler tok lim) ops)). t = tok \<and> batch_ok lim b"
  using sched_inv_run [OF sched_inv_new, of tok lim ops] by (simp add: sched_inv_def new_scheduler_def)

section \<open>Lemmas: rate limit and terminal decisions\<close>

lemma sched_run_append: "sched_run s (xs @ ys) = sched_run (sched_run s xs) ys"
  by (induction xs arbitrary: s) simp_all

lemma append_below_limit:
  "(if below_limit s then s\<lparr>decisions := decisions s @ [d]\<rparr> else s) =
   s\<lparr>decisions := decisions s @ take (nat (rate_limit s) - length (decisions s)) [d]\<rparr>"
  by (auto simp: below_limit_def)

lemma take_Suc_diff:
  "m < n \<Longrightarrow> x # take (n - Suc m) xs = take (n - m) (x # xs)"
  by (metis Suc_diff_Suc take_Suc_Cons)

lemma sched_run_schedule_ops:
  "list_all is_schedule_op ops \<Longrightarrow>
   sched_run s ops = s\<lparr>decisions := decisions s @
     take (nat (rate_limit s) - length (decisions s)) (scheduled_decisions ops)\<rparr>"
proof (induction ops arbitrary: s rule: scheduled_decisions.induct)
  case 1
  then show ?case by simp
next
  case (2 d c ops)
  then show ?case
    by (cases "below_limit s")
       (auto simp: schedule_timer_def below_limit_def take_Suc_diff nat_diff_distrib)
next
  case (3 sp c i ops)
  then show ?case
    by (cases "below_limit s")
       (auto simp: schedule_activity_def below_limit_def take_Suc_diff)
next
  case (4 u sp c i ops)
  then show ?case
    by (cases "below_limit s")
       (auto simp: schedule_workflow_def below_limit_def take_Suc_diff)
qed simp_all

text \<open>C10: Rate limit: a round that issues a sequence of scheduling requests and then
  flushes sends exactly the first \<open>rate_limit\<close> of them, in order; the rest are
  dropped without an error.\<close>

theorem rate_limit_truncates:
  "list_all is_schedule_op ops \<Longrightarrow>
   sent (sched_run (new_scheduler tok lim) (ops @ [OpFlush ok])) =
     [(tok, take (nat lim) (scheduled_decisions ops), ok)]"
  by (simp add: sched_run_append sched_run_schedule_ops new_scheduler_def flush_def)

text \<open>C11: Terminal exclusivity: after any scheduling requests, a \<open>fail\<close>,
  \<open>complete\<close> or \<open>restart\<close> sends its one decision alone; the accumulated
  scheduling decisions are discarded.\<close>

theorem terminal_replaces_batch:
  "list_all is_schedule_op ops \<Longrightarrow> terminal_of t = Some (d, ok) \<Longrightarrow>
   sent (sched_run (new_scheduler tok lim) (ops @ [t])) = [(tok, [d], ok)]"
  by (cases t)
     (simp_all add: sched_run_append sched_run_schedule_ops new_scheduler_def flush_def
        restart_def fail_def complete_def)

theorem sched_run_batches_ok_witness:
  "(''tok'', [FailWorkflowExecution ''boom''], True) \<in> set (sent (sched_run (new_scheduler ''tok'' 1)
      [OpActivity \<lparr>spec_kind = ActivityProxy, spec_name = ''a'', spec_version = ''1''\<rparr> 0 ''[]'',
       OpFail True ''boom''])) \<and>
   batch_ok 1 [FailWorkflowExecution ''boom'']"
proof -
  have sent: "sent (sched_run (new_scheduler ''tok'' 1)
      [OpActivity \<lparr>spec_kind = ActivityProxy, spec_name = ''a'', spec_version = ''1''\<rparr> 0 ''[]'',
       OpFail True ''boom'']) = [(''tok'', [FailWorkflowExecution ''boom''], True)]"
    by (simp add: new_scheduler_def schedule_activity_def below_limit_def fail_def flush_def
        py_prefix_def)
  show ?thesis
    using sched_run_batches_ok [of "''tok''" 1
        "[OpActivity \<lparr>spec_kind = ActivityProxy, spec_name = ''a'', spec_version = ''1''\<rparr> 0 ''[]'',
          OpFail True ''boom'']"]
    unfolding sent by simp
qed

theorem rate_limit_truncates_witness:
  "list_all is_schedule_op
     [OpActivity \<lparr>spec_kind = ActivityProxy, spec_name = ''a'', spec_version = ''1''\<rparr> 0 ''x'',
      OpTimer 10 1,
      OpActivity \<lparr>spec_kind = ActivityProxy, spec_name = ''a'', spec_version = ''1''\<rparr> 2 ''y'']
   \<and> sent (sched_run (new_scheduler ''tok'' 2)
       ([OpActivity \<lparr>spec_kind = ActivityProxy, spec_name = ''a'', spec_version = ''1''\<rparr> 0 ''x'',
         OpTimer 10 1,
         OpActivity \<lparr>spec_kind = ActivityProxy, spec_name = ''a'', spec_version = ''1''\<rparr> 2 ''y'']
        @ [OpFlush True]))
     = [(''tok'', [ScheduleActivityTask ''0'' ''a'' ''1'' ''x'', StartTimer ''10'' ''1''], True)]"
  using rate_limit_truncates [of
      "[OpActivity \<lparr>spec_kind = ActivityProxy, spec_name = ''a'', spec_version = ''1''\<rparr> 0 ''x'',
        OpTimer 10 1,
        OpActivity \<lparr>spec_kind = ActivityProxy, spec_name = ''a'', spec_version = ''1''\<rparr> 2 ''y'']"
      "''tok''" 2 True]
  by (simp add: spec_schedule_def int_str_def nat_str.simps)

theorem terminal_replaces_batch_witness:
  "list_all is_schedule_op [OpTimer 10 0, OpTimer 10 1] \<and>
   terminal_of (OpRestart True \<lparr>spec_kind = WorkflowProxy, spec_name = ''w'', spec_version = ''1''\<rparr>
     ''[[], {}]'' (Some [''t''])) =
     Some (ContinueAsNewWorkflowExecution ''[[], {}]'' (Some [''t'']), True) \<and>
   sent (sched_run (new_scheduler ''tok'' 64)
     ([OpTimer 10 0, OpTimer 10 1] @
      [OpRestart True \<lparr>spec_kind = WorkflowProxy, spec_name = ''w'', spec_version = ''1''\<rparr>
        ''[[], {}]'' (Some [''t''])])) =
     [(''tok'', [ContinueAsNewWorkflowExecution ''[[], {}]'' (Some [''t''])], True)]"
  using terminal_replaces_batch [of "[OpTimer 10 0, OpTimer 10 1]"
      "OpRestart True \<lparr>spec_kind = WorkflowProxy, spec_name = ''w'', spec_version = ''1''\<rparr>
        ''[[], {}]'' (Some [''t''])"
      "ContinueAsNewWorkflowExecution ''[[], {}]'' (Some [''t''])" True "''tok''" 64]
  by (simp add: spec_restart_def)

end
