(* ===== verification/Replay.thy ===== *)
theory Replay
  imports History Scheduler
begin

text \<open>
  The replay cursor of a decision round: \<open>SWFWorkflow\<close> in src/flowy/task.py
  (lines 137-259). The workflow object holds the snapshot of the round with integer
  call ids, its scheduler, and the cursor \<open>_call_id\<close>. Each call site of the workflow
  code goes through \<open>_schedule\<close>: an optional timer gate (\<open>_search_timer\<close>), a scan
  of the retry window (\<open>_search_result\<close>), a scheduling request for a call not yet
  found, and, in a \<open>finally\<close> block, \<open>_reserve_call_ids\<close>, which moves the cursor
  past the whole block reserved for the call site. The theory proves window
  conservation, the functional behaviour of the window scan against a reference
  definition, locality of each call site to its block, and the replay scenarios of the
  design.
\<close>

section \<open>The workflow object\<close>

text \<open>\<open>_TIMEDOUT, _RUNNING, _ERROR, _FOUND, _NOTFOUND = range(5)\<close>.\<close>

datatype search_state = TIMEDOUT | RUNNING | ERROR | FOUND | NOTFOUND

record workflow =
  wf_scheduler :: scheduler
  wf_running :: "int set"
  wf_timedout :: "int set"
  wf_results :: "int \<rightharpoonup> pyval"
  wf_errors :: "int \<rightharpoonup> string"
  wf_spec :: remote_spec
  wf_tags :: "string list option"
  wf_call_id :: int
  wf_input :: string
  wf_token :: token

text \<open>
  \<open>SWFWorkflow.__init__\<close>: the snapshot's string keys are converted with \<open>int()\<close>;
  one key that is not a numeral raises \<open>ValueError\<close>. A key \<open>k\<close> is read as the
  integer \<open>i\<close> with \<open>str(i) == k\<close>, the form in which the engine writes call ids
  (Python's \<open>int()\<close> also reads non-canonical numerals such as \<open>'007'\<close>, which the
  engine never produces).
\<close>

definition int_keys_ok :: "string set \<Rightarrow> bool" where
  "int_keys_ok A \<longleftrightarrow> (\<forall>k \<in> A. \<not> isl (py_int k))"

definition mk_workflow :: "scheduler \<Rightarrow> string \<Rightarrow> token \<Rightarrow> snapshot \<Rightarrow> remote_spec \<Rightarrow>
    string list option \<Rightarrow> py_error + workflow" where
  "mk_workflow sch input tok s sp tags =
     (if int_keys_ok (running s) \<and> int_keys_ok (timedout s) \<and>
         int_keys_ok (dom (results s)) \<and> int_keys_ok (dom (errors s))
      then Inr \<lparr>wf_scheduler = sch,
                wf_running = {i. int_str i \<in> running s},
                wf_timedout = {i. int_str i \<in> timedout s},
                wf_results = (\<lambda>i. results s (int_str i)),
                wf_errors = (\<lambda>i. errors s (int_str i)),
                wf_spec = sp, wf_tags = tags, wf_call_id = 0, wf_input = input, wf_token = tok\<rparr>
      else Inl ValueError)"

definition has_running :: "workflow \<Rightarrow> bool" where
  "has_running w \<longleftrightarrow> wf_running w \<noteq> {}"

text \<open>\<open>has_scheduled()\<close>, which \<open>SWFScheduler\<close> does not define, read as the negation
  of its \<open>nothing_scheduled()\<close> (see the findings).\<close>

definition has_scheduled :: "scheduler \<Rightarrow> bool" where
  "has_scheduled s \<longleftrightarrow> \<not> nothing_scheduled s"

section \<open>The call-site protocol\<close>

text \<open>\<open>_search_timer()\<close>: a fired timer has a result at the cursor; step past it.\<close>

definition search_timer :: "workflow \<Rightarrow> search_state \<times> workflow" where
  "search_timer w =
     (if wf_call_id w \<in> dom (wf_results w) then (FOUND, w\<lparr>wf_call_id := wf_call_id w + 1\<rparr>)
      else if wf_call_id w \<in> wf_running w then (RUNNING, w)
      else (NOTFOUND, w))"

text \<open>
  \<open>_search_result(retry)\<close>: the loop variable of
  \<open>for self._call_id in range(c, c + retry + 1)\<close> is the cursor itself, so the cursor
  is left on the id where the scan stops (on the last id when all timed out, unchanged
  when the range is empty).
\<close>

definition probe :: "workflow \<Rightarrow> int \<Rightarrow> search_state \<times> pyval" where
  "probe w i =
     (if i \<in> wf_running w then (RUNNING, PyNone)
      else if i \<in> dom (wf_errors w) then (ERROR, PyStr (the (wf_errors w i)))
      else if i \<in> dom (wf_results w) then (FOUND, the (wf_results w i))
      else (NOTFOUND, PyNone))"

fun search_loop :: "workflow \<Rightarrow> int list \<Rightarrow> (search_state \<times> pyval) \<times> workflow" where
  "search_loop w [] = ((TIMEDOUT, PyNone), w)"
| "search_loop w (i # is) =
     (if i \<in> wf_timedout w then search_loop (w\<lparr>wf_call_id := i\<rparr>) is
      else (probe w i, w\<lparr>wf_call_id := i\<rparr>))"

definition search_result :: "int \<Rightarrow> workflow \<Rightarrow> (search_state \<times> pyval) \<times> workflow" where
  "search_result retry w = search_loop w [wf_call_id w .. wf_call_id w + retry]"

text \<open>\<open>_reserve_call_ids(call_id, delay, retry)\<close>.\<close>

definition reserve_call_ids :: "int \<Rightarrow> int \<Rightarrow> int \<Rightarrow> workflow \<Rightarrow> workflow" where
  "reserve_call_ids call_id delay retry w =
     w\<lparr>wf_call_id := 1 + call_id + (if delay > 0 then 1 else 0) + retry\<rparr>"

text \<open>
  The body of \<open>_schedule\<close>. The code calls \<open>self._scheduler.schedule_timer(delay)\<close>
  and \<open>schedule_activity(spec, input)\<close> without the call id that the scheduler's
  methods require; the model passes the cursor, the evident intent (see the findings).
  The UUID of a sub-workflow is a function of its call id.
\<close>

definition timer_gate :: "int \<Rightarrow> workflow \<Rightarrow> search_state \<times> workflow" where
  "timer_gate delay w =
     (case search_timer w of
        (NOTFOUND, w1) \<Rightarrow>
          (RUNNING, w1\<lparr>wf_scheduler := schedule_timer delay (wf_call_id w1) (wf_scheduler w1)\<rparr>)
      | (st, w1) \<Rightarrow> (st, w1))"

definition request :: "(int \<Rightarrow> string) \<Rightarrow> bool \<Rightarrow> remote_spec \<Rightarrow> string \<Rightarrow> workflow \<Rightarrow> workflow" where
  "request uuid is_act sp input w =
     w\<lparr>wf_scheduler :=
        (if is_act then schedule_activity sp (wf_call_id w) input (wf_scheduler w)
         else schedule_workflow (uuid (wf_call_id w)) sp (wf_call_id w) input (wf_scheduler w))\<rparr>"

definition attempt :: "(int \<Rightarrow> string) \<Rightarrow> bool \<Rightarrow> remote_spec \<Rightarrow> string \<Rightarrow> int \<Rightarrow> workflow \<Rightarrow>
    (search_state \<times> pyval) \<times> workflow" where
  "attempt uuid is_act sp input retry w =
     (case search_result retry w of
        ((NOTFOUND, v), w1) \<Rightarrow> ((RUNNING, PyNone), request uuid is_act sp input w1)
      | (r, w1) \<Rightarrow> (r, w1))"

definition schedule_body :: "(int \<Rightarrow> string) \<Rightarrow> bool \<Rightarrow> remote_spec \<Rightarrow> string \<Rightarrow> int \<Rightarrow> int \<Rightarrow>
    workflow \<Rightarrow> (search_state \<times> pyval) \<times> workflow" where
  "schedule_body uuid is_act sp input retry delay w =
     (if delay \<noteq> 0
      then (case timer_gate delay w of
              (FOUND, w1) \<Rightarrow> attempt uuid is_act sp input retry w1
            | (st, w1) \<Rightarrow> ((st, PyNone), w1))
      else attempt uuid is_act sp input retry w)"

text \<open>\<open>_schedule(spec, input, retry, delay, is_act)\<close>, with its \<open>finally\<close>.\<close>

definition schedule_call :: "(int \<Rightarrow> string) \<Rightarrow> bool \<Rightarrow> remote_spec \<Rightarrow> string \<Rightarrow> int \<Rightarrow> int \<Rightarrow>
    workflow \<Rightarrow> (search_state \<times> pyval) \<times> workflow" where
  "schedule_call uuid is_act sp input retry delay w =
     (case schedule_body uuid is_act sp input retry delay w of
        (r, w1) \<Rightarrow> (r, reserve_call_ids (wf_call_id w) delay retry w1))"

text \<open>\<open>schedule_activity\<close> and \<open>schedule_workflow\<close> of \<open>SWFWorkflow\<close>.\<close>

definition wf_schedule_activity :: "remote_spec \<Rightarrow> string \<Rightarrow> int \<Rightarrow> int \<Rightarrow> workflow \<Rightarrow>
    (search_state \<times> pyval) \<times> workflow" where
  "wf_schedule_activity sp input retry delay w = schedule_call (\<lambda>i. []) True sp input retry delay w"

definition wf_schedule_workflow :: "(int \<Rightarrow> string) \<Rightarrow> remote_spec \<Rightarrow> string \<Rightarrow> int \<Rightarrow> int \<Rightarrow>
    workflow \<Rightarrow> (search_state \<times> pyval) \<times> workflow" where
  "wf_schedule_workflow uuid sp input retry delay w = schedule_call uuid False sp input retry delay w"

section \<open>Reference definitions and fixtures\<close>

text \<open>The size of the block of call ids a call site reserves.\<close>

definition block_size :: "int \<Rightarrow> int \<Rightarrow> int" where
  "block_size retry delay = 1 + (if delay > 0 then 1 else 0) + retry"

text \<open>
  The window scan as the design states it: the first id of the window that did not
  time out decides the answer; if every id timed out, the call is exhausted.
\<close>

definition window_answer :: "workflow \<Rightarrow> int \<Rightarrow> int \<Rightarrow> search_state \<times> pyval" where
  "window_answer w c retry =
     (case find (\<lambda>i. i \<notin> wf_timedout w) [c .. c + retry] of
        None \<Rightarrow> (TIMEDOUT, PyNone)
      | Some i \<Rightarrow> probe w i)"

text \<open>A workflow object of a round with the given snapshot, cursor 0 and a fresh
  scheduler (rate limit 64), used to state the design's scenarios.\<close>

definition replay_state :: "int set \<Rightarrow> int set \<Rightarrow> (int \<rightharpoonup> pyval) \<Rightarrow> (int \<rightharpoonup> string) \<Rightarrow> workflow" where
  "replay_state R T D E =
     \<lparr>wf_scheduler = new_scheduler ''tok'' 64, wf_running = R, wf_timedout = T, wf_results = D,
      wf_errors = E, wf_spec = \<lparr>spec_kind = WorkflowProxy, spec_name = ''wf'', spec_version = ''1''\<rparr>,
      wf_tags = None, wf_call_id = 0, wf_input = ''[[], {}]'', wf_token = ''tok''\<rparr>"

text \<open>An activity spec and an input used to instantiate the scenarios.\<close>

definition demo_spec :: remote_spec where
  "demo_spec = \<lparr>spec_kind = ActivityProxy, spec_name = ''double'', spec_version = ''1''\<rparr>"

text \<open>Two workflow objects agree on a set of ids when every lookup the protocol makes
  gives the same answer there.\<close>

definition agree_on :: "int set \<Rightarrow> workflow \<Rightarrow> workflow \<Rightarrow> bool" where
  "agree_on I w1 w2 \<longleftrightarrow>
     (\<forall>i \<in> I. (i \<in> wf_running w1 \<longleftrightarrow> i \<in> wf_running w2) \<and>
              (i \<in> wf_timedout w1 \<longleftrightarrow> i \<in> wf_timedout w2) \<and>
              wf_results w1 i = wf_results w2 i \<and> wf_errors w1 i = wf_errors w2 i)"

section \<open>Lemmas: the window scan and the cursor\<close>

lemma probe_upd [simp]:
  "probe (w\<lparr>wf_call_id := c\<rparr>) i = probe w i" "probe (w\<lparr>wf_scheduler := s\<rparr>) i = probe w i"
  by (simp_all add: probe_def)

lemma search_loop_answer:
  "fst (search_loop w is) =
     (case find (\<lambda>i. i \<notin> wf_timedout w) is of None \<Rightarrow> (TIMEDOUT, PyNone) | Some i \<Rightarrow> probe w i)"
  by (induction w "is" rule: search_loop.induct) (auto split: option.splits)

lemma search_loop_frame:
  "snd (search_loop w is) = w\<lparr>wf_call_id := wf_call_id (snd (search_loop w is))\<rparr>"
  by (induction w "is" rule: search_loop.induct) auto

lemma search_loop_cursor:
  "wf_call_id (snd (search_loop w is)) =
     (case find (\<lambda>i. i \<notin> wf_timedout w) is of
        None \<Rightarrow> (if is = [] then wf_call_id w else last is) | Some i \<Rightarrow> i)"
  by (induction w "is" rule: search_loop.induct) (auto split: option.splits)


text \<open>C1: Window conservation: a call site moves the cursor by exactly
  \<open>1 + (1 if delay > 0 else 0) + retry\<close>, whichever attempt answers and whatever the
  snapshot holds.\<close>

theorem schedule_call_window_conservation:
  "wf_call_id (snd (schedule_call uuid is_act sp input retry delay w)) =
     wf_call_id w + block_size retry delay"
  by (simp add: schedule_call_def reserve_call_ids_def block_size_def split: prod.splits)

lemma agree_on_upd [simp]:
  "agree_on I (w1\<lparr>wf_call_id := c\<rparr>) w2 = agree_on I w1 w2"
  "agree_on I w1 (w2\<lparr>wf_call_id := c\<rparr>) = agree_on I w1 w2"
  "agree_on I (w1\<lparr>wf_scheduler := s\<rparr>) w2 = agree_on I w1 w2"
  "agree_on I w1 (w2\<lparr>wf_scheduler := s\<rparr>) = agree_on I w1 w2"
  by (simp_all add: agree_on_def)

lemma agree_on_mono: "agree_on I w1 w2 \<Longrightarrow> J \<subseteq> I \<Longrightarrow> agree_on J w1 w2"
  by (auto simp: agree_on_def)

lemma agree_on_probe: "agree_on I w1 w2 \<Longrightarrow> i \<in> I \<Longrightarrow> probe w1 i = probe w2 i"
  by (auto simp: agree_on_def probe_def)

lemma agree_on_find:
  "agree_on (set is) w1 w2 \<Longrightarrow>
   find (\<lambda>i. i \<notin> wf_timedout w1) is = find (\<lambda>i. i \<notin> wf_timedout w2) is"
  by (induction "is") (auto simp: agree_on_def)

lemma find_in_set: "find P xs = Some x \<Longrightarrow> x \<in> set xs"
  by (induction xs) (auto split: if_splits)

lemma agree_on_search_loop:
  assumes "agree_on (set is) w1 w2" "wf_call_id w1 = wf_call_id w2"
  shows "fst (search_loop w1 is) = fst (search_loop w2 is) \<and>
         wf_call_id (snd (search_loop w1 is)) = wf_call_id (snd (search_loop w2 is))"
proof -
  have f: "find (\<lambda>i. i \<notin> wf_timedout w1) is = find (\<lambda>i. i \<notin> wf_timedout w2) is"
    using assms(1) by (rule agree_on_find)
  show ?thesis
    using assms f
    by (auto simp: search_loop_answer search_loop_cursor split: option.splits
        dest: find_in_set agree_on_probe)
qed

lemma search_result_frame:
  "snd (search_result retry w) = w\<lparr>wf_call_id := wf_call_id (snd (search_result retry w))\<rparr>"
  unfolding search_result_def by (rule search_loop_frame)

lemma attempt_local:
  assumes "agree_on (set [wf_call_id w1 .. wf_call_id w1 + retry]) w1 w2"
    "wf_call_id w1 = wf_call_id w2" "wf_scheduler w1 = wf_scheduler w2"
  shows "fst (attempt u a sp inp retry w1) = fst (attempt u a sp inp retry w2) \<and>
         wf_scheduler (snd (attempt u a sp inp retry w1)) = wf_scheduler (snd (attempt u a sp inp retry w2))"
proof -
  obtain r1 v1 x1 where s1: "search_result retry w1 = ((r1, v1), x1)" by (metis prod.exhaust)
  obtain r2 v2 x2 where s2: "search_result retry w2 = ((r2, v2), x2)" by (metis prod.exhaust)
  have "fst (search_result retry w1) = fst (search_result retry w2) \<and>
        wf_call_id (snd (search_result retry w1)) = wf_call_id (snd (search_result retry w2))"
    using agree_on_search_loop [OF assms(1,2)] assms(2) by (simp add: search_result_def)
  moreover have "x1 = w1\<lparr>wf_call_id := wf_call_id x1\<rparr>" "x2 = w2\<lparr>wf_call_id := wf_call_id x2\<rparr>"
    using search_result_frame [of retry w1] search_result_frame [of retry w2] s1 s2 by simp_all
  ultimately have "r1 = r2" "v1 = v2" "wf_call_id x1 = wf_call_id x2"
    "wf_scheduler x1 = wf_scheduler x2"
    using s1 s2 assms(3) by (metis fst_conv snd_conv prod.inject workflow.select_convs(1)
        workflow.surjective workflow.update_convs(8))+
  then show ?thesis
    using s1 s2 by (cases r1) (simp_all add: attempt_def request_def)
qed

lemma timer_gate_local:
  assumes "agree_on {wf_call_id w1} w1 w2"
    "wf_call_id w1 = wf_call_id w2" "wf_scheduler w1 = wf_scheduler w2"
  shows "fst (timer_gate d w1) = fst (timer_gate d w2) \<and>
         wf_call_id (snd (timer_gate d w1)) = wf_call_id (snd (timer_gate d w2)) \<and>
         wf_scheduler (snd (timer_gate d w1)) = wf_scheduler (snd (timer_gate d w2)) \<and>
         agree_on I (snd (timer_gate d w1)) (snd (timer_gate d w2)) = agree_on I w1 w2"
proof -
  let ?c = "wf_call_id w1"
  from assms(1) have "wf_results w1 ?c = wf_results w2 ?c" "(?c \<in> wf_running w1) = (?c \<in> wf_running w2)"
    by (auto simp: agree_on_def)
  then show ?thesis
    using assms(2,3) by (simp add: timer_gate_def search_timer_def domIff)
qed

lemma timer_gate_found:
  "fst (timer_gate d w) = FOUND \<Longrightarrow> wf_call_id (snd (timer_gate d w)) = wf_call_id w + 1"
  by (auto simp: timer_gate_def search_timer_def split: if_splits)

lemma schedule_call_parts:
  "fst (schedule_call u a sp inp retry delay w) = fst (schedule_body u a sp inp retry delay w)"
  "wf_scheduler (snd (schedule_call u a sp inp retry delay w)) =
     wf_scheduler (snd (schedule_body u a sp inp retry delay w))"
  by (simp_all add: schedule_call_def reserve_call_ids_def split: prod.splits)

lemma schedule_body_cases:
  "delay = 0 \<Longrightarrow> schedule_body u a sp inp retry delay w = attempt u a sp inp retry w"
  "delay \<noteq> 0 \<Longrightarrow> timer_gate delay w = (FOUND, x) \<Longrightarrow>
     schedule_body u a sp inp retry delay w = attempt u a sp inp retry x"
  "delay \<noteq> 0 \<Longrightarrow> timer_gate delay w = (st, x) \<Longrightarrow> st \<noteq> FOUND \<Longrightarrow>
     schedule_body u a sp inp retry delay w = ((st, PyNone), x)"
  by (simp_all add: schedule_body_def split: search_state.splits)

lemma window_in_block:
  "0 \<le> x \<Longrightarrow> set [c + x .. c + x + retry] \<subseteq> {c ..< c + x + 1 + retry}"
  by auto

text \<open>C2: Replay locality: for non-negative retry and delay, a call site's answer and the
  decisions it adds depend only on the history of the call ids in its own reserved
  block; two snapshots that agree on that block give the same result.\<close>

theorem schedule_call_local:
  assumes agree: "agree_on {c ..< c + block_size retry delay} w1 w2"
    and nonneg: "0 \<le> retry" "0 \<le> delay"
    and cur: "wf_call_id w1 = c" "wf_call_id w2 = c"
    and sch: "wf_scheduler w1 = wf_scheduler w2"
  shows "fst (schedule_call u a sp inp retry delay w1) = fst (schedule_call u a sp inp retry delay w2) \<and>
         wf_scheduler (snd (schedule_call u a sp inp retry delay w1)) =
         wf_scheduler (snd (schedule_call u a sp inp retry delay w2))"
proof (cases "delay = 0")
  case True
  have "agree_on (set [wf_call_id w1 .. wf_call_id w1 + retry]) w1 w2"
    using agree cur True window_in_block [of 0 c retry]
    by (auto intro: agree_on_mono simp: block_size_def)
  then show ?thesis
    using attempt_local [OF _ _ sch] cur True by (simp add: schedule_call_parts schedule_body_cases)
next
  case False
  with nonneg have pos: "delay > 0" by simp
  have blk: "{c ..< c + block_size retry delay} = {c ..< c + 1 + 1 + retry}"
    using pos by (simp add: block_size_def add.commute add.left_commute)
  have a0: "agree_on {wf_call_id w1} w1 w2"
    using agree cur nonneg blk by (auto intro: agree_on_mono)
  obtain st1 x1 where g1: "timer_gate delay w1 = (st1, x1)" by (metis prod.exhaust)
  obtain st2 x2 where g2: "timer_gate delay w2 = (st2, x2)" by (metis prod.exhaust)
  have same: "st1 = st2" "wf_call_id x1 = wf_call_id x2" "wf_scheduler x1 = wf_scheduler x2"
    "agree_on {c ..< c + block_size retry delay} x1 x2"
    using timer_gate_local [OF a0 _ sch, of delay "{c ..< c + block_size retry delay}"] cur g1 g2 agree
    by simp_all
  show ?thesis
  proof (cases "st1 = FOUND")
    case True
    then have "wf_call_id x1 = c + 1"
      using timer_gate_found [of delay w1] g1 cur by simp
    then have "agree_on (set [wf_call_id x1 .. wf_call_id x1 + retry]) x1 x2"
      using same(4) blk window_in_block [of 1 c retry]
      by (auto intro: agree_on_mono simp: add.assoc)
    then have "fst (attempt u a sp inp retry x1) = fst (attempt u a sp inp retry x2) \<and>
         wf_scheduler (snd (attempt u a sp inp retry x1)) = wf_scheduler (snd (attempt u a sp inp retry x2))"
      using attempt_local same(2,3) by blast
    then show ?thesis
      using True same(1) g1 g2 False by (simp add: schedule_call_parts schedule_body_cases)
  next
    case notf: False
    then show ?thesis
      using same(1,3) g1 g2 False by (simp add: schedule_call_parts schedule_body_cases)
  qed
qed

lemmas replay_unfold = wf_schedule_activity_def schedule_call_def schedule_body_def attempt_def
  timer_gate_def search_timer_def search_result_def probe_def request_def reserve_call_ids_def
  schedule_activity_def schedule_timer_def below_limit_def replay_state_def new_scheduler_def

lemma upto_3: "[0..2::int] = [0, 1, 2]" "[1..3::int] = [1, 2, 3]" "[1..1::int] = [1]" "[0..0::int] = [0]"
  by (simp_all add: upto.simps)

text \<open>Retry scenario of the design: with \<open>retry = 2\<close>, round 1 schedules attempt 0;
  once attempt 0 timed out, round 2 schedules attempt 1; once attempt 1 completed with
  \<open>x\<close>, round 3 returns \<open>x\<close>; the cursor ends at 3 every time.\<close>

theorem replay_retry_scenario:
  "wf_schedule_activity sp inp 2 0 (replay_state {} {} Map.empty Map.empty) =
     ((RUNNING, PyNone), (replay_state {} {} Map.empty Map.empty)\<lparr>wf_call_id := 3,
        wf_scheduler := (new_scheduler ''tok'' 64)\<lparr>decisions := [spec_schedule sp ''0'' inp]\<rparr>\<rparr>) \<and>
   wf_schedule_activity sp inp 2 0 (replay_state {} {0} Map.empty Map.empty) =
     ((RUNNING, PyNone), (replay_state {} {0} Map.empty Map.empty)\<lparr>wf_call_id := 3,
        wf_scheduler := (new_scheduler ''tok'' 64)\<lparr>decisions := [spec_schedule sp ''1'' inp]\<rparr>\<rparr>) \<and>
   wf_schedule_activity sp inp 2 0 (replay_state {} {0} [1 \<mapsto> PyStr x] Map.empty) =
     ((FOUND, PyStr x), (replay_state {} {0} [1 \<mapsto> PyStr x] Map.empty)\<lparr>wf_call_id := 3\<rparr>)"
  by (simp add: replay_unfold upto_3 int_str_def nat_str.simps)

text \<open>Timer gate: with a delay, the first round starts a timer at the call's first id,
  a round in which the timer still runs issues nothing, and once the timer's result is
  present the activity is scheduled at the next id.\<close>

theorem replay_timer_scenario:
  "wf_schedule_activity sp inp 0 10 (replay_state {} {} Map.empty Map.empty) =
     ((RUNNING, PyNone), (replay_state {} {} Map.empty Map.empty)\<lparr>wf_call_id := 2,
        wf_scheduler := (new_scheduler ''tok'' 64)\<lparr>decisions := [StartTimer ''10'' ''0'']\<rparr>\<rparr>) \<and>
   wf_schedule_activity sp inp 0 10 (replay_state {0} {} Map.empty Map.empty) =
     ((RUNNING, PyNone), (replay_state {0} {} Map.empty Map.empty)\<lparr>wf_call_id := 2\<rparr>) \<and>
   wf_schedule_activity sp inp 0 10 (replay_state {} {} [0 \<mapsto> PyNone] Map.empty) =
     ((RUNNING, PyNone), (replay_state {} {} [0 \<mapsto> PyNone] Map.empty)\<lparr>wf_call_id := 2,
        wf_scheduler := (new_scheduler ''tok'' 64)\<lparr>decisions := [spec_schedule sp ''1'' inp]\<rparr>\<rparr>)"
  by (simp add: replay_unfold upto_3 int_str_def nat_str.simps)

text \<open>C39: With a negative delay (\<open>if delay:\<close> is true but \<open>int(delay > 0)\<close> is 0)
  a fired timer makes the call site scan the window one id later than the block it
  reserves, so the last id it scans is the first id of the next call site.\<close>

theorem negative_delay_overlaps_next_site:
  assumes "delay < 0" "0 \<le> retry" "wf_call_id w \<in> dom (wf_results w)"
  shows "schedule_call u a sp inp retry delay w =
           (case attempt u a sp inp retry (w\<lparr>wf_call_id := wf_call_id w + 1\<rparr>) of
              (r, w1) \<Rightarrow> (r, w1\<lparr>wf_call_id := wf_call_id w + 1 + retry\<rparr>)) \<and>
         wf_call_id w + 1 + retry \<in> set [wf_call_id w + 1 .. wf_call_id w + 1 + retry]"
  using assms
  by (simp add: schedule_call_def schedule_body_def timer_gate_def search_timer_def
      reserve_call_ids_def split: prod.splits)

theorem negative_delay_overlaps_next_site_witness:
  "(-5::int) < 0 \<and> (0::int) \<le> 0 \<and> wf_call_id (replay_state {} {} [0 \<mapsto> PyNone] Map.empty) \<in>
      dom (wf_results (replay_state {} {} [0 \<mapsto> PyNone] Map.empty)) \<and>
   wf_schedule_activity demo_spec ''[1]'' 0 (-5) (replay_state {} {} [0 \<mapsto> PyNone] Map.empty) =
     ((RUNNING, PyNone), (replay_state {} {} [0 \<mapsto> PyNone] Map.empty)\<lparr>wf_call_id := 1,
        wf_scheduler := (new_scheduler ''tok'' 64)\<lparr>decisions := [spec_schedule demo_spec ''1'' ''[1]'']\<rparr>\<rparr>)"
proof -
  have h: "wf_call_id (replay_state {} {} [0 \<mapsto> PyNone] Map.empty) \<in>
      dom (wf_results (replay_state {} {} [0 \<mapsto> PyNone] Map.empty))"
    by (simp add: replay_state_def)
  show ?thesis
    using h negative_delay_overlaps_next_site [of "-5" 0 "replay_state {} {} [0 \<mapsto> PyNone] Map.empty"
        "\<lambda>i. []" True demo_spec "''[1]''"]
    by (simp add: wf_schedule_activity_def attempt_def search_result_def probe_def request_def
        schedule_activity_def below_limit_def replay_state_def new_scheduler_def upto_3 int_str_def
        nat_str.simps)
qed

text \<open>With a negative retry budget the window is empty: the call reports
  \<open>TIMEDOUT\<close> without scheduling anything, and the cursor advances by
  \<open>1 + retry\<close> (not at all for \<open>retry = -1\<close>).\<close>

theorem negative_retry_exhausted:
  "retry < 0 \<Longrightarrow>
   schedule_call u a sp inp retry 0 w = ((TIMEDOUT, PyNone), w\<lparr>wf_call_id := wf_call_id w + 1 + retry\<rparr>)"
  by (simp add: schedule_call_def schedule_body_def attempt_def search_result_def reserve_call_ids_def)

theorem negative_retry_exhausted_witness:
  "(-1::int) < 0 \<and>
   wf_schedule_activity demo_spec ''[1]'' (-1) 0 (replay_state {} {} Map.empty Map.empty) =
     ((TIMEDOUT, PyNone), replay_state {} {} Map.empty Map.empty)"
  using negative_retry_exhausted [of "-1" "\<lambda>i. []" True demo_spec "''[1]''" "replay_state {} {} Map.empty Map.empty"]
  by (simp add: wf_schedule_activity_def replay_state_def)

theorem schedule_call_local_witness:
  "agree_on {0 ..< 0 + block_size 1 10} (replay_state {} {} Map.empty Map.empty)
      (replay_state {7} {5} [9 \<mapsto> PyStr ''z''] Map.empty) \<and> (0::int) \<le> 1 \<and> (0::int) \<le> 10 \<and>
   fst (wf_schedule_activity demo_spec ''[1]'' 1 10 (replay_state {} {} Map.empty Map.empty)) =
   fst (wf_schedule_activity demo_spec ''[1]'' 1 10 (replay_state {7} {5} [9 \<mapsto> PyStr ''z''] Map.empty)) \<and>
   wf_scheduler (snd (wf_schedule_activity demo_spec ''[1]'' 1 10 (replay_state {} {} Map.empty Map.empty))) =
   wf_scheduler (snd (wf_schedule_activity demo_spec ''[1]'' 1 10 (replay_state {7} {5} [9 \<mapsto> PyStr ''z''] Map.empty)))"
proof -
  have a: "agree_on {0 ..< 0 + block_size 1 10} (replay_state {} {} Map.empty Map.empty)
      (replay_state {7} {5} [9 \<mapsto> PyStr ''z''] Map.empty)"
    by (auto simp: agree_on_def block_size_def replay_state_def)
  show ?thesis
    using a schedule_call_local [OF a, of "\<lambda>i. []" True demo_spec "''[1]''"]
    by (simp add: wf_schedule_activity_def replay_state_def)
qed

end
