(* ===== verification/Frame.thy ===== *)
theory Frame
  imports Replay
begin

text \<open>
  One decision round of a workflow: \<open>Task.__call__\<close> (src/flowy/task.py, lines
  31-45) with the \<open>SWFWorkflow\<close> methods it dispatches to, \<open>_finish\<close>,
  \<open>fail\<close>, \<open>restart\<close> and the inherited \<open>_suspend\<close> (lines 50-57, 165-201). The
  workflow code is a program: a tree whose nodes are the calls the code makes on the
  workflow object (\<open>schedule_activity\<close>, \<open>schedule_workflow\<close>, \<open>restart\<close>),
  each with a continuation that receives the call's result, and whose leaves return a
  value or raise. The theory proves what a round sends: a completion only when nothing
  is pending, a failure or restart alone, at most one batch, and the placeholder
  reasoning of the comment in \<open>_finish\<close>.
\<close>

section \<open>Workflow code\<close>

text \<open>
  What \<open>run()\<close> may return (values are carried as their JSON text): a plain value,
  a \<open>Result\<close>, an \<open>Error\<close> or \<open>Timeout\<close> whose \<open>result()\<close> raises
  \<open>TaskError\<close> with the given message, or a placeholder of a pending call.
\<close>

datatype wf_return =
    RetValue pyval
  | RetResult pyval
  | RetError string
  | RetTimeout string
  | RetPlaceholder

datatype wf_prog =
    Return wf_return
  | Raise string                  \<comment> \<open>any exception other than \<open>SuspendTask\<close>\<close>
  | Suspend                       \<comment> \<open>\<open>raise SuspendTask\<close>\<close>
  | CallActivity remote_spec string int int "search_state \<times> pyval \<Rightarrow> wf_prog"
  | CallWorkflow remote_spec string int int "search_state \<times> pyval \<Rightarrow> wf_prog"
  | Restart "string option" "bool \<Rightarrow> wf_prog"  \<comment> \<open>serialised input, \<open>None\<close> on \<open>TypeError\<close>\<close>

datatype prog_outcome = Returned wf_return | Raised string | Suspended

section \<open>The workflow's methods\<close>

definition on_scheduler :: "(scheduler \<Rightarrow> bool \<times> scheduler) \<Rightarrow> workflow \<Rightarrow> bool \<times> workflow" where
  "on_scheduler f w = (case f (wf_scheduler w) of (b, s) \<Rightarrow> (b, w\<lparr>wf_scheduler := s\<rparr>))"

text \<open>\<open>fail(reason)\<close>: delegate to the scheduler.\<close>

definition wf_fail :: "bool \<Rightarrow> string \<Rightarrow> workflow \<Rightarrow> bool \<times> workflow" where
  "wf_fail ok reason w = on_scheduler (fail ok reason) w"

text \<open>
  \<open>restart(*args, **kwargs)\<close>: serialise the arguments (\<open>TypeError\<close> returns
  \<open>False\<close>), then restart through the scheduler with the workflow's spec and current
  tags. The code also passes \<open>self.token\<close> as a first argument that
  \<open>SWFScheduler.restart\<close> does not take; the model drops it (see the findings).
\<close>

definition wf_restart :: "bool \<Rightarrow> string option \<Rightarrow> workflow \<Rightarrow> bool \<times> workflow" where
  "wf_restart ok input w =
     (case input of
        None \<Rightarrow> (False, w)
      | Some i \<Rightarrow> on_scheduler (restart ok (wf_spec w) i (wf_tags w)) w)"

text \<open>\<open>serialize_result\<close> (\<open>json.dumps\<close>) on a value carried as JSON text.\<close>

definition serialize_result :: "pyval \<Rightarrow> string" where
  "serialize_result v = (case v of PyNone \<Rightarrow> ''null'' | PyStr t \<Rightarrow> t)"

text \<open>The value \<open>r\<close> that \<open>_finish\<close> serialises; a placeholder cannot be serialised.\<close>

fun result_value :: "wf_return \<Rightarrow> pyval option" where
  "result_value (RetValue v) = Some v"
| "result_value (RetResult v) = Some v"
| "result_value r = None"

text \<open>
  \<open>_finish(result)\<close>: an \<open>Error\<close> or \<open>Timeout\<close> fails the workflow; otherwise,
  with nothing scheduled and nothing running, the value is serialised (\<open>TypeError\<close>
  returns \<open>False\<close>) and the workflow completes; else the batch is flushed.
\<close>

definition wf_finish :: "bool \<Rightarrow> wf_return \<Rightarrow> workflow \<Rightarrow> bool \<times> workflow" where
  "wf_finish ok result w =
     (case result of
        RetError m \<Rightarrow> wf_fail ok m w
      | RetTimeout m \<Rightarrow> wf_fail ok m w
      | _ \<Rightarrow>
        (if \<not> has_scheduled (wf_scheduler w) \<and> \<not> has_running w
         then (case result_value result of
                 None \<Rightarrow> (False, w)
               | Some v \<Rightarrow> on_scheduler (complete ok (serialize_result v)) w)
         else on_scheduler (flush ok) w))"

section \<open>Running the workflow code\<close>

text \<open>
  The workflow code runs against the workflow object; the transport outcome \<open>ok\<close>
  and the UUIDs of sub-workflows are arguments of the round.
\<close>

primrec run_prog :: "bool \<Rightarrow> (int \<Rightarrow> string) \<Rightarrow> wf_prog \<Rightarrow> workflow \<Rightarrow> prog_outcome \<times> workflow" where
  "run_prog ok u (Return r) w = (Returned r, w)"
| "run_prog ok u (Raise m) w = (Raised m, w)"
| "run_prog ok u Suspend w = (Suspended, w)"
| "run_prog ok u (CallActivity sp i r d k) w =
     (case wf_schedule_activity sp i r d w of (res, w') \<Rightarrow> run_prog ok u (k res) w')"
| "run_prog ok u (CallWorkflow sp i r d k) w =
     (case wf_schedule_workflow u sp i r d w of (res, w') \<Rightarrow> run_prog ok u (k res) w')"
| "run_prog ok u (Restart i k) w = (case wf_restart ok i w of (b, w') \<Rightarrow> run_prog ok u (k b) w')"

text \<open>The answers the calls of a run receive, in order.\<close>

primrec call_results :: "bool \<Rightarrow> (int \<Rightarrow> string) \<Rightarrow> wf_prog \<Rightarrow> workflow \<Rightarrow> (search_state \<times> pyval) list" where
  "call_results ok u (Return r) w = []"
| "call_results ok u (Raise m) w = []"
| "call_results ok u Suspend w = []"
| "call_results ok u (CallActivity sp i r d k) w =
     (case wf_schedule_activity sp i r d w of (res, w') \<Rightarrow> res # call_results ok u (k res) w')"
| "call_results ok u (CallWorkflow sp i r d k) w =
     (case wf_schedule_workflow u sp i r d w of (res, w') \<Rightarrow> res # call_results ok u (k res) w')"
| "call_results ok u (Restart i k) w =
     (case wf_restart ok i w of (b, w') \<Rightarrow> call_results ok u (k b) w')"

text \<open>
  \<open>Task.__call__\<close>: deserialise the input (\<open>ValueError\<close> returns \<open>False\<close>; the
  argument \<open>run\<close> gives the program for an input, \<open>None\<close> when it does not
  deserialise), run the code, and end the round: \<open>SuspendTask\<close> goes to
  \<open>_suspend\<close>, which \<open>SWFWorkflow\<close> does not override, so the inherited
  \<open>Task._suspend\<close> raises \<open>NotImplementedError\<close>; any other exception fails the
  workflow; a returned value goes to \<open>_finish\<close>.
\<close>

definition workflow_call :: "bool \<Rightarrow> (int \<Rightarrow> string) \<Rightarrow> (string \<Rightarrow> wf_prog option) \<Rightarrow> workflow \<Rightarrow>
    py_error + bool \<times> workflow" where
  "workflow_call ok u run w =
     (case run (wf_input w) of
        None \<Rightarrow> Inr (False, w)
      | Some p \<Rightarrow>
          (case run_prog ok u p w of
             (Returned r, w') \<Rightarrow> Inr (wf_finish ok r w')
           | (Raised m, w') \<Rightarrow> Inr (wf_fail ok m w')
           | (Suspended, w') \<Rightarrow> Inl NotImplementedError))"


section \<open>Reference definitions and fixtures\<close>

text \<open>
  A call of the workflow code changes only the scheduler and the cursor of the
  workflow object; the snapshot, spec, tags and input stay as the round started.
\<close>

definition same_round :: "workflow \<Rightarrow> workflow \<Rightarrow> bool" where
  "same_round w w' \<longleftrightarrow> w' = w\<lparr>wf_scheduler := wf_scheduler w', wf_call_id := wf_call_id w'\<rparr>"

text \<open>Terminal operations that complete the workflow, and the completion decision.\<close>

fun completes :: "sched_op \<Rightarrow> bool" where
  "completes (OpComplete k r) = True"
| "completes op = False"

fun is_completion :: "decision \<Rightarrow> bool" where
  "is_completion (CompleteWorkflowExecution r) = True"
| "is_completion d = False"

definition no_completion :: "scheduler \<Rightarrow> bool" where
  "no_completion s \<longleftrightarrow>
     \<not> list_ex is_completion (decisions s) \<and> list_all (\<lambda>(t, b, k). \<not> list_ex is_completion b) (sent s)"

text \<open>
  Workflow code that calls an activity (demo spec, input \<open>[1]\<close>, no retry, no
  delay), returns its value when found, and otherwise continues with \<open>q\<close>.
\<close>

definition pending_then :: "wf_prog \<Rightarrow> wf_prog" where
  "pending_then q = CallActivity demo_spec ''[1]'' 0 0
     (\<lambda>r. if fst r = FOUND then Return (RetValue (snd r)) else q)"

section \<open>Lemmas: what a call of the workflow code changes\<close>

lemma same_round_refl [simp]: "same_round w w"
  by (simp add: same_round_def)

lemma same_round_trans: "same_round w1 w2 \<Longrightarrow> same_round w2 w3 \<Longrightarrow> same_round w1 w3"
  unfolding same_round_def by (elim ssubst) simp

lemma same_round_upd [simp]:
  "same_round w (w'\<lparr>wf_scheduler := s\<rparr>) = same_round w w'"
  "same_round w (w'\<lparr>wf_call_id := c\<rparr>) = same_round w w'"
  unfolding same_round_def by (cases w; cases w'; simp)+

lemma same_round_fields:
  assumes "same_round w w'"
  shows "wf_running w' = wf_running w" "wf_timedout w' = wf_timedout w"
    "wf_results w' = wf_results w" "wf_errors w' = wf_errors w" "wf_spec w' = wf_spec w"
    "wf_tags w' = wf_tags w" "wf_input w' = wf_input w"
  using assms unfolding same_round_def by (metis workflow.select_convs workflow.surjective
      workflow.update_convs(1,8))+

lemma same_round_search_result: "same_round w (snd (search_result r w))"
proof -
  obtain c where "snd (search_result r w) = w\<lparr>wf_call_id := c\<rparr>"
    using search_result_frame by blast
  then show ?thesis by simp
qed

lemma same_round_request [simp]: "same_round w (request u a sp inp w)"
  by (simp add: request_def)

lemma same_round_attempt: "same_round w (snd (attempt u a sp inp r w))"
  using same_round_search_result [of w r]
  by (auto simp: attempt_def split: prod.splits search_state.splits intro: same_round_trans)

lemma same_round_timer_gate: "same_round w (snd (timer_gate d w))"
  by (simp add: timer_gate_def search_timer_def split: search_state.splits)

lemma same_round_schedule_body: "same_round w (snd (schedule_body u a sp inp r d w))"
proof (cases "d = 0")
  case True
  then show ?thesis by (simp add: schedule_body_cases same_round_attempt)
next
  case False
  obtain st x where g: "timer_gate d w = (st, x)" by (metis prod.exhaust)
  have x: "same_round w x" using same_round_timer_gate [of w d] g by simp
  show ?thesis
  proof (cases "st = FOUND")
    case True
    then show ?thesis
      using False g x same_round_attempt by (simp add: schedule_body_cases) (blast intro: same_round_trans)
  next
    case notf: False
    then show ?thesis using False g x by (simp add: schedule_body_cases)
  qed
qed

lemma same_round_schedule_call: "same_round w (snd (schedule_call u a sp inp r d w))"
  using same_round_schedule_body [of w u a sp inp r d]
  by (cases "schedule_body u a sp inp r d w") (simp add: schedule_call_def reserve_call_ids_def)

lemma search_result_sched [simp]: "wf_scheduler (snd (search_result r w)) = wf_scheduler w"
proof -
  obtain c where "snd (search_result r w) = w\<lparr>wf_call_id := c\<rparr>"
    using search_result_frame by blast
  then show ?thesis by simp
qed

lemma attempt_sched:
  "\<exists>ops. list_all is_schedule_op ops \<and>
     wf_scheduler (snd (attempt u a sp inp r w)) = sched_run (wf_scheduler w) ops"
proof -
  obtain st v x where s: "search_result r w = ((st, v), x)" by (metis prod.exhaust)
  have x: "wf_scheduler x = wf_scheduler w" using search_result_sched [of r w] s by simp
  show ?thesis
  proof (cases "st = NOTFOUND")
    case True
    then show ?thesis using s x
      by (intro exI [of _ "[if a then OpActivity sp (wf_call_id x) inp
                            else OpWorkflow (u (wf_call_id x)) sp (wf_call_id x) inp]"])
         (simp add: attempt_def request_def)
  next
    case False
    then show ?thesis using s x by (intro exI [of _ "[]"]) (cases st; simp add: attempt_def)
  qed
qed

lemma timer_gate_sched:
  "\<exists>ops. list_all is_schedule_op ops \<and>
     wf_scheduler (snd (timer_gate d w)) = sched_run (wf_scheduler w) ops"
proof (cases "wf_call_id w \<in> dom (wf_results w) \<or> wf_call_id w \<in> wf_running w")
  case True
  then show ?thesis by (intro exI [of _ "[]"]) (auto simp: timer_gate_def search_timer_def)
next
  case False
  then show ?thesis
    by (intro exI [of _ "[OpTimer d (wf_call_id w)]"]) (auto simp: timer_gate_def search_timer_def)
qed

lemma schedule_body_sched:
  "\<exists>ops. list_all is_schedule_op ops \<and>
     wf_scheduler (snd (schedule_body u a sp inp r d w)) = sched_run (wf_scheduler w) ops"
proof (cases "d = 0")
  case True
  then show ?thesis by (simp add: schedule_body_cases attempt_sched)
next
  case False
  obtain st x where g: "timer_gate d w = (st, x)" by (metis prod.exhaust)
  obtain ops1 where o1: "list_all is_schedule_op ops1" "wf_scheduler x = sched_run (wf_scheduler w) ops1"
    using timer_gate_sched [of d w] g by auto
  show ?thesis
  proof (cases "st = FOUND")
    case True
    obtain ops2 where o2: "list_all is_schedule_op ops2"
      "wf_scheduler (snd (attempt u a sp inp r x)) = sched_run (wf_scheduler x) ops2"
      using attempt_sched by blast
    show ?thesis
      using True False g o1 o2
      by (intro exI [of _ "ops1 @ ops2"]) (simp add: schedule_body_cases sched_run_append)
  next
    case notf: False
    then show ?thesis using False g o1 by (simp add: schedule_body_cases) blast
  qed
qed

lemma schedule_call_sched:
  "\<exists>ops. list_all is_schedule_op ops \<and>
     wf_scheduler (snd (schedule_call u a sp inp r d w)) = sched_run (wf_scheduler w) ops"
  using schedule_body_sched by (simp add: schedule_call_parts)

lemma same_round_on_scheduler [simp]: "same_round w (snd (on_scheduler f w))"
  by (simp add: on_scheduler_def split: prod.splits)

lemma same_round_wf_restart: "same_round w (snd (wf_restart ok i w))"
  by (simp add: wf_restart_def split: option.splits)

lemma same_round_run_prog: "same_round w (snd (run_prog ok u p w))"
proof (induction p arbitrary: w)
  case (CallActivity sp i r d k)
  then show ?case
    using same_round_schedule_call [of w "\<lambda>i. []" True sp i r d]
    by (auto simp: wf_schedule_activity_def split: prod.splits intro: same_round_trans)
next
  case (CallWorkflow sp i r d k)
  then show ?case
    using same_round_schedule_call [of w u False sp i r d]
    by (auto simp: wf_schedule_workflow_def split: prod.splits intro: same_round_trans)
next
  case (Restart i k)
  then show ?case
    using same_round_wf_restart [of w ok i] by (auto split: prod.splits intro: same_round_trans)
qed simp_all

lemma on_scheduler_sched [simp]: "wf_scheduler (snd (on_scheduler f w)) = snd (f (wf_scheduler w))"
  by (simp add: on_scheduler_def split: prod.splits)

lemma schedule_op_not_completes: "list_all is_schedule_op ops \<Longrightarrow> \<not> list_ex completes ops"
  by (induction ops) (auto elim: is_schedule_op.elims)

lemma wf_restart_sched:
  "\<exists>ops. \<not> list_ex completes ops \<and> wf_scheduler (snd (wf_restart ok i w)) = sched_run (wf_scheduler w) ops"
proof (cases i)
  case None
  then show ?thesis by (intro exI [of _ "[]"]) (simp add: wf_restart_def)
next
  case (Some x)
  then show ?thesis
    by (intro exI [of _ "[OpRestart ok (wf_spec w) x (wf_tags w)]"]) (simp add: wf_restart_def)
qed

lemma run_prog_sched:
  "\<exists>ops. \<not> list_ex completes ops \<and> wf_scheduler (snd (run_prog ok u p w)) = sched_run (wf_scheduler w) ops"
proof (induction p arbitrary: w)
  case (CallActivity sp i r d k)
  obtain res w1 where c: "wf_schedule_activity sp i r d w = (res, w1)" by (metis prod.exhaust)
  obtain ops1 where o1: "list_all is_schedule_op ops1" "wf_scheduler w1 = sched_run (wf_scheduler w) ops1"
    using schedule_call_sched [of "\<lambda>i. []" True sp i r d w] c by (auto simp: wf_schedule_activity_def)
  obtain ops2 where o2: "\<not> list_ex completes ops2"
    "wf_scheduler (snd (run_prog ok u (k res) w1)) = sched_run (wf_scheduler w1) ops2"
    using CallActivity.IH by blast
  show ?case using c o1 o2 schedule_op_not_completes [OF o1(1)]
    by (intro exI [of _ "ops1 @ ops2"]) (simp add: sched_run_append)
next
  case (CallWorkflow sp i r d k)
  obtain res w1 where c: "wf_schedule_workflow u sp i r d w = (res, w1)" by (metis prod.exhaust)
  obtain ops1 where o1: "list_all is_schedule_op ops1" "wf_scheduler w1 = sched_run (wf_scheduler w) ops1"
    using schedule_call_sched [of u False sp i r d w] c by (auto simp: wf_schedule_workflow_def)
  obtain ops2 where o2: "\<not> list_ex completes ops2"
    "wf_scheduler (snd (run_prog ok u (k res) w1)) = sched_run (wf_scheduler w1) ops2"
    using CallWorkflow.IH by blast
  show ?case using c o1 o2 schedule_op_not_completes [OF o1(1)]
    by (intro exI [of _ "ops1 @ ops2"]) (simp add: sched_run_append)
next
  case (Restart i k)
  obtain b w1 where c: "wf_restart ok i w = (b, w1)" by (metis prod.exhaust)
  obtain ops1 where o1: "\<not> list_ex completes ops1" "wf_scheduler w1 = sched_run (wf_scheduler w) ops1"
    using wf_restart_sched [of ok i w] c by auto
  obtain ops2 where o2: "\<not> list_ex completes ops2"
    "wf_scheduler (snd (run_prog ok u (k b) w1)) = sched_run (wf_scheduler w1) ops2"
    using Restart.IH by blast
  show ?case using c o1 o2
    by (intro exI [of _ "ops1 @ ops2"]) (simp add: sched_run_append)
qed (auto intro: exI [of _ "[]"])

section \<open>Lemmas: pending calls keep the round open\<close>

lemma has_scheduled_step: "has_scheduled s \<Longrightarrow> has_scheduled (sched_step s op)"
  by (cases op) (auto simp: has_scheduled_def nothing_scheduled_def schedule_timer_def
      schedule_activity_def schedule_workflow_def flush_def restart_def fail_def complete_def)

lemma has_scheduled_run: "has_scheduled s \<Longrightarrow> has_scheduled (sched_run s ops)"
  by (induction ops arbitrary: s) (simp_all add: has_scheduled_step)

lemma schedule_op_nonempty:
  "0 < rate_limit s \<Longrightarrow> is_schedule_op op \<Longrightarrow> has_scheduled (sched_step s op)"
  by (cases op) (auto simp: has_scheduled_def nothing_scheduled_def schedule_timer_def
      schedule_activity_def schedule_workflow_def below_limit_def)

lemma search_result_running: "fst (fst (search_result r w)) = RUNNING \<Longrightarrow> has_running w"
  by (auto simp: search_result_def search_loop_answer probe_def has_running_def
      split: option.splits if_splits)

lemma attempt_pending:
  assumes "0 < rate_limit (wf_scheduler w)" "fst (fst (attempt u a sp inp r w)) = RUNNING"
  shows "has_scheduled (wf_scheduler (snd (attempt u a sp inp r w))) \<or> has_running w"
proof -
  obtain st v x where s: "search_result r w = ((st, v), x)" by (metis prod.exhaust)
  have x: "wf_scheduler x = wf_scheduler w" using search_result_sched [of r w] s by simp
  show ?thesis
  proof (cases st)
    case NOTFOUND
    then show ?thesis
      using s x assms(1) schedule_op_nonempty [of "wf_scheduler w" "OpActivity sp (wf_call_id x) inp"]
        schedule_op_nonempty [of "wf_scheduler w" "OpWorkflow (u (wf_call_id x)) sp (wf_call_id x) inp"]
      by (simp add: attempt_def request_def)
  next
    case RUNNING
    then show ?thesis using s search_result_running [of r w] by simp
  qed (use s assms(2) in \<open>simp_all add: attempt_def\<close>)
qed

lemma timer_gate_pending:
  "0 < rate_limit (wf_scheduler w) \<Longrightarrow> fst (timer_gate d w) \<noteq> FOUND \<Longrightarrow>
   has_scheduled (wf_scheduler (snd (timer_gate d w))) \<or> has_running w"
  using schedule_op_nonempty [of "wf_scheduler w" "OpTimer d (wf_call_id w)"]
  by (auto simp: timer_gate_def search_timer_def has_running_def split: if_splits)

lemma schedule_call_pending:
  assumes "0 < rate_limit (wf_scheduler w)" "fst (fst (schedule_call u a sp inp r d w)) = RUNNING"
  shows "has_scheduled (wf_scheduler (snd (schedule_call u a sp inp r d w))) \<or> has_running w"
proof (cases "d = 0")
  case True
  then show ?thesis using assms attempt_pending by (simp add: schedule_call_parts schedule_body_cases)
next
  case False
  obtain st x where g: "timer_gate d w = (st, x)" by (metis prod.exhaust)
  show ?thesis
  proof (cases "st = FOUND")
    case True
    obtain ops where "wf_scheduler x = sched_run (wf_scheduler w) ops"
      using timer_gate_sched [of d w] g by auto
    moreover have "has_running x = has_running w"
      using same_round_fields(1) [OF same_round_timer_gate [of w d]] g by (simp add: has_running_def)
    ultimately show ?thesis
      using True False g assms attempt_pending [of x u a sp inp r]
      by (simp add: schedule_call_parts schedule_body_cases)
  next
    case notf: False
    then show ?thesis
      using False g assms timer_gate_pending [of w d] by (simp add: schedule_call_parts schedule_body_cases)
  qed
qed

lemma schedule_call_step:
  assumes "schedule_call u a sp i r d w = (res, w1)"
  shows "rate_limit (wf_scheduler w1) = rate_limit (wf_scheduler w)" "has_running w1 = has_running w"
    "0 < rate_limit (wf_scheduler w) \<Longrightarrow> fst res = RUNNING \<Longrightarrow>
     has_scheduled (wf_scheduler w1) \<or> has_running w1"
proof -
  show rl: "rate_limit (wf_scheduler w1) = rate_limit (wf_scheduler w)"
    using schedule_call_sched [of u a sp i r d w] assms by auto
  show hr: "has_running w1 = has_running w"
    using same_round_fields(1) [OF same_round_schedule_call [of w u a sp i r d]] assms
    by (simp add: has_running_def)
  show "0 < rate_limit (wf_scheduler w) \<Longrightarrow> fst res = RUNNING \<Longrightarrow>
     has_scheduled (wf_scheduler w1) \<or> has_running w1"
    using schedule_call_pending [of w u a sp i r d] assms hr by simp
qed

lemma pending_persists:
  "has_scheduled (wf_scheduler w) \<or> has_running w \<Longrightarrow>
   has_scheduled (wf_scheduler (snd (run_prog ok u p w))) \<or> has_running (snd (run_prog ok u p w))"
  using run_prog_sched [of ok u p w] same_round_fields(1) [OF same_round_run_prog [of w ok u p]]
  by (auto simp: has_running_def intro: has_scheduled_run)

lemma wf_restart_rate_limit [simp]:
  "rate_limit (wf_scheduler (snd (wf_restart ok i w))) = rate_limit (wf_scheduler w)"
  by (simp add: wf_restart_def restart_def flush_def split: option.splits)

lemma run_prog_pending:
  "0 < rate_limit (wf_scheduler w) \<Longrightarrow> RUNNING \<in> fst ` set (call_results ok u p w) \<Longrightarrow>
   has_scheduled (wf_scheduler (snd (run_prog ok u p w))) \<or> has_running (snd (run_prog ok u p w))"
proof (induction p arbitrary: w)
  case (CallActivity sp i r d k)
  obtain res w1 where c: "schedule_call (\<lambda>i. []) True sp i r d w = (res, w1)" by (metis prod.exhaust)
  show ?case
    using CallActivity c schedule_call_step [OF c] pending_persists [of w1 ok u "k res"]
    by (cases "fst res = RUNNING") (auto simp: wf_schedule_activity_def)
next
  case (CallWorkflow sp i r d k)
  obtain res w1 where c: "schedule_call u False sp i r d w = (res, w1)" by (metis prod.exhaust)
  show ?case
    using CallWorkflow c schedule_call_step [OF c] pending_persists [of w1 ok u "k res"]
    by (cases "fst res = RUNNING") (auto simp: wf_schedule_workflow_def)
next
  case (Restart i k)
  obtain b w1 where c: "wf_restart ok i w = (b, w1)" by (metis prod.exhaust)
  have "rate_limit (wf_scheduler w1) = rate_limit (wf_scheduler w)"
    using wf_restart_rate_limit [of ok i w] c by simp
  then show ?case using Restart c by simp
qed simp_all

section \<open>Lemmas: the end of the round\<close>

lemma no_completion_new: "no_completion (new_scheduler tok lim)"
  by (simp add: no_completion_def new_scheduler_def)

lemma no_completion_step: "no_completion s \<Longrightarrow> \<not> completes op \<Longrightarrow> no_completion (sched_step s op)"
  by (cases op) (auto simp: no_completion_def schedule_timer_def schedule_activity_def
      schedule_workflow_def flush_def restart_def fail_def spec_restart_def spec_schedule_def
      split: proxy_kind.splits)

lemma no_completion_run: "no_completion s \<Longrightarrow> \<not> list_ex completes ops \<Longrightarrow> no_completion (sched_run s ops)"
  by (induction ops arbitrary: s) (simp_all add: no_completion_step)

lemma wf_fail_sched: "wf_scheduler (snd (wf_fail ok m w)) = sched_run (wf_scheduler w) [OpFail ok m]"
  by (simp add: wf_fail_def)

lemma wf_finish_sched:
  "\<exists>ops. (list_ex completes ops \<longrightarrow> \<not> has_scheduled (wf_scheduler w) \<and> \<not> has_running w) \<and>
     wf_scheduler (snd (wf_finish ok r w)) = sched_run (wf_scheduler w) ops"
proof (cases "\<exists>m. r = RetError m \<or> r = RetTimeout m")
  case True
  then obtain m where "r = RetError m \<or> r = RetTimeout m" by blast
  then show ?thesis
    by (intro exI [of _ "[OpFail ok m]"]) (auto simp: wf_finish_def wf_fail_def)
next
  case nf: False
  then have fin: "wf_finish ok r w =
      (if \<not> has_scheduled (wf_scheduler w) \<and> \<not> has_running w
       then (case result_value r of None \<Rightarrow> (False, w)
             | Some v \<Rightarrow> on_scheduler (complete ok (serialize_result v)) w)
       else on_scheduler (flush ok) w)"
    by (cases r) (simp_all add: wf_finish_def)
  show ?thesis
  proof (cases "\<not> has_scheduled (wf_scheduler w) \<and> \<not> has_running w")
    case True
    then show ?thesis using fin
      by (cases "result_value r")
         (auto intro: exI [of _ "[]"] exI [of _ "[OpComplete ok (serialize_result (the (result_value r)))]"])
  next
    case False
    then have "wf_finish ok r w = on_scheduler (flush ok) w" using fin by metis
    then show ?thesis by (intro exI [of _ "[OpFlush ok]"]) simp
  qed
qed

lemma workflow_call_cases:
  assumes "workflow_call ok u run w = Inr (b, w')"
  obtains "w' = w"
  | p r w1 where "run (wf_input w) = Some p" "run_prog ok u p w = (Returned r, w1)" "(b, w') = wf_finish ok r w1"
  | p m w1 where "run (wf_input w) = Some p" "run_prog ok u p w = (Raised m, w1)" "(b, w') = wf_fail ok m w1"
  using assms by (auto simp: workflow_call_def split: option.splits prod.splits prog_outcome.splits)

lemma workflow_call_sched:
  assumes "workflow_call ok u run w = Inr (b, w')"
  shows "\<exists>ops. wf_scheduler w' = sched_run (wf_scheduler w) ops"
  using assms
proof (cases rule: workflow_call_cases)
  case 1
  then show ?thesis by (intro exI [of _ "[]"]) simp
next
  case (2 p r w1)
  obtain ops1 where "wf_scheduler w1 = sched_run (wf_scheduler w) ops1"
    using run_prog_sched [of ok u p w] 2 by auto
  moreover obtain ops2 where "wf_scheduler w' = sched_run (wf_scheduler w1) ops2"
    using wf_finish_sched [of w1 ok r] 2 by (metis snd_conv)
  ultimately show ?thesis by (metis sched_run_append)
next
  case (3 p m w1)
  obtain ops1 where "wf_scheduler w1 = sched_run (wf_scheduler w) ops1"
    using run_prog_sched [of ok u p w] 3 by auto
  then show ?thesis using 3 wf_fail_sched [of ok m w1] by (metis sched_run_append snd_conv)
qed

text \<open>
  The computation of one round of \<open>pending_then\<close> on an empty snapshot: the activity
  is scheduled at call id 0, its call answers \<open>RUNNING\<close>, and the cursor ends at 1.
\<close>

lemma replay_state_sel [simp]:
  "wf_scheduler (replay_state R T D E) = new_scheduler ''tok'' 64" "wf_running (replay_state R T D E) = R"
  "wf_timedout (replay_state R T D E) = T" "wf_results (replay_state R T D E) = D"
  "wf_errors (replay_state R T D E) = E"
  by (simp_all add: replay_state_def)

lemma pending_then_run:
  "run_prog ok u (pending_then q) (replay_state {} {} Map.empty Map.empty) =
     run_prog ok u q ((replay_state {} {} Map.empty Map.empty)\<lparr>wf_call_id := 1,
        wf_scheduler := (new_scheduler ''tok'' 64)\<lparr>decisions := [spec_schedule demo_spec ''0'' ''[1]'']\<rparr>\<rparr>)"
  "call_results ok u (pending_then q) (replay_state {} {} Map.empty Map.empty) =
     (RUNNING, PyNone) # call_results ok u q ((replay_state {} {} Map.empty Map.empty)\<lparr>wf_call_id := 1,
        wf_scheduler := (new_scheduler ''tok'' 64)\<lparr>decisions := [spec_schedule demo_spec ''0'' ''[1]'']\<rparr>\<rparr>)"
  by (simp_all add: pending_then_def replay_unfold upto_3 int_str_def nat_str.simps)

lemma pending_then_found:
  "run_prog ok u (pending_then q) (replay_state {} {} [0 \<mapsto> v] Map.empty) =
     (Returned (RetValue v), (replay_state {} {} [0 \<mapsto> v] Map.empty)\<lparr>wf_call_id := 1\<rparr>)"
  "call_results ok u (pending_then q) (replay_state {} {} [0 \<mapsto> v] Map.empty) = [(FOUND, v)]"
  by (simp_all add: pending_then_def replay_unfold upto_3)

section \<open>Properties of a round\<close>

text \<open>C6: Exactly-once at the level of a round: whatever the workflow code does, a round
  that starts from a fresh scheduler sends at most one batch, under the task's token,
  and that batch is well formed (within the rate limit, a terminal decision alone,
  failure reasons of at most 256 characters).\<close>

theorem round_sends_at_most_once:
  assumes "workflow_call ok u run w = Inr (b, w')" "wf_scheduler w = new_scheduler tok lim"
  shows "length (sent (wf_scheduler w')) \<le> 1 \<and>
         (\<forall>(t, bt, k) \<in> set (sent (wf_scheduler w')). t = tok \<and> batch_ok lim bt)"
proof -
  obtain ops where "wf_scheduler w' = sched_run (new_scheduler tok lim) ops"
    using workflow_call_sched [OF assms(1)] assms(2) by auto
  then show ?thesis
    using sched_inv_run [OF sched_inv_new, of tok lim ops] by (simp add: sched_inv_def new_scheduler_def)
qed

text \<open>C7: A round completes the workflow only when it is settled: if the batch it sends
  holds a completion, then no call id was running in the snapshot and no call the code
  made answered \<open>RUNNING\<close> (for a rate limit that admits a decision).\<close>

theorem complete_only_when_settled:
  assumes call: "workflow_call ok u run w = Inr (b, w')" and p: "run (wf_input w) = Some p"
    and fresh: "wf_scheduler w = new_scheduler tok lim" "0 < lim"
    and sent: "(t, bt, k) \<in> set (sent (wf_scheduler w'))" "list_ex is_completion bt"
  shows "wf_running w = {} \<and> RUNNING \<notin> fst ` set (call_results ok u p w)"
proof -
  have nc: "\<not> no_completion (wf_scheduler w')"
    using sent by (auto simp: no_completion_def list_all_iff)
  obtain out w1 where rp: "run_prog ok u p w = (out, w1)" by (metis prod.exhaust)
  obtain ops1 where o1: "\<not> list_ex completes ops1" "wf_scheduler w1 = sched_run (wf_scheduler w) ops1"
    using run_prog_sched [of ok u p w] rp by auto
  have nc1: "no_completion (wf_scheduler w1)"
    using no_completion_run [OF no_completion_new o1(1)] o1(2) fresh(1) by simp
  have same: "same_round w w1" using same_round_run_prog [of w ok u p] rp by simp
  from call show ?thesis
  proof (cases rule: workflow_call_cases)
    case 1
    then show ?thesis using nc fresh(1) no_completion_new by simp
  next
    case (2 p' r w2)
    then have w2: "p' = p" "w2 = w1" using p rp by simp_all
    obtain ops2 where o2: "list_ex completes ops2 \<longrightarrow> \<not> has_scheduled (wf_scheduler w1) \<and> \<not> has_running w1"
        "wf_scheduler w' = sched_run (wf_scheduler w1) ops2"
      using wf_finish_sched [of w1 ok r] 2 w2 by (metis snd_conv)
    have "list_ex completes ops2" using nc nc1 o2(2) no_completion_run by metis
    then have settled: "\<not> has_scheduled (wf_scheduler w1)" "\<not> has_running w1" using o2(1) by simp_all
    have "RUNNING \<notin> fst ` set (call_results ok u p w)"
      using run_prog_pending [of w ok u p] settled rp fresh by (auto simp: new_scheduler_def)
    then show ?thesis
      using settled(2) same_round_fields(1) [OF same] by (simp add: has_running_def)
  next
    case (3 p' m w2)
    then have "w2 = w1" using p rp by simp
    moreover have "no_completion (sched_run (wf_scheduler w1) [OpFail ok m])"
      using no_completion_run [OF nc1, of "[OpFail ok m]"] by simp
    ultimately show ?thesis
      using 3 nc wf_fail_sched [of ok m w1] by (metis snd_conv)
  qed
qed

text \<open>The reasoning of the comment in \<open>_finish\<close>: when the code returns a
  placeholder of a call that answered \<open>RUNNING\<close>, something is scheduled or running,
  so \<open>_finish\<close> flushes the batch and never tries to serialise the placeholder
  (for a positive rate limit).\<close>

theorem placeholder_flushes:
  assumes "0 < rate_limit (wf_scheduler w)" "run_prog ok u p w = (Returned RetPlaceholder, w1)"
    "RUNNING \<in> fst ` set (call_results ok u p w)"
  shows "wf_finish ok RetPlaceholder w1 = on_scheduler (flush ok) w1"
  using run_prog_pending [OF assms(1,3)] assms(2) by (auto simp: wf_finish_def)



theorem round_sends_at_most_once_witness:
  "workflow_call True (\<lambda>i. []) (\<lambda>x. Some (pending_then (Return RetPlaceholder)))
     (replay_state {} {} Map.empty Map.empty) = Inr (True, (replay_state {} {} Map.empty Map.empty)\<lparr>wf_call_id := 1,
        wf_scheduler := (new_scheduler ''tok'' 64)\<lparr>decisions := [spec_schedule demo_spec ''0'' ''[1]''],
          closed := True, sent := [(''tok'', [spec_schedule demo_spec ''0'' ''[1]''], True)]\<rparr>\<rparr>) \<and>
   wf_scheduler (replay_state {} {} Map.empty Map.empty) = new_scheduler ''tok'' 64 \<and>
   length [(''tok'', [spec_schedule demo_spec ''0'' ''[1]''], True)] \<le> 1 \<and>
   batch_ok 64 [spec_schedule demo_spec ''0'' ''[1]'']"
proof -
  have c: "workflow_call True (\<lambda>i. []) (\<lambda>x. Some (pending_then (Return RetPlaceholder)))
     (replay_state {} {} Map.empty Map.empty) = Inr (True, (replay_state {} {} Map.empty Map.empty)\<lparr>wf_call_id := 1,
        wf_scheduler := (new_scheduler ''tok'' 64)\<lparr>decisions := [spec_schedule demo_spec ''0'' ''[1]''],
          closed := True, sent := [(''tok'', [spec_schedule demo_spec ''0'' ''[1]''], True)]\<rparr>\<rparr>)"
    by (simp add: workflow_call_def pending_then_run wf_finish_def has_scheduled_def has_running_def
      nothing_scheduled_def flush_def on_scheduler_def new_scheduler_def)
  have f: "wf_scheduler (replay_state {} {} Map.empty Map.empty) = new_scheduler ''tok'' 64"
    by simp
  show ?thesis using round_sends_at_most_once [OF c f] c f by (simp add: new_scheduler_def)
qed

theorem complete_only_when_settled_witness:
  "workflow_call True (\<lambda>i. []) (\<lambda>x. Some (pending_then Suspend)) (replay_state {} {} [0 \<mapsto> PyStr ''7''] Map.empty) =
     Inr (True, (replay_state {} {} [0 \<mapsto> PyStr ''7''] Map.empty)\<lparr>wf_call_id := 1,
        wf_scheduler := (new_scheduler ''tok'' 64)\<lparr>decisions := [CompleteWorkflowExecution ''7''],
          closed := True, sent := [(''tok'', [CompleteWorkflowExecution ''7''], True)]\<rparr>\<rparr>) \<and>
   (\<lambda>x::string. Some (pending_then Suspend)) (wf_input (replay_state {} {} [0 \<mapsto> PyStr ''7''] Map.empty)) =
     Some (pending_then Suspend) \<and>
   wf_scheduler (replay_state {} {} [0 \<mapsto> PyStr ''7''] Map.empty) = new_scheduler ''tok'' 64 \<and> (0::int) < 64 \<and>
   (''tok'', [CompleteWorkflowExecution ''7''], True) \<in> set [(''tok'', [CompleteWorkflowExecution ''7''], True)] \<and>
   list_ex is_completion [CompleteWorkflowExecution ''7''] \<and>
   wf_running (replay_state {} {} [0 \<mapsto> PyStr ''7''] Map.empty) = {} \<and>
   RUNNING \<notin> fst ` set (call_results True (\<lambda>i. []) (pending_then Suspend) (replay_state {} {} [0 \<mapsto> PyStr ''7''] Map.empty))"
proof -
  let ?w = "replay_state {} {} [0 \<mapsto> PyStr ''7''] Map.empty"
  let ?w' = "?w\<lparr>wf_call_id := 1, wf_scheduler := (new_scheduler ''tok'' 64)\<lparr>decisions := [CompleteWorkflowExecution ''7''],
          closed := True, sent := [(''tok'', [CompleteWorkflowExecution ''7''], True)]\<rparr>\<rparr>"
  have c: "workflow_call True (\<lambda>i. []) (\<lambda>x. Some (pending_then Suspend)) ?w = Inr (True, ?w')"
    by (simp add: workflow_call_def pending_then_found wf_finish_def has_scheduled_def has_running_def
      nothing_scheduled_def complete_def flush_def on_scheduler_def serialize_result_def new_scheduler_def)
  have f: "wf_scheduler ?w = new_scheduler ''tok'' 64" by simp
  have "wf_running ?w = {} \<and> RUNNING \<notin> fst ` set (call_results True (\<lambda>i. []) (pending_then Suspend) ?w)"
    using complete_only_when_settled [OF c _ f, of "pending_then Suspend" "''tok''"
        "[CompleteWorkflowExecution ''7'']" True] by simp
  then show ?thesis using c f by simp
qed

theorem placeholder_flushes_witness:
  "(0::int) < rate_limit (wf_scheduler (replay_state {} {} Map.empty Map.empty)) \<and>
   RUNNING \<in> fst ` set (call_results True (\<lambda>i. []) (pending_then (Return RetPlaceholder))
     (replay_state {} {} Map.empty Map.empty)) \<and>
   wf_finish True RetPlaceholder ((replay_state {} {} Map.empty Map.empty)\<lparr>wf_call_id := 1,
        wf_scheduler := (new_scheduler ''tok'' 64)\<lparr>decisions := [spec_schedule demo_spec ''0'' ''[1]'']\<rparr>\<rparr>) =
   on_scheduler (flush True) ((replay_state {} {} Map.empty Map.empty)\<lparr>wf_call_id := 1,
        wf_scheduler := (new_scheduler ''tok'' 64)\<lparr>decisions := [spec_schedule demo_spec ''0'' ''[1]'']\<rparr>\<rparr>)"
  using placeholder_flushes [of "replay_state {} {} Map.empty Map.empty" True "\<lambda>i. []"
      "pending_then (Return RetPlaceholder)"]
  by (simp add: pending_then_run new_scheduler_def)

end
