(* ===== verification/Context.thy ===== *)
theory Context
  imports History
begin

text \<open>
  The execution context of swf.py, \<open>SWFContext\<close> (src/flowy/backend/swf.py, lines
  496-606), with the activity and sub-workflow proxies that call it
  (\<open>SWFActivityProxy\<close>, \<open>SWFWorkflowProxy\<close>, lines 274-353). The context carries
  the projected snapshot and accumulates boto \<open>Layer1Decisions\<close>; unlike
  \<open>SWFScheduler\<close> it has no rate limit, and it writes timers under the tagged key
  \<open>'k:t'\<close>. The theory proves that the context sends at most one batch, that the
  timers and sub-workflows it starts are read back by the projector under their call
  keys, and that a fired timer is never seen as ready, so a delayed call is never
  scheduled.
\<close>

section \<open>Decisions and the context\<close>

text \<open>The decisions of \<open>Layer1Decisions\<close> the context uses, with the attributes it sets.\<close>

datatype ctx_decision =
    CtxStartTimer string string
      \<comment> \<open>\<open>timer_id\<close>, \<open>start_to_fire_timeout\<close>\<close>
  | CtxScheduleActivity string string string "string option" "string option" "string option"
      "string option" "string option" string
      \<comment> \<open>activity id, name, version, heartbeat, schedule-to-close, schedule-to-start,
          start-to-close, task list, input\<close>
  | CtxStartChild string string string "string option" "string option" "string option" string
      \<comment> \<open>name, version, workflow id, task start-to-close, execution start-to-close,
          task list, input\<close>
  | CtxComplete string
  | CtxFail string
  | CtxContinueAsNew string string string string "string list option" string
      \<comment> \<open>start-to-close, execution start-to-close, task list, input, tags, child policy\<close>

text \<open>
  \<open>SWFContext.__init__\<close>: the attributes of the first event and the snapshot; the
  boto client is replaced by the list of batches sent, each with its token.
\<close>

record swf_context = snapshot +
  ctx_token :: token
  ctx_name :: string
  ctx_version :: string
  ctx_input :: string
  ctx_task_list :: string
  ctx_decision_duration :: string
  ctx_workflow_duration :: string
  ctx_tags :: "string list option"
  ctx_child_policy :: string
  ctx_decisions :: "ctx_decision list"
  ctx_closed :: bool
  ctx_sent :: "(token \<times> ctx_decision list) list"

definition mk_context :: "token \<Rightarrow> string \<Rightarrow> string \<Rightarrow> string \<Rightarrow> string \<Rightarrow> string \<Rightarrow> string \<Rightarrow>
    string list option \<Rightarrow> string \<Rightarrow> snapshot \<Rightarrow> swf_context" where
  "mk_context tok name version input tlist dd wd tags cp s =
     \<lparr>running = running s, timedout = timedout s, results = results s, errors = errors s,
      order = order s, ctx_token = tok, ctx_name = name, ctx_version = version, ctx_input = input,
      ctx_task_list = tlist, ctx_decision_duration = dd, ctx_workflow_duration = wd, ctx_tags = tags,
      ctx_child_policy = cp, ctx_decisions = [], ctx_closed = False, ctx_sent = []\<rparr>"

section \<open>Queries\<close>

text \<open>The queries look up \<open>str(call_key)\<close>; call keys are integers.\<close>

definition ctx_is_running :: "swf_context \<Rightarrow> int \<Rightarrow> bool" where
  "ctx_is_running c k \<longleftrightarrow> int_str k \<in> running c"

definition ctx_is_result :: "swf_context \<Rightarrow> int \<Rightarrow> bool" where
  "ctx_is_result c k \<longleftrightarrow> int_str k \<in> dom (results c)"

definition ctx_result :: "swf_context \<Rightarrow> int \<Rightarrow> py_error + pyval \<times> nat" where
  "ctx_result c k =
     py_bind (py_dict_get (results c) (int_str k)) (\<lambda>v.
       py_bind (py_list_index (order c) (int_str k)) (\<lambda>i. Inr (v, i)))"

definition ctx_is_error :: "swf_context \<Rightarrow> int \<Rightarrow> bool" where
  "ctx_is_error c k \<longleftrightarrow> int_str k \<in> dom (errors c)"

definition ctx_error :: "swf_context \<Rightarrow> int \<Rightarrow> py_error + string \<times> nat" where
  "ctx_error c k =
     py_bind (py_dict_get (errors c) (int_str k)) (\<lambda>r.
       py_bind (py_list_index (order c) (int_str k)) (\<lambda>i. Inr (r, i)))"

definition ctx_is_timeout :: "swf_context \<Rightarrow> int \<Rightarrow> bool" where
  "ctx_is_timeout c k \<longleftrightarrow> int_str k \<in> timedout c"

definition ctx_timeout :: "swf_context \<Rightarrow> int \<Rightarrow> py_error + nat" where
  "ctx_timeout c k = py_list_index (order c) (int_str k)"

text \<open>\<open>timer_ready(call_key)\<close> tests the unbound name \<open>results\<close>; read as
  \<open>self.results\<close> (see the findings).\<close>

definition ctx_timer_ready :: "swf_context \<Rightarrow> int \<Rightarrow> bool" where
  "ctx_timer_ready c k \<longleftrightarrow> int_str k \<in> dom (results c)"

section \<open>Sending decisions\<close>

text \<open>
  \<open>flush\<close>: a no-op once closed; otherwise close and send the batch (a transport
  error is logged and swallowed). It is declared \<open>flush(self, layer1)\<close> but called
  as \<open>self.flush()\<close>; the model drops the unused parameter (see the findings).
\<close>

definition ctx_flush :: "swf_context \<Rightarrow> swf_context" where
  "ctx_flush c =
     (if ctx_closed c then c
      else c\<lparr>ctx_closed := True, ctx_sent := ctx_sent c @ [(ctx_token c, ctx_decisions c)]\<rparr>)"

text \<open>\<open>fail\<close> writes to the unbound name \<open>decisions\<close>; read as the fresh
  \<open>self.decisions\<close> it has just created (see the findings).\<close>

definition ctx_fail :: "string \<Rightarrow> swf_context \<Rightarrow> swf_context" where
  "ctx_fail reason c = ctx_flush (c\<lparr>ctx_decisions := [CtxFail (py_prefix 256 reason)]\<rparr>)"

definition ctx_restart :: "string \<Rightarrow> swf_context \<Rightarrow> swf_context" where
  "ctx_restart input c =
     ctx_flush (c\<lparr>ctx_decisions := [CtxContinueAsNew (ctx_decision_duration c) (ctx_workflow_duration c)
        (ctx_task_list c) input (ctx_tags c) (ctx_child_policy c)]\<rparr>)"

definition ctx_complete :: "string \<Rightarrow> swf_context \<Rightarrow> swf_context" where
  "ctx_complete result c = ctx_flush (c\<lparr>ctx_decisions := [CtxComplete result]\<rparr>)"

text \<open>\<open>_str_or_none\<close> on the integer durations of the proxies.\<close>

definition str_or_none :: "int option \<Rightarrow> string option" where
  "str_or_none v = map_option int_str v"

definition ctx_schedule_timer :: "int \<Rightarrow> int \<Rightarrow> swf_context \<Rightarrow> swf_context" where
  "ctx_schedule_timer k delay c =
     c\<lparr>ctx_decisions := ctx_decisions c @ [CtxStartTimer (timer_key (int_str k)) (int_str delay)]\<rparr>"

definition ctx_schedule_activity :: "int \<Rightarrow> string \<Rightarrow> string \<Rightarrow> string \<Rightarrow> string option \<Rightarrow>
    int option \<Rightarrow> int option \<Rightarrow> int option \<Rightarrow> int option \<Rightarrow> swf_context \<Rightarrow> swf_context" where
  "ctx_schedule_activity k name version input tlist hb stc sts stc' c =
     c\<lparr>ctx_decisions := ctx_decisions c @
        [CtxScheduleActivity (int_str k) name version (str_or_none hb) (str_or_none stc)
           (str_or_none sts) (str_or_none stc') tlist input]\<rparr>"

text \<open>\<open>schedule_workflow\<close>: the workflow id is \<open>_subworkflow_key(call_key)\<close>, a fresh
  UUID (an argument) before the call key.\<close>

definition ctx_schedule_workflow :: "string \<Rightarrow> int \<Rightarrow> string \<Rightarrow> string \<Rightarrow> string \<Rightarrow> string option \<Rightarrow>
    int option \<Rightarrow> int option \<Rightarrow> swf_context \<Rightarrow> swf_context" where
  "ctx_schedule_workflow uuid k name version input tlist wd dd c =
     c\<lparr>ctx_decisions := ctx_decisions c @
        [CtxStartChild name version (subworkflow_key uuid (int_str k)) (str_or_none dd) (str_or_none wd)
           tlist input]\<rparr>"

section \<open>The proxies\<close>

record activity_proxy =
  ap_identity :: string
  ap_name :: string
  ap_version :: string
  ap_task_list :: "string option"
  ap_heartbeat :: "int option"
  ap_schedule_to_close :: "int option"
  ap_schedule_to_start :: "int option"
  ap_start_to_close :: "int option"
  ap_retry :: "int list"

record workflow_proxy =
  wp_identity :: string
  wp_name :: string
  wp_version :: string
  wp_task_list :: "string option"
  wp_workflow_duration :: "int option"
  wp_decision_duration :: "int option"
  wp_retry :: "int list"

text \<open>\<open>conf_activity\<close> and \<open>conf_workflow\<close> build the proxy (the name defaults to
  the dependency name); registering it under the dependency name is the job of
  \<open>WorkflowConfig.conf\<close> in \<open>flowy.base\<close>, not among the sources.\<close>

definition conf_activity :: "string \<Rightarrow> string \<Rightarrow> string option \<Rightarrow> string option \<Rightarrow> int option \<Rightarrow>
    int option \<Rightarrow> int option \<Rightarrow> int option \<Rightarrow> activity_proxy" where
  "conf_activity dep version name tlist hb stc sts stc' =
     \<lparr>ap_identity = dep, ap_name = (case name of None \<Rightarrow> dep | Some n \<Rightarrow> n), ap_version = version,
      ap_task_list = tlist, ap_heartbeat = hb, ap_schedule_to_close = stc, ap_schedule_to_start = sts,
      ap_start_to_close = stc', ap_retry = [0, 0, 0]\<rparr>"

definition conf_workflow :: "string \<Rightarrow> string \<Rightarrow> string option \<Rightarrow> string option \<Rightarrow> int option \<Rightarrow>
    int option \<Rightarrow> workflow_proxy" where
  "conf_workflow dep version name tlist wd dd =
     \<lparr>wp_identity = dep, wp_name = (case name of None \<Rightarrow> dep | Some n \<Rightarrow> n), wp_version = version,
      wp_task_list = tlist, wp_workflow_duration = wd, wp_decision_duration = dd, wp_retry = [0, 0, 0]\<rparr>"

text \<open>
  \<open>schedule(context, call_key, delay, *args, **kwargs)\<close>: with a positive delay and
  the timer not ready, start the timer; otherwise serialise the arguments (the argument
  \<open>ser\<close>: the input, or the message of the exception) and schedule, or fail the
  workflow when serialisation raised.
\<close>

definition activity_schedule :: "activity_proxy \<Rightarrow> swf_context \<Rightarrow> int \<Rightarrow> int \<Rightarrow> string + string \<Rightarrow>
    swf_context" where
  "activity_schedule p c k delay ser =
     (if delay > 0 \<and> \<not> ctx_timer_ready c k then ctx_schedule_timer k delay c
      else (case ser of
              Inl e \<Rightarrow> ctx_fail e c
            | Inr input \<Rightarrow> ctx_schedule_activity k (ap_name p) (ap_version p) input (ap_task_list p)
                (ap_heartbeat p) (ap_schedule_to_close p) (ap_schedule_to_start p) (ap_start_to_close p) c))"

definition workflow_schedule :: "string \<Rightarrow> workflow_proxy \<Rightarrow> swf_context \<Rightarrow> int \<Rightarrow> int \<Rightarrow>
    string + string \<Rightarrow> swf_context" where
  "workflow_schedule uuid p c k delay ser =
     (if delay > 0 \<and> \<not> ctx_timer_ready c k then ctx_schedule_timer k delay c
      else (case ser of
              Inl e \<Rightarrow> ctx_fail e c
            | Inr input \<Rightarrow> ctx_schedule_workflow uuid k (wp_name p) (wp_version p) input (wp_task_list p)
                (wp_workflow_duration p) (wp_decision_duration p) c))"


section \<open>Runs of the context\<close>

text \<open>The operations a round can apply to its context, and their runs.\<close>


datatype ctx_op =
    CTimer int int
  | CActivity int string string string "string option" "int option" "int option" "int option" "int option"
  | CWorkflow string int string string string "string option" "int option" "int option"
  | CFlush
  | CFail string
  | CRestart string
  | CComplete string

fun ctx_step :: "swf_context \<Rightarrow> ctx_op \<Rightarrow> swf_context" where
  "ctx_step c (CTimer k d) = ctx_schedule_timer k d c"
| "ctx_step c (CActivity k n v i t hb a b d) = ctx_schedule_activity k n v i t hb a b d c"
| "ctx_step c (CWorkflow u k n v i t wd dd) = ctx_schedule_workflow u k n v i t wd dd c"
| "ctx_step c CFlush = ctx_flush c"
| "ctx_step c (CFail r) = ctx_fail r c"
| "ctx_step c (CRestart i) = ctx_restart i c"
| "ctx_step c (CComplete r) = ctx_complete r c"

fun ctx_run :: "swf_context \<Rightarrow> ctx_op list \<Rightarrow> swf_context" where
  "ctx_run c [] = c"
| "ctx_run c (op # ops) = ctx_run (ctx_step c op) ops"

text \<open>Terminal decisions, well-formed batches and the invariant of the context.\<close>

fun ctx_terminal :: "ctx_decision \<Rightarrow> bool" where
  "ctx_terminal (CtxComplete r) = True"
| "ctx_terminal (CtxFail r) = True"
| "ctx_terminal (CtxContinueAsNew a b t i g p) = True"
| "ctx_terminal d = False"

definition ctx_batch_ok :: "ctx_decision list \<Rightarrow> bool" where
  "ctx_batch_ok b \<longleftrightarrow> (list_ex ctx_terminal b \<longrightarrow> length b = 1) \<and>
     (\<forall>r. CtxFail r \<in> set b \<longrightarrow> length r \<le> 256)"

definition ctx_inv :: "swf_context \<Rightarrow> bool" where
  "ctx_inv c \<longleftrightarrow>
     (ctx_closed c \<longleftrightarrow> ctx_sent c \<noteq> []) \<and> length (ctx_sent c) \<le> 1 \<and>
     (\<forall>(t, b) \<in> set (ctx_sent c). t = ctx_token c \<and> ctx_batch_ok b) \<and>
     (\<not> ctx_closed c \<longrightarrow> \<not> list_ex ctx_terminal (ctx_decisions c))"

text \<open>\<open>n\<close> cycles of a timer that starts and fires.\<close>

abbreviation timer_cycles :: "string \<Rightarrow> nat \<Rightarrow> event list" where
  "timer_cycles tk n \<equiv> concat (replicate n [TimerStarted tk, TimerFired tk])"

section \<open>Fixtures\<close>

definition empty_snapshot :: snapshot where
  "empty_snapshot = \<lparr>running = {}, timedout = {}, results = Map.empty, errors = Map.empty, order = []\<rparr>"

definition demo_context :: swf_context where
  "demo_context = mk_context ''tok'' ''wf'' ''1'' ''[[], {}]'' ''tl'' ''600'' ''3600'' None ''TERMINATE''
     empty_snapshot"

section \<open>Lemmas\<close>

lemma ctx_step_token [simp]: "ctx_token (ctx_step c op) = ctx_token c"
  by (cases op) (simp_all add: ctx_schedule_timer_def ctx_schedule_activity_def ctx_schedule_workflow_def
      ctx_flush_def ctx_fail_def ctx_restart_def ctx_complete_def)

lemma ctx_run_token [simp]: "ctx_token (ctx_run c ops) = ctx_token c"
  by (induction ops arbitrary: c) simp_all

lemma ctx_inv_mk: "ctx_inv (mk_context tok n v i t dd wd g p s)"
  by (simp add: ctx_inv_def mk_context_def)

lemma ctx_inv_append:
  "ctx_inv c \<Longrightarrow> \<not> ctx_terminal d \<Longrightarrow> ctx_inv (c\<lparr>ctx_decisions := ctx_decisions c @ [d]\<rparr>)"
  by (auto simp: ctx_inv_def)

lemma ctx_inv_flush: "ctx_inv c \<Longrightarrow> ctx_inv (ctx_flush c)"
  by (auto simp: ctx_inv_def ctx_flush_def ctx_batch_ok_def list_ex_iff)

lemma ctx_inv_terminal:
  "ctx_inv c \<Longrightarrow> ctx_batch_ok [d] \<Longrightarrow> ctx_inv (ctx_flush (c\<lparr>ctx_decisions := [d]\<rparr>))"
  by (auto simp: ctx_inv_def ctx_flush_def)

lemma ctx_inv_step: "ctx_inv c \<Longrightarrow> ctx_inv (ctx_step c op)"
  by (cases op)
     (auto simp: ctx_schedule_timer_def ctx_schedule_activity_def ctx_schedule_workflow_def
        ctx_fail_def ctx_restart_def ctx_complete_def ctx_batch_ok_def py_simps
        intro: ctx_inv_append ctx_inv_flush ctx_inv_terminal)

lemma ctx_inv_run: "ctx_inv c \<Longrightarrow> ctx_inv (ctx_run c ops)"
  by (induction ops arbitrary: c) (simp_all add: ctx_inv_step)

text \<open>C12: The context sends at most one batch per round: whatever sequence of its
  operations the proxies and the workflow run, at most one batch is sent, under the
  task token, and a terminal decision is sent alone (failure reasons cut to 256).\<close>

theorem ctx_run_sends_once:
  "length (ctx_sent (ctx_run (mk_context tok n v i t dd wd g p s) ops)) \<le> 1 \<and>
   list_all (\<lambda>(tk, b). tk = tok \<and> ctx_batch_ok b) (ctx_sent (ctx_run (mk_context tok n v i t dd wd g p s) ops))"
proof -
  let ?c = "ctx_run (mk_context tok n v i t dd wd g p s) ops"
  have "ctx_inv ?c" "ctx_token ?c = tok"
    using ctx_inv_run [OF ctx_inv_mk, of tok n v i t dd wd g p s ops] by (simp_all add: mk_context_def)
  then show ?thesis by (auto simp: ctx_inv_def list_all_iff)
qed

lemma parse_events_snoc:
  "parse_events (evs @ [e]) =
     py_bind (parse_events_from parse_init evs) (\<lambda>st. py_bind (parse_event st e) (\<lambda>st'. Inr (snapshot.truncate st')))"
  by (simp add: parse_events_def parse_events_from_append py_bind_def split: sum.splits)

lemma parse_events_Inr: "\<not> isl (parse_events evs) \<Longrightarrow> \<exists>st. parse_events_from parse_init evs = Inr st"
  by (cases "parse_events_from parse_init evs") (simp_all add: parse_events_def)

lemma mk_context_sel [simp]:
  "running (mk_context tok n v i t dd wd g p s) = running s"
  "results (mk_context tok n v i t dd wd g p s) = results s"
  by (simp_all add: mk_context_def)

text \<open>C31: The timers the context starts round-trip through the projector: the timer id
  it writes for call key \<open>k\<close> is the tagged key, and a history that echoes the
  \<open>TimerStarted\<close> event projects into a snapshot where the next context sees
  \<open>k\<close> running.\<close>

theorem ctx_timer_roundtrip:
  assumes "\<not> isl (parse_events evs)"
    "ctx_decisions (ctx_schedule_timer k d c) = ctx_decisions c @ [CtxStartTimer tid x]"
  shows "\<exists>s'. parse_events (evs @ [TimerStarted tid]) = Inr s' \<and> ctx_is_running (mk_context tok n v i t dd wd g p s') k"
proof -
  obtain st where st: "parse_events_from parse_init evs = Inr st" using parse_events_Inr [OF assms(1)] by blast
  have "tid = timer_key (int_str k)" using assms(2) by (simp add: ctx_schedule_timer_def)
  then show ?thesis using st
    by (simp add: parse_events_snoc ctx_is_running_def snapshot.truncate_def)
qed

lemma timer_cycles_parse:
  "int_str k \<notin> dom (results st) \<Longrightarrow>
   \<exists>st'. parse_events_from st (timer_cycles (timer_key (int_str k)) n) = Inr st' \<and> int_str k \<notin> dom (results st')"
proof (induction n arbitrary: st)
  case (Suc n)
  let ?tk = "timer_key (int_str k)"
  let ?st1 = "st\<lparr>running := insert (int_str k) (running st) - {int_str k},
               results := (results st)(?tk \<mapsto> PyNone)\<rparr>"
  have p: "parse_events_from st [TimerStarted ?tk, TimerFired ?tk] = Inr ?st1"
    by (simp add: py_set_remove_def)
  have h: "int_str k \<notin> dom (results ?st1)"
    using Suc.prems by (simp add: timer_key_not_int_str [symmetric])
  obtain st' where "parse_events_from ?st1 (timer_cycles ?tk n) = Inr st'" "int_str k \<notin> dom (results st')"
    using Suc.IH [OF h] by blast
  moreover have "parse_events_from st (timer_cycles ?tk (Suc n)) = parse_events_from ?st1 (timer_cycles ?tk n)"
  proof -
    have "timer_cycles ?tk (Suc n) = [TimerStarted ?tk, TimerFired ?tk] @ timer_cycles ?tk n" by simp
    then show ?thesis by (simp only: parse_events_from_append p py_bind_simps)
  qed
  ultimately show ?case by auto
qed simp

text \<open>C35: A delayed call of the swf.py context never gets past its timer: the projector
  stores the fired timer under the tagged key while \<open>timer_ready\<close> looks up the
  plain call key, so after any number of start/fire cycles of the timer the call is
  still not ready and the proxy starts the timer again instead of scheduling.\<close>

theorem ctx_fired_timer_never_ready:
  assumes "parse_events_from parse_init evs = Inr st" "int_str k \<notin> dom (results st)" "0 < delay"
  shows "\<exists>s'. parse_events (evs @ timer_cycles (timer_key (int_str k)) n) = Inr s' \<and>
           \<not> ctx_timer_ready (mk_context tok nm v i t dd wd g p s') k \<and>
           activity_schedule ap (mk_context tok nm v i t dd wd g p s') k delay ser =
             ctx_schedule_timer k delay (mk_context tok nm v i t dd wd g p s')"
proof -
  obtain st' where "parse_events_from st (timer_cycles (timer_key (int_str k)) n) = Inr st'"
      "int_str k \<notin> dom (results st')"
    using timer_cycles_parse [OF assms(2)] by blast
  then show ?thesis using assms(1,3)
    by (simp add: parse_events_def parse_events_from_append ctx_timer_ready_def activity_schedule_def
        snapshot.truncate_def)
qed

text \<open>The sub-workflows the context starts are tracked under their call key: for a
  non-negative call key, the workflow id it writes is read back by the projector as
  that key, so the next context sees the call running.\<close>

theorem ctx_child_tracked:
  assumes "0 \<le> k" "\<not> isl (parse_events evs)"
    "ctx_decisions (ctx_schedule_workflow uuid k nm v inp tl' wd dd c) =
       ctx_decisions c @ [CtxStartChild nm' v' wid a b tl'' inp']"
  shows "\<exists>s'. parse_events (evs @ [StartChildWorkflowExecutionInitiated wid]) = Inr s' \<and>
           ctx_is_running (mk_context tok n' v'' i t dd' wd' g p s') k"
proof -
  obtain st where st: "parse_events_from parse_init evs = Inr st" using parse_events_Inr [OF assms(2)] by blast
  have "wid = subworkflow_key uuid (int_str k)" using assms(3) by (simp add: ctx_schedule_workflow_def)
  then have "subworkflow_call_key wid = int_str k"
    using assms(1) by (simp add: subworkflow_call_key_def subworkflow_key_def py_simps)
  then show ?thesis using st
    by (simp add: parse_events_snoc ctx_is_running_def snapshot.truncate_def)
qed

theorem ctx_run_sends_once_witness:
  "ctx_sent (ctx_run demo_context [CTimer 0 10, CFail ''boom'', CComplete ''x'', CFlush]) =
     [(''tok'', [CtxFail ''boom''])] \<and>
   length [(''tok'', [CtxFail ''boom''])] \<le> 1 \<and> ctx_batch_ok [CtxFail ''boom'']"
proof -
  have s: "ctx_sent (ctx_run demo_context [CTimer 0 10, CFail ''boom'', CComplete ''x'', CFlush]) =
     [(''tok'', [CtxFail ''boom''])]"
    by (simp add: demo_context_def mk_context_def ctx_schedule_timer_def ctx_fail_def ctx_complete_def
        ctx_flush_def py_prefix_def)
  show ?thesis
    using ctx_run_sends_once [of "''tok''" "''wf''" "''1''" "''[[], {}]''" "''tl''" "''600''" "''3600''" None
        "''TERMINATE''" empty_snapshot "[CTimer 0 10, CFail ''boom'', CComplete ''x'', CFlush]"] s
    by (simp add: demo_context_def)
qed

theorem ctx_timer_roundtrip_witness:
  "\<not> isl (parse_events []) \<and>
   ctx_decisions (ctx_schedule_timer 3 10 demo_context) = ctx_decisions demo_context @ [CtxStartTimer ''3:t'' ''10''] \<and>
   (\<exists>s'. parse_events ([] @ [TimerStarted ''3:t'']) = Inr s' \<and>
      ctx_is_running (mk_context ''tok'' ''wf'' ''1'' ''[[], {}]'' ''tl'' ''600'' ''3600'' None ''TERMINATE'' s') 3)"
proof -
  have d: "ctx_decisions (ctx_schedule_timer 3 10 demo_context) =
      ctx_decisions demo_context @ [CtxStartTimer ''3:t'' ''10'']"
    by (simp add: ctx_schedule_timer_def timer_key_def int_str_def nat_str.simps)
  have p: "\<not> isl (parse_events [])" by (simp add: parse_events_def)
  show ?thesis using ctx_timer_roundtrip [OF p d] d p by blast
qed

theorem ctx_fired_timer_never_ready_witness:
  "parse_events_from parse_init [] = Inr parse_init \<and> int_str 0 \<notin> dom (results parse_init) \<and> (0::int) < 10 \<and>
   (\<exists>s'. parse_events ([] @ timer_cycles (timer_key (int_str 0)) 2) = Inr s' \<and>
      \<not> ctx_timer_ready (mk_context ''tok'' ''wf'' ''1'' ''[[], {}]'' ''tl'' ''600'' ''3600'' None ''TERMINATE'' s') 0 \<and>
      activity_schedule (conf_activity ''double'' ''1'' None None None None None None)
        (mk_context ''tok'' ''wf'' ''1'' ''[[], {}]'' ''tl'' ''600'' ''3600'' None ''TERMINATE'' s') 0 10 (Inr ''[1]'') =
      ctx_schedule_timer 0 10 (mk_context ''tok'' ''wf'' ''1'' ''[[], {}]'' ''tl'' ''600'' ''3600'' None ''TERMINATE'' s'))"
proof -
  have h: "parse_events_from parse_init [] = Inr parse_init" "int_str 0 \<notin> dom (results parse_init)" "(0::int) < 10"
    by (simp_all add: parse_init_def)
  show ?thesis
    using ctx_fired_timer_never_ready [OF h, of 2 "''tok''" "''wf''" "''1''" "''[[], {}]''" "''tl''" "''600''"
        "''3600''" None "''TERMINATE''" "conf_activity ''double'' ''1'' None None None None None None" "Inr ''[1]''"] h
    by blast
qed

theorem ctx_child_tracked_witness:
  "(0::int) \<le> 4 \<and> \<not> isl (parse_events []) \<and>
   ctx_decisions (ctx_schedule_workflow ''ab-cd'' 4 ''child'' ''1'' ''[2]'' None None None demo_context) =
     ctx_decisions demo_context @ [CtxStartChild ''child'' ''1'' ''ab-cd-4'' None None None ''[2]''] \<and>
   (\<exists>s'. parse_events ([] @ [StartChildWorkflowExecutionInitiated ''ab-cd-4'']) = Inr s' \<and>
      ctx_is_running (mk_context ''tok'' ''wf'' ''1'' ''[[], {}]'' ''tl'' ''600'' ''3600'' None ''TERMINATE'' s') 4)"
proof -
  have d: "ctx_decisions (ctx_schedule_workflow ''ab-cd'' 4 ''child'' ''1'' ''[2]'' None None None demo_context) =
     ctx_decisions demo_context @ [CtxStartChild ''child'' ''1'' ''ab-cd-4'' None None None ''[2]'']"
    by (simp add: ctx_schedule_workflow_def subworkflow_key_def str_or_none_def int_str_def nat_str.simps)
  have p: "\<not> isl (parse_events [])" by (simp add: parse_events_def)
  have k: "(0::int) \<le> 4" by simp
  from k p d ctx_child_tracked [OF k p d] show ?thesis by (intro conjI) assumption+
qed

end
