(* ===== verification/Activity.thy ===== *)
theory Activity
  imports Flowy_Prelude
begin

text \<open>
  Activity-side reporting (src/flowy/task.py, lines 63-135): \<open>SWFActivity\<close>, a
  \<open>Task\<close> whose \<open>__call__\<close> runs the activity code and reports the outcome to
  SWF, \<open>AsyncSWFActivity\<close>, which reports for an activity that suspended, and the
  three helpers \<open>_activity_heartbeat\<close>, \<open>_activity_fail\<close>,
  \<open>_activity_finish\<close>. The SWF client is a log of the requests sent, each with
  the outcome of the transport call. The theory proves that a run reports at most one
  outcome, after its heartbeats, that failure reasons are cut to 256 characters, and
  what \<open>__call__\<close> returns on each path.
\<close>

section \<open>Requests to SWF\<close>

datatype act_request =
    HeartbeatRequest token              \<comment> \<open>\<open>record_activity_task_heartbeat\<close>\<close>
  | FailedRequest string token          \<comment> \<open>\<open>respond_activity_task_failed\<close>: reason\<close>
  | CompletedRequest string token       \<comment> \<open>\<open>respond_activity_task_completed\<close>: result\<close>

type_synonym swf_log = "(act_request \<times> bool) list"

text \<open>
  Each helper sends one request and returns \<open>True\<close>, or \<open>False\<close> when the client
  raised \<open>SWFResponseError\<close>; \<open>ok\<close> is the outcome of the transport call.
\<close>

definition activity_heartbeat :: "bool \<Rightarrow> token \<Rightarrow> swf_log \<Rightarrow> bool \<times> swf_log" where
  "activity_heartbeat ok tok log = (ok, log @ [(HeartbeatRequest tok, ok)])"

definition activity_fail :: "bool \<Rightarrow> token \<Rightarrow> string \<Rightarrow> swf_log \<Rightarrow> bool \<times> swf_log" where
  "activity_fail ok tok reason log = (ok, log @ [(FailedRequest (py_prefix 256 reason) tok, ok)])"

definition activity_finish :: "bool \<Rightarrow> token \<Rightarrow> string \<Rightarrow> swf_log \<Rightarrow> bool \<times> swf_log" where
  "activity_finish ok tok result log = (ok, log @ [(CompletedRequest result tok, ok)])"

section \<open>Activity code\<close>

text \<open>
  What the activity code does: return a value (carried as its JSON text, or one that
  \<open>json.dumps\<close> rejects), raise, raise \<open>SuspendTask\<close> to finish later through
  \<open>AsyncSWFActivity\<close>, or send a heartbeat and continue with its result.
\<close>

datatype act_value = JsonValue string | Unserialisable

datatype act_prog =
    AReturn act_value
  | ARaise string
  | ASuspend
  | AHeartbeat "bool \<Rightarrow> act_prog"

datatype act_outcome = ActReturned act_value | ActRaised string | ActSuspended

text \<open>The \<open>n\<close>-th request of a run meets the transport outcome \<open>net n\<close>.\<close>

primrec run_activity :: "(nat \<Rightarrow> bool) \<Rightarrow> token \<Rightarrow> act_prog \<Rightarrow> swf_log \<Rightarrow> act_outcome \<times> swf_log" where
  "run_activity net tok (AReturn v) log = (ActReturned v, log)"
| "run_activity net tok (ARaise m) log = (ActRaised m, log)"
| "run_activity net tok ASuspend log = (ActSuspended, log)"
| "run_activity net tok (AHeartbeat k) log =
     (case activity_heartbeat (net (length log)) tok log of (b, log') \<Rightarrow> run_activity net tok (k b) log')"

section \<open>SWFActivity and AsyncSWFActivity\<close>

text \<open>\<open>SWFActivity._finish\<close>: serialise (\<open>TypeError\<close> returns \<open>False\<close>) and finish.\<close>

definition act_finish :: "(nat \<Rightarrow> bool) \<Rightarrow> token \<Rightarrow> act_value \<Rightarrow> swf_log \<Rightarrow> bool \<times> swf_log" where
  "act_finish net tok v log =
     (case v of
        Unserialisable \<Rightarrow> (False, log)
      | JsonValue r \<Rightarrow> activity_finish (net (length log)) tok r log)"

text \<open>
  \<open>Task.__call__\<close> for \<open>SWFActivity\<close>: a \<open>ValueError\<close> in deserialisation returns
  \<open>False\<close>; \<open>SuspendTask\<close> goes to \<open>_suspend\<close>, which returns \<open>True\<close>; another
  exception fails the activity with its message; a value goes to \<open>_finish\<close>.
\<close>

definition activity_call :: "(nat \<Rightarrow> bool) \<Rightarrow> token \<Rightarrow> (string \<Rightarrow> act_prog option) \<Rightarrow> string \<Rightarrow>
    swf_log \<Rightarrow> bool \<times> swf_log" where
  "activity_call net tok run input log =
     (case run input of
        None \<Rightarrow> (False, log)
      | Some p \<Rightarrow>
          (case run_activity net tok p log of
             (ActReturned v, log') \<Rightarrow> act_finish net tok v log'
           | (ActRaised m, log') \<Rightarrow> activity_fail (net (length log')) tok m log'
           | (ActSuspended, log') \<Rightarrow> (True, log')))"

text \<open>\<open>AsyncSWFActivity.finish\<close>: the same serialisation and report, later, with the
  stored token; its \<open>heartbeat\<close> and \<open>fail\<close> are the helpers themselves.\<close>

definition async_finish :: "bool \<Rightarrow> token \<Rightarrow> act_value \<Rightarrow> swf_log \<Rightarrow> bool \<times> swf_log" where
  "async_finish ok tok v log =
     (case v of Unserialisable \<Rightarrow> (False, log) | JsonValue r \<Rightarrow> activity_finish ok tok r log)"

text \<open>
  The activity objects: \<open>Task.__init__\<close> with \<open>SWFActivity.__init__\<close> store the
  input and the token (the client is the log); \<open>Task.token\<close> is \<open>str(self._token)\<close>,
  the token itself since tokens are strings. \<open>AsyncSWFActivity\<close> stores only the
  token. Their \<open>heartbeat\<close> and \<open>fail\<close> call the helpers with that token.
\<close>

record swf_activity =
  sa_input :: string
  sa_token :: token

definition swf_activity_fail :: "bool \<Rightarrow> swf_activity \<Rightarrow> string \<Rightarrow> swf_log \<Rightarrow> bool \<times> swf_log" where
  "swf_activity_fail ok a reason log = activity_fail ok (sa_token a) reason log"

definition swf_activity_heartbeat :: "bool \<Rightarrow> swf_activity \<Rightarrow> swf_log \<Rightarrow> bool \<times> swf_log" where
  "swf_activity_heartbeat ok a log = activity_heartbeat ok (sa_token a) log"

record async_activity =
  aa_token :: token

definition async_heartbeat :: "bool \<Rightarrow> async_activity \<Rightarrow> swf_log \<Rightarrow> bool \<times> swf_log" where
  "async_heartbeat ok a log = activity_heartbeat ok (aa_token a) log"

definition async_fail :: "bool \<Rightarrow> async_activity \<Rightarrow> string \<Rightarrow> swf_log \<Rightarrow> bool \<times> swf_log" where
  "async_fail ok a reason log = activity_fail ok (aa_token a) reason log"

section \<open>Reference definitions and fixtures\<close>

text \<open>Reports, and the well-formed ones of a task.\<close>

fun is_report :: "act_request \<Rightarrow> bool" where
  "is_report (HeartbeatRequest t) = False"
| "is_report r = True"

fun report_ok :: "token \<Rightarrow> act_request \<Rightarrow> bool" where
  "report_ok tok (FailedRequest m t) \<longleftrightarrow> t = tok \<and> length m \<le> 256"
| "report_ok tok (CompletedRequest r t) \<longleftrightarrow> t = tok"
| "report_ok tok (HeartbeatRequest t) \<longleftrightarrow> False"

text \<open>Activity code that sends a heartbeat and then fails with a long message if the
  heartbeat went through, or suspends otherwise.\<close>

definition demo_activity :: act_prog where
  "demo_activity = AHeartbeat (\<lambda>b. if b then ARaise (replicate 300 CHR ''x'') else ASuspend)"

section \<open>Lemmas\<close>

lemma run_activity_heartbeats:
  "\<exists>hs. snd (run_activity net tok p log) = log @ hs \<and> list_all (\<lambda>(r, k). r = HeartbeatRequest tok) hs"
proof (induction p arbitrary: log)
  case (AHeartbeat k)
  obtain hs where "snd (run_activity net tok (k (net (length log))) (log @ [(HeartbeatRequest tok, net (length log))])) =
      (log @ [(HeartbeatRequest tok, net (length log))]) @ hs \<and> list_all (\<lambda>(r, k). r = HeartbeatRequest tok) hs"
    using AHeartbeat.IH by blast
  then show ?case
    by (intro exI [of _ "(HeartbeatRequest tok, net (length log)) # hs"]) (simp add: activity_heartbeat_def)
qed (auto intro: exI [of _ "[]"])

section \<open>Properties\<close>

text \<open>C32: An activity run reports at most once: the requests it sends are heartbeats
  with its token, followed by at most one report, which carries the task token and,
  for a failure, a reason of at most 256 characters.\<close>

theorem activity_reports_once:
  assumes "activity_call net tok run input log = (b, log')"
  shows "\<exists>hs rs. log' = log @ hs @ rs \<and> list_all (\<lambda>(r, k). r = HeartbeatRequest tok) hs \<and>
           length rs \<le> 1 \<and> list_all (\<lambda>(r, k). report_ok tok r) rs"
proof (cases "run input")
  case None
  then show ?thesis using assms by (auto simp: activity_call_def)
next
  case (Some p)
  obtain out l1 where r: "run_activity net tok p log = (out, l1)" by (metis prod.exhaust)
  obtain hs where hs: "l1 = log @ hs" "list_all (\<lambda>(r, k). r = HeartbeatRequest tok) hs"
    using run_activity_heartbeats [of net tok p log] r by auto
  have "\<exists>rs. log' = l1 @ rs \<and> length rs \<le> 1 \<and> list_all (\<lambda>(r, k). report_ok tok r) rs"
  proof (cases out)
    case (ActReturned v)
    then show ?thesis using assms Some r
      by (cases v) (auto simp: activity_call_def act_finish_def activity_finish_def)
  next
    case (ActRaised m)
    then show ?thesis using assms Some r
      by (auto simp: activity_call_def activity_fail_def py_prefix_def)
  next
    case ActSuspended
    then show ?thesis using assms Some r by (auto simp: activity_call_def)
  qed
  then show ?thesis using hs by auto
qed

text \<open>\<open>SWFActivity.__call__\<close> returns \<open>True\<close> exactly when the activity
  suspended (to finish later through \<open>AsyncSWFActivity\<close>) or when SWF accepted the
  report it sent; bad input, an unserialisable result and a rejected report give
  \<open>False\<close>.\<close>

theorem activity_call_result:
  assumes "activity_call net tok run input log = (b, log')"
  shows "b \<longleftrightarrow> (\<exists>p. run input = Some p \<and> fst (run_activity net tok p log) = ActSuspended) \<or>
           (length log < length log' \<and> is_report (fst (last log')) \<and> snd (last log'))"
proof (cases "run input")
  case None
  then show ?thesis using assms by (auto simp: activity_call_def)
next
  case (Some p)
  obtain out l1 where r: "run_activity net tok p log = (out, l1)" by (metis prod.exhaust)
  obtain hs where hs: "l1 = log @ hs" "list_all (\<lambda>(r, k). r = HeartbeatRequest tok) hs"
    using run_activity_heartbeats [of net tok p log] r by auto
  have nr: "length log < length l1 \<Longrightarrow> \<not> is_report (fst (last l1))"
    using hs by (cases hs rule: rev_cases) auto
  show ?thesis
  proof (cases out)
    case (ActReturned v)
    then show ?thesis using assms Some r nr
      by (cases v) (auto simp: activity_call_def act_finish_def activity_finish_def hs)
  next
    case (ActRaised m)
    then show ?thesis using assms Some r
      by (auto simp: activity_call_def activity_fail_def hs)
  qed (use assms Some r in \<open>auto simp: activity_call_def\<close>)
qed

lemma demo_activity_call:
  "activity_call (\<lambda>n. True) ''t'' (\<lambda>x. Some demo_activity) ''[]'' [] =
     (True, [(HeartbeatRequest ''t'', True), (FailedRequest (replicate 256 CHR ''x'') ''t'', True)])"
  "activity_call (\<lambda>n. False) ''t'' (\<lambda>x. Some demo_activity) ''[]'' [] = (True, [(HeartbeatRequest ''t'', False)])"
  by (simp_all add: activity_call_def demo_activity_def activity_heartbeat_def activity_fail_def py_prefix_def)

theorem activity_reports_once_witness:
  "activity_call (\<lambda>n. True) ''t'' (\<lambda>x. Some demo_activity) ''[]'' [] =
     (True, [(HeartbeatRequest ''t'', True), (FailedRequest (replicate 256 CHR ''x'') ''t'', True)]) \<and>
   (\<exists>hs rs. [(HeartbeatRequest ''t'', True), (FailedRequest (replicate 256 CHR ''x'') ''t'', True)] = [] @ hs @ rs \<and>
      list_all (\<lambda>(r, k). r = HeartbeatRequest ''t'') hs \<and> length rs \<le> 1 \<and>
      list_all (\<lambda>(r, k). report_ok ''t'' r) rs)"
  using activity_reports_once [OF demo_activity_call(1)] demo_activity_call(1) by blast

theorem activity_call_result_witness:
  "activity_call (\<lambda>n. False) ''t'' (\<lambda>x. Some demo_activity) ''[]'' [] = (True, [(HeartbeatRequest ''t'', False)]) \<and>
   ((\<exists>p. (\<lambda>x::string. Some demo_activity) ''[]'' = Some p \<and>
        fst (run_activity (\<lambda>n. False) ''t'' p []) = ActSuspended) \<or>
    (length ([]::swf_log) < length [(HeartbeatRequest ''t'', False)] \<and>
     is_report (fst (last [(HeartbeatRequest ''t'', False)])) \<and> snd (last [(HeartbeatRequest ''t'', False)])))"
  using activity_call_result [OF demo_activity_call(2)] demo_activity_call(2) by simp

end
