(* ===== verification/Polling.thy ===== *)
theory Polling
  imports History
begin

text \<open>
  Polling for a decision task and paging through its history
  (src/flowy/backend/swf.py, lines 355-412): \<open>poll_first_page\<close> polls until a
  response carries a task token, \<open>poll_response_page\<close> fetches a further page with
  at most seven attempts, the generator \<open>events\<close> walks the pages, and
  \<open>poll_next_decision\<close> checks the first event, projects the rest and, when a page
  fetch gives up, starts again with a fresh poll. The service is a function of the
  attempt number and of the page token asked for. Loops that wait on the service may
  run forever; they are \<open>partial_function (option)\<close> definitions, so that not
  returning is the value \<open>None\<close>.
\<close>

section \<open>The service\<close>

datatype page = Page (pg_token: "string option") (pg_events: "event list") (pg_next: "string option")

text \<open>A poll raises \<open>SWFResponseError\<close> or returns a page.\<close>

datatype poll_outcome = PollError | PollOk page

type_synonym server = "nat \<Rightarrow> string option \<Rightarrow> poll_outcome"

text \<open>\<open>'taskToken' in swf_response and swf_response['taskToken']\<close>.\<close>

definition has_token :: "page \<Rightarrow> bool" where
  "has_token pg \<longleftrightarrow> (case pg_token pg of None \<Rightarrow> False | Some t \<Rightarrow> t \<noteq> [])"

section \<open>Polling\<close>

text \<open>
  \<open>poll_first_page\<close>: poll until a response has a task token; a transport error is
  logged and the loop goes on. The result is the page and the next attempt number.
\<close>

partial_function (option) poll_first_page :: "server \<Rightarrow> nat \<Rightarrow> (page \<times> nat) option" where
  "poll_first_page srv n =
     (case srv n None of
        PollOk pg \<Rightarrow> (if has_token pg then Some (pg, Suc n) else poll_first_page srv (Suc n))
      | PollError \<Rightarrow> poll_first_page srv (Suc n))"

text \<open>
  \<open>poll_response_page\<close>: \<open>for _ in range(7)\<close> attempts, the first page returned
  ends the loop; when all seven raise, \<open>_PaginationError\<close>.
\<close>

fun page_attempts :: "nat \<Rightarrow> server \<Rightarrow> string \<Rightarrow> nat \<Rightarrow> (py_error + page) \<times> nat" where
  "page_attempts 0 srv tk n = (Inl PaginationError, n)"
| "page_attempts (Suc f) srv tk n =
     (case srv n (Some tk) of
        PollOk pg \<Rightarrow> (Inr pg, Suc n)
      | PollError \<Rightarrow> page_attempts f srv tk (Suc n))"

definition poll_response_page :: "server \<Rightarrow> string \<Rightarrow> nat \<Rightarrow> (py_error + page) \<times> nat" where
  "poll_response_page srv tk n = page_attempts 7 srv tk n"

text \<open>
  The generator \<open>events(first_page)\<close>, one step: the next event of the current page,
  or, at the end of a page with a (non-empty) \<open>nextPageToken\<close>, the first event of
  the next page. Its state is the current page and the position in it.
\<close>

partial_function (option) next_event :: "server \<Rightarrow> page \<Rightarrow> nat \<Rightarrow> nat \<Rightarrow>
    ((py_error + (event \<times> page \<times> nat) option) \<times> nat) option" where
  "next_event srv pg i n =
     (if i < length (pg_events pg) then Some (Inr (Some (pg_events pg ! i, pg, Suc i)), n)
      else (case pg_next pg of
              None \<Rightarrow> Some (Inr None, n)
            | Some t \<Rightarrow>
                (if t = [] then Some (Inr None, n)
                 else (case poll_response_page srv t n of
                         (Inl e, n') \<Rightarrow> Some (Inl e, n')
                       | (Inr pg', n') \<Rightarrow> next_event srv pg' 0 n'))))"

text \<open>\<open>parse_events\<close> consuming the generator: each event is projected as soon as
  it is produced, so an error in an event ends the scan before later pages are fetched.\<close>

partial_function (option) scan_events :: "server \<Rightarrow> parse_state \<Rightarrow> page \<Rightarrow> nat \<Rightarrow> nat \<Rightarrow>
    ((py_error + parse_state) \<times> nat) option" where
  "scan_events srv st pg i n =
     Option.bind (next_event srv pg i n) (\<lambda>(r, n').
       (case r of
          Inl e \<Rightarrow> Some (Inl e, n')
        | Inr None \<Rightarrow> Some (Inr st, n')
        | Inr (Some (ev, pg', i')) \<Rightarrow>
            (case parse_event st ev of
               Inl e \<Rightarrow> Some (Inl e, n')
             | Inr st' \<Rightarrow> scan_events srv st' pg' i' n')))"

text \<open>
  \<open>poll_next_decision\<close>: poll the first page, take the first event (outside the
  \<open>try\<close>, so a page failure while looking for it is not retried; an exhausted
  generator raises \<open>StopIteration\<close>), assert that it is the start of the execution,
  project the remaining events, and retry the whole poll on \<open>_PaginationError\<close>.
  The result is the task token and the snapshot. (The assertion on the start event's
  task list is not modelled: the event carries no attributes here.)
\<close>

partial_function (option) poll_next_decision :: "server \<Rightarrow> nat \<Rightarrow>
    ((py_error + token \<times> snapshot) \<times> nat) option" where
  "poll_next_decision srv n =
     Option.bind (poll_first_page srv n) (\<lambda>(fp, n1).
       Option.bind (next_event srv fp 0 n1) (\<lambda>(r, n2).
         (case r of
            Inl e \<Rightarrow> Some (Inl e, n2)
          | Inr None \<Rightarrow> Some (Inl StopIteration, n2)
          | Inr (Some (ev, pg, i)) \<Rightarrow>
              (if ev \<noteq> OtherEvent ''WorkflowExecutionStarted'' then Some (Inl AssertionError, n2)
               else Option.bind (scan_events srv parse_init pg i n2) (\<lambda>(s, n3).
                 (case s of
                    Inl e \<Rightarrow> (if e = PaginationError then poll_next_decision srv n3 else Some (Inl e, n3))
                  | Inr st \<Rightarrow> Some (Inr (the (pg_token fp), snapshot.truncate st), n3)))))))"


section \<open>Reference definitions\<close>

text \<open>A poll at attempt \<open>j\<close> returns a page with a task token.\<close>

definition token_at :: "server \<Rightarrow> nat \<Rightarrow> bool" where
  "token_at srv j \<longleftrightarrow> (case srv j None of PollOk p \<Rightarrow> has_token p | PollError \<Rightarrow> False)"

text \<open>The start event the first event must be.\<close>

definition start_event :: event where
  "start_event = OtherEvent ''WorkflowExecutionStarted''"

text \<open>
  The whole stream the generator produces from a page and a position: every event of
  every remaining page, or the error of a page fetch. \<open>parse_events\<close> consumes the
  generator one event at a time; this collects the events first, as the design's
  ``linear history'' delivered by the transport.
\<close>

partial_function (option) stream_events :: "server \<Rightarrow> page \<Rightarrow> nat \<Rightarrow> nat \<Rightarrow>
    ((py_error + event list) \<times> nat) option" where
  "stream_events srv pg i n =
     Option.bind (next_event srv pg i n) (\<lambda>(r, n').
       (case r of
          Inl e \<Rightarrow> Some (Inl e, n')
        | Inr None \<Rightarrow> Some (Inr [], n')
        | Inr (Some (ev, pg', i')) \<Rightarrow>
            Option.bind (stream_events srv pg' i' n') (\<lambda>(s, n'').
              Some (map_sum id (Cons ev) s, n''))))"

subsection \<open>Fixtures\<close>

text \<open>
  Two services: both give a first page with a task token at attempt 0, a full history
  page to the poll at attempt 8, and raise on every other call. With \<open>retry_server\<close>
  the first page holds the start event and names a second page, whose seven fetches
  fail; with \<open>first_page_server\<close> the first page is empty, so the start event is
  on the page that cannot be fetched.
\<close>

definition started_page :: "string \<Rightarrow> string option \<Rightarrow> page" where
  "started_page tok nxt = Page (Some tok) [start_event, ActivityTaskScheduled 1 ''0''] nxt"

definition retry_server :: server where
  "retry_server j t =
     (if t = None \<and> j = 0 then PollOk (started_page ''t1'' (Some ''p2''))
      else if t = None \<and> j = 8 then PollOk (started_page ''t2'' None)
      else PollError)"

definition first_page_server :: server where
  "first_page_server j t =
     (if t = None \<and> j = 0 then PollOk (Page (Some ''t1'') [] (Some ''p2''))
      else if t = None \<and> j = 8 then PollOk (started_page ''t2'' None)
      else PollError)"

definition started_snapshot :: snapshot where
  "started_snapshot = \<lparr>running = {''0''}, timedout = {}, results = Map.empty, errors = Map.empty, order = []\<rparr>"

section \<open>Polling for the first page\<close>

lemma poll_first_page_step:
  "poll_first_page srv n =
     (if token_at srv n then map_option (\<lambda>pg. (pg, Suc n)) (case srv n None of PollOk pg \<Rightarrow> Some pg | PollError \<Rightarrow> None)
      else poll_first_page srv (Suc n))"
  by (subst poll_first_page.simps) (auto simp: token_at_def split: poll_outcome.splits)

lemma poll_first_page_first:
  assumes "poll_first_page srv n = Some r"
  shows "n < snd r \<and> srv (snd r - 1) None = PollOk (fst r) \<and> token_at srv (snd r - 1) \<and>
   (\<forall>j. n \<le> j \<and> j < snd r - 1 \<longrightarrow> \<not> token_at srv j)"
  using assms
proof (induction srv n r rule: poll_first_page.raw_induct [rotated, consumes 1, case_names step])
  case (step f srv n r)
  show ?case
  proof (cases "token_at srv n")
    case True
    then obtain pg where pg: "srv n None = PollOk pg" "has_token pg"
      by (auto simp: token_at_def split: poll_outcome.splits)
    then have "r = (pg, Suc n)" using step(2) by simp
    then show ?thesis using pg True by auto
  next
    case False
    then have "f srv (Suc n) = Some r" using step(2) by (auto simp: token_at_def split: poll_outcome.splits if_splits)
    then have ih: "Suc n < snd r" "srv (snd r - 1) None = PollOk (fst r)" "token_at srv (snd r - 1)"
      "\<forall>j. Suc n \<le> j \<and> j < snd r - 1 \<longrightarrow> \<not> token_at srv j"
      using step(1) by blast+
    have "\<forall>j. n \<le> j \<and> j < snd r - 1 \<longrightarrow> \<not> token_at srv j"
    proof (intro allI impI)
      fix j assume "n \<le> j \<and> j < snd r - 1"
      then show "\<not> token_at srv j" using ih(4) False by (cases "j = n") auto
    qed
    then show ?thesis using ih(1-3) by simp
  qed
qed

lemma poll_first_page_at:
  "n < k \<Longrightarrow> srv (k - 1) None = PollOk pg \<Longrightarrow> token_at srv (k - 1) \<Longrightarrow>
   (\<forall>j. n \<le> j \<and> j < k - 1 \<longrightarrow> \<not> token_at srv j) \<Longrightarrow> poll_first_page srv n = Some (pg, k)"
proof (induction "k - 1 - n" arbitrary: n)
  case 0
  then have "n = k - 1" by simp
  then show ?case using 0 by (subst poll_first_page_step) simp
next
  case (Suc d)
  then have "\<not> token_at srv n" "poll_first_page srv (Suc n) = Some (pg, k)" by simp_all
  then show ?case by (subst poll_first_page_step) simp
qed

text \<open>\<open>poll_first_page\<close> returns exactly the page of the first poll, from
  attempt \<open>n\<close> on, whose response carries a non-empty task token, together with the
  next attempt number; every earlier poll raised or came back without a token.\<close>

theorem poll_first_page_first_token:
  "poll_first_page srv n = Some (pg, k) \<longleftrightarrow>
   n < k \<and> srv (k - 1) None = PollOk pg \<and> token_at srv (k - 1) \<and>
   (\<forall>j. n \<le> j \<and> j < k - 1 \<longrightarrow> \<not> token_at srv j)"
  using poll_first_page_first [of srv n "(pg, k)"] poll_first_page_at [of n k srv pg] by auto

text \<open>C16: \<open>poll_first_page\<close> returns if and only if some poll from attempt \<open>n\<close>
  on carries a task token: transport errors and empty responses never end the loop.\<close>

theorem poll_first_page_live:
  "(\<exists>r. poll_first_page srv n = Some r) \<longleftrightarrow> (\<exists>m \<ge> n. token_at srv m)"
proof
  assume "\<exists>r. poll_first_page srv n = Some r"
  then obtain r where "poll_first_page srv n = Some r" by blast
  then have "n < snd r" "token_at srv (snd r - 1)" using poll_first_page_first by blast+
  then show "\<exists>m \<ge> n. token_at srv m" by (intro exI [of _ "snd r - 1"]) simp
next
  assume "\<exists>m \<ge> n. token_at srv m"
  then have ex: "\<exists>m. n \<le> m \<and> token_at srv m" by blast
  define m where "m = (LEAST m. n \<le> m \<and> token_at srv m)"
  have m: "n \<le> m" "token_at srv m" using LeastI_ex [OF ex] unfolding m_def by blast+
  have below: "\<forall>j. n \<le> j \<and> j < m \<longrightarrow> \<not> token_at srv j"
    unfolding m_def using not_less_Least by blast
  obtain pg where "srv m None = PollOk pg"
    using m(2) by (auto simp: token_at_def split: poll_outcome.splits)
  then have "poll_first_page srv n = Some (pg, Suc m)"
    using poll_first_page_at [of n "Suc m" srv pg] m below by simp
  then show "\<exists>r. poll_first_page srv n = Some r" by blast
qed

section \<open>Fetching a further page\<close>

lemma page_attempts_fail:
  "(\<forall>j<f. srv (n + j) (Some tk) = PollError) \<Longrightarrow> page_attempts f srv tk n = (Inl PaginationError, n + f)"
proof (induction f arbitrary: n)
  case 0
  then show ?case by simp
next
  case (Suc f)
  have "srv n (Some tk) = PollError" using Suc(2) [rule_format, of 0] by simp
  moreover have "page_attempts f srv tk (Suc n) = (Inl PaginationError, Suc n + f)"
    using Suc(2) by (intro Suc(1)) (metis Suc_less_eq add_Suc_right add_Suc)
  ultimately show ?case by simp
qed

lemma page_attempts_ok:
  "j < f \<Longrightarrow> srv (n + j) (Some tk) = PollOk pg \<Longrightarrow> (\<forall>i<j. srv (n + i) (Some tk) = PollError) \<Longrightarrow>
   page_attempts f srv tk n = (Inr pg, Suc (n + j))"
proof (induction f arbitrary: n j)
  case 0
  then show ?case by simp
next
  case (Suc f)
  note prem = Suc
  show ?case
  proof (cases j)
    case 0
    then show ?thesis using prem(3) by simp
  next
    case (Suc j')
    have "srv n (Some tk) = PollError" using prem(4) [rule_format, of 0] \<open>j = Suc j'\<close> by simp
    moreover have "page_attempts f srv tk (Suc n) = (Inr pg, Suc (Suc n + j'))"
    proof (rule prem(1))
      show "j' < f" using prem(2) Suc by simp
      show "srv (Suc n + j') (Some tk) = PollOk pg" using prem(3) Suc by simp
      show "\<forall>i<j'. srv (Suc n + i) (Some tk) = PollError" using prem(4) Suc by auto
    qed
    ultimately show ?thesis using \<open>j = Suc j'\<close> by simp
  qed
qed

lemma page_attempts_cases:
  fixes srv :: server
  shows "(\<forall>j<f. srv (n + j) (Some tk) = PollError) \<or>
   (\<exists>j<f. \<exists>pg. srv (n + j) (Some tk) = PollOk pg \<and> (\<forall>i<j. srv (n + i) (Some tk) = PollError))"
proof (cases "\<exists>j<f. srv (n + j) (Some tk) \<noteq> PollError")
  case True
  define P where "P = (\<lambda>j. j < f \<and> srv (n + j) (Some tk) \<noteq> PollError)"
  define j where "j = (LEAST j. P j)"
  have ex: "\<exists>j. P j" using True unfolding P_def by blast
  have j: "j < f" "srv (n + j) (Some tk) \<noteq> PollError"
    using LeastI_ex [OF ex] unfolding j_def P_def by blast+
  have "\<forall>i<j. srv (n + i) (Some tk) = PollError"
    using not_less_Least [of _ P] j(1) unfolding j_def P_def by (meson less_trans)
  then show ?thesis using j by (cases "srv (n + j) (Some tk)") auto
qed auto

text \<open>\<open>poll_response_page\<close> raises \<open>_PaginationError\<close> exactly when all seven
  attempts raise \<open>SWFResponseError\<close>.\<close>

theorem poll_response_page_gives_up:
  "fst (poll_response_page srv tk n) = Inl PaginationError \<longleftrightarrow> (\<forall>j<7. srv (n + j) (Some tk) = PollError)"
  using page_attempts_cases [of 7 srv n tk] page_attempts_fail [of 7 srv n tk] page_attempts_ok [of _ 7 srv n tk]
  unfolding poll_response_page_def by (metis Inl_Inr_False fst_conv)

text \<open>\<open>poll_response_page\<close> makes at most seven calls: it either gives up after
  exactly seven or returns the page of its last call, which succeeded.\<close>

theorem poll_response_page_attempts:
  "poll_response_page srv tk n = (r, n') \<Longrightarrow>
     (r = Inl PaginationError \<and> n' = n + 7) \<or> (\<exists>pg. r = Inr pg \<and> n < n' \<and> n' \<le> n + 7 \<and> srv (n' - 1) (Some tk) = PollOk pg)"
  using page_attempts_cases [of 7 srv n tk] page_attempts_fail [of 7 srv n tk] page_attempts_ok [of _ 7 srv n tk]
  unfolding poll_response_page_def by fastforce

section \<open>The event stream and the scan\<close>

lemma stream_events_cons:
  "next_event srv pg i n = Some (Inr (Some (ev, pg', i')), n') \<Longrightarrow>
   stream_events srv pg' i' n' = Some (Inr evs, n'') \<Longrightarrow>
   stream_events srv pg i n = Some (Inr (ev # evs), n'')"
  by (subst stream_events.simps) simp

lemma stream_events_end:
  "next_event srv pg i n = Some (Inr None, n') \<Longrightarrow> stream_events srv pg i n = Some (Inr [], n')"
  by (subst stream_events.simps) simp

lemma scan_events_complete:
  assumes "scan_events srv st pg i n = Some r" "fst r = Inr st'"
  shows "\<exists>evs. stream_events srv pg i n = Some (Inr evs, snd r) \<and> parse_events_from st evs = Inr st'"
  using assms
proof (induction srv st pg i n r arbitrary: st' rule: scan_events.raw_induct [rotated, consumes 1, case_names step])
  case (step f srv st pg i n r)
  obtain q n1 where ne: "next_event srv pg i n = Some (q, n1)"
    using step(2) by (cases "next_event srv pg i n") auto
  show ?case
  proof (cases q)
    case (Inl e)
    then show ?thesis using step(2,3) ne by auto
  next
    case (Inr x)
    show ?thesis
    proof (cases x)
      case None
      then show ?thesis using step(2,3) ne Inr by (auto simp: stream_events_end)
    next
      case (Some y)
      obtain ev pg' i' where y: "y = (ev, pg', i')" by (cases y) auto
      obtain st1 where p: "parse_event st ev = Inr st1" and rec: "f srv st1 pg' i' n1 = Some r"
        using step(2,3) ne Inr Some y by (auto split: sum.splits)
      obtain evs where "stream_events srv pg' i' n1 = Some (Inr evs, snd r)" "parse_events_from st1 evs = Inr st'"
        using step(1) [OF rec step(3)] by blast
      then show ?thesis using ne Inr Some y p
        by (intro exI [of _ "ev # evs"]) (simp add: stream_events_cons)
    qed
  qed
qed

lemma next_event_in [simp]:
  "i < length (pg_events pg) \<Longrightarrow> next_event srv pg i n = Some (Inr (Some (pg_events pg ! i, pg, Suc i)), n)"
  by (subst next_event.simps) simp

lemma next_event_last:
  "\<not> i < length (pg_events pg) \<Longrightarrow> pg_next pg = None \<or> pg_next pg = Some [] \<Longrightarrow>
   next_event srv pg i n = Some (Inr None, n)"
  by (subst next_event.simps) auto

lemma next_event_fetch:
  "\<not> i < length (pg_events pg) \<Longrightarrow> pg_next pg = Some t \<Longrightarrow> t \<noteq> [] \<Longrightarrow>
   next_event srv pg i n =
     (case poll_response_page srv t n of (Inl e, n') \<Rightarrow> Some (Inl e, n') | (Inr pg', n') \<Rightarrow> next_event srv pg' 0 n')"
  by (subst next_event.simps) simp

lemma scan_events_in:
  "i < length (pg_events pg) \<Longrightarrow>
   scan_events srv st pg i n =
     (case parse_event st (pg_events pg ! i) of Inl e \<Rightarrow> Some (Inl e, n) | Inr st' \<Rightarrow> scan_events srv st' pg (Suc i) n)"
  by (subst scan_events.simps) simp

lemma scan_events_last:
  "\<not> i < length (pg_events pg) \<Longrightarrow> pg_next pg = None \<or> pg_next pg = Some [] \<Longrightarrow>
   scan_events srv st pg i n = Some (Inr st, n)"
  by (subst scan_events.simps) (simp add: next_event_last)

lemma scan_events_fetch:
  "\<not> i < length (pg_events pg) \<Longrightarrow> pg_next pg = Some t \<Longrightarrow> t \<noteq> [] \<Longrightarrow>
   scan_events srv st pg i n =
     (case poll_response_page srv t n of (Inl e, n') \<Rightarrow> Some (Inl e, n') | (Inr pg', n') \<Rightarrow> scan_events srv st pg' 0 n')"
  by (subst scan_events.simps)
     (auto simp: next_event_fetch scan_events.simps [of srv st _ 0] split: prod.splits sum.splits)

lemmas polling_steps = next_event_last next_event_fetch scan_events_in scan_events_last scan_events_fetch

section \<open>A decision task\<close>

lemma poll_next_decision_unfold:
  "poll_first_page srv n = Some (fp, n1) \<Longrightarrow> next_event srv fp 0 n1 = Some (q, n2) \<Longrightarrow>
   poll_next_decision srv n =
     (case q of
        Inl e \<Rightarrow> Some (Inl e, n2)
      | Inr None \<Rightarrow> Some (Inl StopIteration, n2)
      | Inr (Some (ev, pg, i)) \<Rightarrow>
          (if ev \<noteq> start_event then Some (Inl AssertionError, n2)
           else Option.bind (scan_events srv parse_init pg i n2) (\<lambda>(s, n3).
             (case s of
                Inl e \<Rightarrow> (if e = PaginationError then poll_next_decision srv n3 else Some (Inl e, n3))
              | Inr st \<Rightarrow> Some (Inr (the (pg_token fp), snapshot.truncate st), n3)))))"
  unfolding start_event_def by (subst poll_next_decision.simps) simp

lemma stream_events_first:
  "next_event srv fp 0 n1 = Some (Inr (Some (ev, pg, i)), n2) \<Longrightarrow>
   scan_events srv parse_init pg i n2 = Some (Inr st, n3) \<Longrightarrow>
   \<exists>evs. stream_events srv fp 0 n1 = Some (Inr (ev # evs), n3) \<and> parse_events evs = Inr (snapshot.truncate st)"
  using scan_events_complete [of srv parse_init pg i n2 "(Inr st, n3)" st]
  by (auto simp: stream_events_cons parse_events_def)

text \<open>C13: When \<open>poll_next_decision\<close> returns a token and a snapshot, they come from
  one poll: the token is the non-empty token of a first page that \<open>poll_first_page\<close>
  returned, the stream of that page and of all the pages after it was fetched to the
  end, it starts with the start event, and the snapshot is \<open>parse_events\<close> of the
  rest of it (no partial scan of an abandoned poll survives a retry).\<close>

theorem poll_next_decision_complete:
  assumes "poll_next_decision srv n = Some r" "fst r = Inr (tok, snap)"
  shows "\<exists>m fp n1 evs. poll_first_page srv m = Some (fp, n1) \<and> pg_token fp = Some tok \<and> tok \<noteq> [] \<and>
     stream_events srv fp 0 n1 = Some (Inr (start_event # evs), snd r) \<and> parse_events evs = Inr snap"
  using assms
proof (induction srv n r rule: poll_next_decision.raw_induct [rotated, consumes 1, case_names step])
  case (step f srv n r)
  obtain fp n1 where pf: "poll_first_page srv n = Some (fp, n1)"
    using step(2) by (cases "poll_first_page srv n") auto
  obtain q n2 where ne: "next_event srv fp 0 n1 = Some (q, n2)"
    using step(2) pf by (cases "next_event srv fp 0 n1") auto
  note b = step(2) [unfolded pf, simplified, unfolded ne, simplified]
  obtain pg i where q: "q = Inr (Some (start_event, pg, i))"
    using b step(3) by (cases q rule: sumE; auto simp: start_event_def split: option.splits if_splits)
  note b' = b [unfolded q, simplified, folded start_event_def, simplified]
  obtain s n3 where sc: "scan_events srv parse_init pg i n2 = Some (s, n3)"
    using b' by (cases "scan_events srv parse_init pg i n2") auto
  note b'' = b' [unfolded sc, simplified]
  show ?case
  proof (cases s)
    case (Inl e)
    then have "f srv n3 = Some r" using b'' step(3) by (auto split: if_splits)
    then show ?thesis using step(1) [of srv n3 r] step(3) by blast
  next
    case (Inr st)
    then have r: "r = (Inr (the (pg_token fp), snapshot.truncate st), n3)" using b'' by simp
    have tok: "has_token fp"
      using poll_first_page_first [OF pf] by (clarsimp simp: token_at_def)
    show ?thesis using stream_events_first [OF ne [unfolded q] sc [unfolded Inr]] pf r step(3) tok
      by (cases "pg_token fp") (auto simp: has_token_def)
  qed
qed

lemma retry_server_run:
  "poll_next_decision retry_server 0 = Some (Inr (''t2'', started_snapshot), 9)"
proof -
  have p0: "poll_first_page retry_server 0 = Some (started_page ''t1'' (Some ''p2''), 1)"
    by (subst poll_first_page.simps) (simp add: retry_server_def started_page_def has_token_def)
  have p8: "poll_first_page retry_server 8 = Some (started_page ''t2'' None, 9)"
    by (subst poll_first_page.simps) (simp add: retry_server_def started_page_def has_token_def)
  have r0: "poll_next_decision retry_server 0 = poll_next_decision retry_server 8"
    using poll_next_decision_unfold [OF p0 next_event_in]
    by (simp add: started_page_def polling_steps poll_response_page_def numeral_eq_Suc retry_server_def
        start_event_def)
  show ?thesis
    using poll_next_decision_unfold [OF p8 next_event_in]
    by (simp add: r0 started_page_def polling_steps start_event_def parse_init_def started_snapshot_def
        snapshot.truncate_def)
qed

lemma first_page_server_run:
  "poll_next_decision first_page_server 0 = Some (Inl PaginationError, 8)"
proof -
  have p0: "poll_first_page first_page_server 0 = Some (Page (Some ''t1'') [] (Some ''p2''), 1)"
    by (subst poll_first_page.simps) (simp add: first_page_server_def has_token_def)
  have ne: "next_event first_page_server (Page (Some ''t1'') [] (Some ''p2'')) 0 1 = Some (Inl PaginationError, 8)"
    by (simp add: next_event_fetch poll_response_page_def numeral_eq_Suc first_page_server_def)
  show ?thesis using poll_next_decision_unfold [OF p0 ne] by simp
qed


theorem poll_next_decision_complete_witness:
  "\<exists>m fp n1 evs. poll_first_page retry_server m = Some (fp, n1) \<and> pg_token fp = Some ''t2'' \<and> ''t2'' \<noteq> [] \<and>
     stream_events retry_server fp 0 n1 = Some (Inr (start_event # evs), 9) \<and> parse_events evs = Inr started_snapshot"
  using poll_next_decision_complete [OF retry_server_run] by simp

theorem poll_response_page_gives_up_witness:
  "fst (poll_response_page retry_server ''p2'' 1) = Inl PaginationError"
  using poll_response_page_gives_up [of retry_server "''p2''" 1] by (simp add: retry_server_def)

theorem poll_response_page_attempts_witness:
  "poll_response_page retry_server ''p2'' 1 = (Inl PaginationError, 8) \<and>
   ((Inl PaginationError :: py_error + page) = Inl PaginationError \<and> (8::nat) = 1 + 7)"
proof -
  have "poll_response_page retry_server ''p2'' 1 = (Inl PaginationError, 8)"
    by (simp add: poll_response_page_def numeral_eq_Suc retry_server_def)
  then show ?thesis using poll_response_page_attempts [of retry_server "''p2''" 1 "Inl PaginationError" 8] by simp
qed

theorem poll_first_page_first_token_witness:
  "poll_first_page retry_server 1 = Some (started_page ''t2'' None, 9)"
  using poll_first_page_first_token [of retry_server 1 "started_page ''t2'' None" 9]
  by (auto simp: retry_server_def token_at_def has_token_def started_page_def)

theorem poll_first_page_live_witness:
  "\<exists>r. poll_first_page first_page_server 0 = Some r"
proof -
  have "token_at first_page_server 0" by (simp add: first_page_server_def token_at_def has_token_def)
  then show ?thesis using poll_first_page_live [of first_page_server 0] by blast
qed

end
