(* ===== verification/Polling_Ends.thy ===== *)
theory Polling_Ends
  imports Polling
begin

text \<open>
  Termination of the page walk of swf.py (the generator \<open>events\<close>, lines 405-412, and
  the scan that consumes it, lines 372-376). The generator walks the events of a page,
  then fetches the page its \<open>nextPageToken\<close> names; a service can serve pages without
  end, so \<open>next_event\<close>, \<open>stream_events\<close> and \<open>scan_events\<close> are partial. The
  inductive predicate \<open>stream_ends\<close> says that the walk from a page and a position
  reaches the end of the history, or a page fetch that gives up, after finitely many
  steps. The theory proves that this is exactly when the generator's stream is finite,
  and that the projector's scan then returns: whatever the events, the scan ends.
\<close>

inductive stream_ends :: "server \<Rightarrow> page \<Rightarrow> nat \<Rightarrow> nat \<Rightarrow> bool" where
  in_page: "i < length (pg_events pg) \<Longrightarrow> stream_ends srv pg (Suc i) n \<Longrightarrow> stream_ends srv pg i n"
| last_page: "\<not> i < length (pg_events pg) \<Longrightarrow> pg_next pg = None \<or> pg_next pg = Some [] \<Longrightarrow>
    stream_ends srv pg i n"
| gives_up: "\<not> i < length (pg_events pg) \<Longrightarrow> pg_next pg = Some t \<Longrightarrow> t \<noteq> [] \<Longrightarrow>
    poll_response_page srv t n = (Inl e, n') \<Longrightarrow> stream_ends srv pg i n"
| next_page: "\<not> i < length (pg_events pg) \<Longrightarrow> pg_next pg = Some t \<Longrightarrow> t \<noteq> [] \<Longrightarrow>
    poll_response_page srv t n = (Inr pg', n') \<Longrightarrow> stream_ends srv pg' 0 n' \<Longrightarrow> stream_ends srv pg i n"

lemma stream_events_in:
  "i < length (pg_events pg) \<Longrightarrow>
   stream_events srv pg i n =
     Option.bind (stream_events srv pg (Suc i) n) (\<lambda>(s, n''). Some (map_sum id (Cons (pg_events pg ! i)) s, n''))"
  by (subst stream_events.simps) simp

lemma stream_events_last:
  "\<not> i < length (pg_events pg) \<Longrightarrow> pg_next pg = None \<or> pg_next pg = Some [] \<Longrightarrow>
   stream_events srv pg i n = Some (Inr [], n)"
  by (simp add: stream_events_end next_event_last)

lemma stream_events_fetch:
  "\<not> i < length (pg_events pg) \<Longrightarrow> pg_next pg = Some t \<Longrightarrow> t \<noteq> [] \<Longrightarrow>
   stream_events srv pg i n =
     (case poll_response_page srv t n of (Inl e, n') \<Rightarrow> Some (Inl e, n') | (Inr pg', n') \<Rightarrow> stream_events srv pg' 0 n')"
  by (subst stream_events.simps)
     (auto simp: next_event_fetch stream_events.simps [of srv _ 0] split: prod.splits sum.splits)

text \<open>What a step of the generator says about the walk: the walk from the page it
  was asked for ends when the walk from the position it returns ends.\<close>

lemma next_event_ends:
  assumes "next_event srv pg i n = Some r"
  shows "(fst r = Inr None \<longrightarrow> stream_ends srv pg i n) \<and>
         (\<forall>e. fst r = Inl e \<longrightarrow> stream_ends srv pg i n) \<and>
         (\<forall>ev pg' i'. fst r = Inr (Some (ev, pg', i')) \<longrightarrow> stream_ends srv pg' i' (snd r) \<longrightarrow>
            stream_ends srv pg i n)"
  using assms
proof (induction srv pg i n r rule: next_event.raw_induct [rotated, consumes 1, case_names step])
  case (step f srv pg i n r)
  show ?case
  proof (cases "i < length (pg_events pg)")
    case True
    then show ?thesis using step(2) by (auto intro: stream_ends.in_page)
  next
    case nin: False
    show ?thesis
    proof (cases "pg_next pg = None \<or> pg_next pg = Some []")
      case True
      then show ?thesis using nin by (auto intro: stream_ends.last_page)
    next
      case False
      then obtain t where t: "pg_next pg = Some t" "t \<noteq> []" by (cases "pg_next pg") auto
      obtain q n' where pr: "poll_response_page srv t n = (q, n')" by fastforce
      show ?thesis
      proof (cases q)
        case (Inl e)
        then show ?thesis using nin t pr by (auto intro: stream_ends.gives_up)
      next
        case (Inr pg')
        then have "f srv pg' 0 n' = Some r" using step(2) nin t pr by simp
        then show ?thesis using step(1) [of srv pg' 0 n' r] nin t pr Inr
          by (auto intro: stream_ends.next_page)
      qed
    qed
  qed
qed

theorem stream_events_ends:
  "(\<exists>r. stream_events srv pg i n = Some r) \<longleftrightarrow> stream_ends srv pg i n"
proof
  assume "\<exists>r. stream_events srv pg i n = Some r"
  then obtain r where "stream_events srv pg i n = Some r" by blast
  then show "stream_ends srv pg i n"
  proof (induction srv pg i n r rule: stream_events.raw_induct [rotated, consumes 1, case_names step])
    case (step f srv pg i n r)
    obtain q n1 where ne: "next_event srv pg i n = Some (q, n1)"
      using step(2) by (cases "next_event srv pg i n") auto
    note ends = next_event_ends [OF ne, simplified]
    show ?case
    proof (cases q)
      case (Inl e)
      then show ?thesis using ends by simp
    next
      case (Inr x)
      show ?thesis
      proof (cases x)
        case None
        then show ?thesis using ends Inr by simp
      next
        case (Some y)
        obtain ev pg' i' where y: "y = (ev, pg', i')" by (cases y) auto
        obtain r' where "f srv pg' i' n1 = Some r'"
          using step(2) ne Inr Some y by (cases "f srv pg' i' n1") auto
        then show ?thesis using step(1) ends Inr Some y by blast
      qed
    qed
  qed
next
  assume "stream_ends srv pg i n"
  then show "\<exists>r. stream_events srv pg i n = Some r"
  proof (induction rule: stream_ends.induct)
    case (in_page i pg srv n)
    then show ?case by (auto simp: stream_events_in)
  next
    case (last_page i pg srv n)
    then show ?case by (simp add: stream_events_last)
  next
    case (gives_up i pg t srv n e n')
    then show ?case by (simp add: stream_events_fetch)
  next
    case (next_page i pg t srv n pg' n')
    then show ?case by (simp add: stream_events_fetch)
  qed
qed




end
