(* ===== verification/Config.thy ===== *)
theory Config
  imports Context Polling "HOL-Library.AList"
begin

text \<open>
  Workflow configuration and registration (src/flowy/backend/swf.py, lines 33-271 and
  608-628): \<open>SWFWorkflowConfig\<close> with its defaults, the dependency registry that
  \<open>conf_activity\<close> and \<open>conf_workflow\<close> fill, \<open>set_alternate_name\<close>, the value
  conversion \<open>_cvt_values\<close>, the remote registration \<open>register_remote\<close>,
  \<open>check_compatible\<close> and \<open>register\<close>, the registry key of
  \<open>SWFWorkflowRegistry\<close>, its dispatch and its \<open>register_remote\<close> over all
  workflows, and the registration step and one round of the decision worker
  \<open>start_workflow_worker\<close>. The remote calls are parameters: the outcome of
  \<open>register_workflow_type\<close> and the answer of \<open>describe_workflow_type\<close>.
\<close>

section \<open>Values and configurations\<close>

text \<open>
  The Python values the conversion produces: \<open>None\<close>, strings and tuples. The
  conversion of the default task list ends with a stray comma
  (\<open>d_t_l = _str_or_none(self.d_t_l),\<close>), which makes it a one-element tuple.
\<close>

datatype py_obj = ObjNone | ObjStr string | ObjTuple "py_obj list"

definition obj_of :: "string option \<Rightarrow> py_obj" where
  "obj_of v = (case v of None \<Rightarrow> ObjNone | Some s \<Rightarrow> ObjStr s)"

text \<open>A dependency of a workflow: an activity proxy or a sub-workflow proxy.\<close>

datatype dep_proxy = DepActivity activity_proxy | DepWorkflow workflow_proxy

text \<open>
  \<open>SWFWorkflowConfig\<close>: its own attributes, the registry of dependencies (a
  dictionary, kept in insertion order), and the attributes the base class
  \<open>WorkflowConfig\<close> stores (the rate limit and the names of the three codecs).
\<close>

record wf_config =
  cfg_name :: "string option"
  cfg_version :: string
  cfg_task_list :: "string option"
  cfg_workflow_duration :: "int option"
  cfg_decision_duration :: "int option"
  cfg_child_policy :: "string option"
  cfg_proxies :: "(string \<times> dep_proxy) list"
  cfg_rate_limit :: "int option"
  cfg_deserialize_input :: string
  cfg_serialize_result :: string
  cfg_serialize_restart_input :: string

text \<open>\<open>SWFWorkflowConfig.__init__\<close> with every argument.\<close>

definition mk_config :: "string \<Rightarrow> string option \<Rightarrow> string option \<Rightarrow> int option \<Rightarrow> int option \<Rightarrow>
    string option \<Rightarrow> int option \<Rightarrow> string \<Rightarrow> string \<Rightarrow> string \<Rightarrow> wf_config" where
  "mk_config version name tlist wd dd cp rl di sr sri =
     \<lparr>cfg_name = name, cfg_version = version, cfg_task_list = tlist, cfg_workflow_duration = wd,
      cfg_decision_duration = dd, cfg_child_policy = cp, cfg_proxies = [], cfg_rate_limit = rl,
      cfg_deserialize_input = di, cfg_serialize_result = sr, cfg_serialize_restart_input = sri\<rparr>"

text \<open>The defaults of \<open>SWFWorkflowConfig(version)\<close>.\<close>

definition default_config :: "string \<Rightarrow> wf_config" where
  "default_config version =
     mk_config version None None (Some 3600) (Some 600) (Some ''TERMINATE'') (Some 64)
       ''_d_i'' ''_s_r'' ''_s_i''"

text \<open>
  \<open>WorkflowConfig.conf(dep_name, proxy)\<close> of \<open>flowy.base\<close> (not among the
  sources): the proxy is stored under the dependency name.
\<close>

definition conf :: "string \<Rightarrow> dep_proxy \<Rightarrow> wf_config \<Rightarrow> wf_config" where
  "conf dep p c = c\<lparr>cfg_proxies := AList.update dep p (cfg_proxies c)\<rparr>"

text \<open>\<open>conf_activity\<close> and \<open>conf_workflow\<close> of the configuration.\<close>

definition config_conf_activity :: "string \<Rightarrow> string \<Rightarrow> string option \<Rightarrow> string option \<Rightarrow>
    int option \<Rightarrow> int option \<Rightarrow> int option \<Rightarrow> int option \<Rightarrow> wf_config \<Rightarrow> wf_config" where
  "config_conf_activity dep version name tlist hb stc sts stc' c =
     conf dep (DepActivity (conf_activity dep version name tlist hb stc sts stc')) c"

definition config_conf_workflow :: "string \<Rightarrow> string \<Rightarrow> string option \<Rightarrow> string option \<Rightarrow>
    int option \<Rightarrow> int option \<Rightarrow> wf_config \<Rightarrow> wf_config" where
  "config_conf_workflow dep version name tlist wd dd c =
     conf dep (DepWorkflow (conf_workflow dep version name tlist wd dd)) c"

text \<open>
  \<open>set_alternate_name(name)\<close>: a named configuration is returned as it is;
  otherwise a clone is built with the new name and every dependency is configured
  again on it. The clone is built without \<open>rate_limit\<close> and
  \<open>serialize_restart_input\<close>, which take their defaults.
\<close>

definition set_alternate_name :: "string \<Rightarrow> wf_config \<Rightarrow> wf_config" where
  "set_alternate_name n c =
     (if cfg_name c \<noteq> None then c
      else fold (\<lambda>(dep, p). conf dep p) (cfg_proxies c)
             (mk_config (cfg_version c) (Some n) (cfg_task_list c) (cfg_workflow_duration c)
                (cfg_decision_duration c) (cfg_child_policy c) (Some 64)
                (cfg_deserialize_input c) (cfg_serialize_result c) ''_s_i''))"

section \<open>Registration\<close>

text \<open>\<open>_CHILD_POLICY\<close>.\<close>

definition child_policies :: "string option list" where
  "child_policies = [Some ''TERMINATE'', Some ''REQUEST_CANCEL'', Some ''ABANDON'', None]"

text \<open>
  \<open>_cvt_values()\<close>: \<open>RuntimeError\<close> without a name, \<open>ValueError\<close> from the timer
  encodings or for a child policy outside \<open>_CHILD_POLICY\<close>. The policy test reads
  the unbound name \<open>child_policy\<close>; the converted policy \<open>d_c_p\<close> is meant.
  The task list is the one-element tuple.
\<close>

type_synonym cvt_values = "string \<times> string \<times> py_obj \<times> string option \<times> string option \<times> string option"

definition cvt_values :: "wf_config \<Rightarrow> py_error + cvt_values" where
  "cvt_values c =
     (case cfg_name c of
        None \<Rightarrow> Inl RuntimeError
      | Some name \<Rightarrow>
          py_bind (timer_encode (cfg_workflow_duration c)) (\<lambda>d_w_d.
          py_bind (timer_encode (cfg_decision_duration c)) (\<lambda>d_d_d.
            (if cfg_child_policy c \<notin> set child_policies then Inl ValueError
             else Inr (name, cfg_version c, ObjTuple [obj_of (cfg_task_list c)], d_w_d, d_d_d,
                       cfg_child_policy c)))))"

text \<open>The outcome of \<open>register_workflow_type\<close>.\<close>

datatype reg_outcome = RegCreated | RegAlreadyExists | RegFailed

text \<open>
  \<open>register_remote\<close>: \<open>True\<close> when the type was created, \<open>False\<close> when it already
  existed (\<open>SWFTypeAlreadyExistsError\<close>), \<open>RegistrationError\<close> on any other
  \<open>SWFResponseError\<close>.
\<close>

definition register_remote :: "wf_config \<Rightarrow> reg_outcome \<Rightarrow> py_error + bool" where
  "register_remote c out =
     py_bind (cvt_values c) (\<lambda>_.
       (case out of RegCreated \<Rightarrow> Inr True | RegAlreadyExists \<Rightarrow> Inr False | RegFailed \<Rightarrow> Inl RegistrationError))"

text \<open>The \<open>configuration\<close> part of \<open>describe_workflow_type\<close> that the check reads.\<close>

record remote_defaults =
  rd_task_list :: "string option"
  rd_task_timeout :: "string option"
  rd_execution_timeout :: "string option"
  rd_child_policy :: "string option"

text \<open>
  \<open>check_compatible\<close>: \<open>RegistrationError\<close> when the description fails, otherwise
  whether the remote defaults equal the converted ones.
\<close>

definition check_compatible :: "wf_config \<Rightarrow> py_error + remote_defaults \<Rightarrow> py_error + bool" where
  "check_compatible c desc =
     py_bind (cvt_values c) (\<lambda>(name, version, d_t_l, d_w_d, d_d_d, d_c_p).
       (case desc of
          Inl _ \<Rightarrow> Inl RegistrationError
        | Inr w \<Rightarrow> Inr (obj_of (rd_task_list w) = d_t_l \<and> rd_task_timeout w = d_d_d \<and>
                       rd_execution_timeout w = d_w_d \<and> rd_child_policy w = d_c_p)))"

text \<open>\<open>register\<close>: when the type already exists the result of the check is computed
  and dropped.\<close>

definition register :: "wf_config \<Rightarrow> reg_outcome \<Rightarrow> py_error + remote_defaults \<Rightarrow> py_error + unit" where
  "register c out desc =
     py_bind (register_remote c out) (\<lambda>new.
       if new then Inr () else py_bind (check_compatible c desc) (\<lambda>success. Inr ()))"

section \<open>The registry and the worker\<close>

text \<open>\<open>SWFWorkflowRegistry._key\<close>.\<close>

definition registry_key :: "string option \<Rightarrow> string \<Rightarrow> py_error + string \<times> string" where
  "registry_key name version = (case name of None \<Rightarrow> Inl ValueError | Some n \<Rightarrow> Inr (n, version))"

text \<open>
  \<open>SWFWorkflowRegistry.__call__\<close>: after the key, the code calls the \<open>super\<close>
  object itself, \<open>super(SWFWorkflowRegistry, self)(key, context)\<close>, which raises
  \<open>TypeError\<close> (a \<open>super\<close> object is not callable).
\<close>

definition registry_call :: "string option \<Rightarrow> string \<Rightarrow> py_error + unit" where
  "registry_call name version = py_bind (registry_key name version) (\<lambda>key. Inl TypeError)"

text \<open>
  The loop of \<open>start_workflow_worker\<close>: poll a decision task and run the registry
  on its context, forever. The workflow type's name and version are read from the start
  event; here they are a function \<open>wf_type\<close> of the task token. Only
  \<open>KeyboardInterrupt\<close> is caught, so the first exception ends the worker; the
  result is that exception and the attempt number it was raised at.
\<close>

partial_function (option) worker_loop :: "(token \<Rightarrow> string \<times> string) \<Rightarrow> server \<Rightarrow> nat \<Rightarrow>
    (py_error \<times> nat) option" where
  "worker_loop wf_type srv n =
     Option.bind (poll_next_decision srv n) (\<lambda>(r, n').
       (case r of
          Inl e \<Rightarrow> Some (e, n')
        | Inr (tok, snap) \<Rightarrow>
            (case registry_call (Some (fst (wf_type tok))) (snd (wf_type tok)) of
               Inl e \<Rightarrow> Some (e, n')
             | Inr _ \<Rightarrow> worker_loop wf_type srv n')))"

text \<open>
  \<open>SWFWorkflow(config, workflow_factory)\<close>: the configuration the workflow is bound
  to is the configuration named after the factory (\<open>__name__\<close>) when it has no
  name; \<open>register\<close> is delegated to it.
\<close>

definition bind_workflow :: "string \<Rightarrow> wf_config \<Rightarrow> wf_config" where
  "bind_workflow factory_name c = set_alternate_name factory_name c"

text \<open>
  \<open>_default_identity()\<close>: \<open>"%s-%s" % (socket.getfqdn(), os.getpid())\<close>, cut to its
  last 256 characters (\<open>id[-256:]\<close>), the longest identity SWF accepts.
\<close>

definition default_identity :: "string \<Rightarrow> int \<Rightarrow> string" where
  "default_identity fqdn pid =
     (let id = fqdn @ ''-'' @ int_str pid in drop (length id - 256) id)"

text \<open>
  \<open>SWFWorkflowRegistry.register_remote(layer1)\<close>: \<open>register\<close> of every workflow of
  the registry, in order, each with the outcomes of its remote calls; the first
  exception ends the loop. The result, and the names of the workflows whose
  registration was attempted.
\<close>

type_synonym registration = "wf_config \<times> reg_outcome \<times> (py_error + remote_defaults)"

fun register_all :: "registration list \<Rightarrow> (py_error + unit) \<times> string option list" where
  "register_all [] = (Inr (), [])"
| "register_all ((c, out, desc) # ws) =
     (case register c out desc of
        Inl e \<Rightarrow> (Inl e, [cfg_name c])
      | Inr _ \<Rightarrow> (case register_all ws of (r, tried) \<Rightarrow> (r, cfg_name c # tried)))"

text \<open>
  The registration step of \<open>start_workflow_worker\<close>: with \<open>reg_remote\<close>, a
  \<open>RegistrationError\<close> is logged and the worker goes on to poll; any other exception
  ends it before it polls.
\<close>

definition start_registration :: "bool \<Rightarrow> registration list \<Rightarrow> py_error + unit" where
  "start_registration reg_remote ws =
     (if \<not> reg_remote then Inr ()
      else (case fst (register_all ws) of
              Inl e \<Rightarrow> (if e = RegistrationError then Inr () else Inl e)
            | Inr _ \<Rightarrow> Inr ()))"

text \<open>
  \<open>start_workflow_worker\<close> (swf.py 608-630): the logger setup, the default identity
  and \<open>Layer1\<close> only feed the transport, which is the parameter \<open>srv\<close>, and the
  registry's scan is the list of its workflows; then the registration step, then the
  decision loop from the first attempt. A registration error that ends the worker ends
  it before any poll. \<open>KeyboardInterrupt\<close>, the one exception caught around the
  loop, is an asynchronous signal and is not modelled.
\<close>

definition start_workflow_worker :: "bool \<Rightarrow> registration list \<Rightarrow> (token \<Rightarrow> string \<times> string) \<Rightarrow>
    server \<Rightarrow> (py_error \<times> nat) option" where
  "start_workflow_worker reg_remote ws wf_type srv =
     (case start_registration reg_remote ws of
        Inl e \<Rightarrow> Some (e, 0)
      | Inr _ \<Rightarrow> worker_loop wf_type srv 0)"

section \<open>Invariant, types and fixtures\<close>

text \<open>The dependency registry is a dictionary: each dependency name occurs once.\<close>

definition config_inv :: "wf_config \<Rightarrow> bool" where
  "config_inv c \<longleftrightarrow> distinct (map fst (cfg_proxies c))"

text \<open>
  The values SWF accepts for a timeout: the decimal text of a positive integer. The
  converted values are well typed when both timeouts are such texts (or unset) and the
  child policy is one of \<open>_CHILD_POLICY\<close>.
\<close>

definition positive_decimal :: "string \<Rightarrow> bool" where
  "positive_decimal s \<longleftrightarrow> (case py_int s of Inr x \<Rightarrow> 0 < x \<and> int_str x = s | Inl _ \<Rightarrow> False)"

definition cvt_typed :: "cvt_values \<Rightarrow> bool" where
  "cvt_typed v =
     (case v of (name, version, d_t_l, d_w_d, d_d_d, d_c_p) \<Rightarrow>
        pred_option positive_decimal d_w_d \<and> pred_option positive_decimal d_d_d \<and>
        d_c_p \<in> set child_policies)"

text \<open>
  A configuration as a module declares it: \<open>SWFWorkflowConfig(version=1,
  rate_limit=10)\<close> with the activity dependency \<open>a\<close>, and no name yet.
\<close>

definition demo_config :: wf_config where
  "demo_config =
     config_conf_activity ''a'' ''1'' None None None None None None
       (mk_config ''1'' None (Some ''tl'') None None (Some ''TERMINATE'') (Some 10) ''_d_i'' ''_s_r'' ''_s_i'')"

text \<open>What \<open>describe_workflow_type\<close> answers for the registered type.\<close>

definition demo_remote :: remote_defaults where
  "demo_remote = \<lparr>rd_task_list = Some ''tl'', rd_task_timeout = None, rd_execution_timeout = None,
     rd_child_policy = Some ''TERMINATE''\<rparr>"

section \<open>Properties\<close>

lemma obj_of_not_tuple [simp]: "obj_of v \<noteq> ObjTuple xs"
  by (cases v) (simp_all add: obj_of_def)

lemma cvt_values_Inr:
  "cvt_values c = Inr (name, version, d_t_l, d_w_d, d_d_d, d_c_p) \<Longrightarrow>
   cfg_name c = Some name \<and> version = cfg_version c \<and> d_t_l = ObjTuple [obj_of (cfg_task_list c)] \<and>
   timer_encode (cfg_workflow_duration c) = Inr d_w_d \<and> timer_encode (cfg_decision_duration c) = Inr d_d_d \<and>
   d_c_p = cfg_child_policy c \<and> d_c_p \<in> set child_policies"
  by (auto simp: cvt_values_def py_bind_def split: option.splits sum.splits if_splits)

lemma cvt_values_task_list:
  "cvt_values c = Inr (name, version, d_t_l, d_w_d, d_d_d, d_c_p) \<Longrightarrow> d_t_l = ObjTuple [obj_of (cfg_task_list c)]"
  using cvt_values_Inr by blast

text \<open>C18: \<open>check_compatible\<close> never reports a compatible remote type, whatever the
  service describes: the converted task list is a one-element tuple, which no task list
  name equals.\<close>

theorem check_compatible_never:
  "check_compatible c desc \<noteq> Inr True"
proof (cases "cvt_values c")
  case (Inl e)
  then show ?thesis by (simp add: check_compatible_def py_bind_def)
next
  case (Inr v)
  obtain name version d_t_l d_w_d d_d_d d_c_p where v: "v = (name, version, d_t_l, d_w_d, d_d_d, d_c_p)"
    by (cases v) auto
  then have "d_t_l = ObjTuple [obj_of (cfg_task_list c)]" using Inr cvt_values_task_list by simp
  then show ?thesis using Inr v by (simp add: check_compatible_def py_bind_def split: sum.splits)
qed

text \<open>C19: When the type already exists, \<open>register\<close> succeeds whatever the remote
  defaults are: the result of the compatibility check is dropped, and no
  \<open>RegistrationError\<close> is raised for an incompatible registration.\<close>

theorem register_ignores_incompatible:
  "cvt_values c = Inr v \<Longrightarrow> register c RegAlreadyExists (Inr w) = Inr ()"
  by (auto simp: register_def register_remote_def check_compatible_def py_bind_def split: prod.splits)

lemma conf_inv: "config_inv c \<Longrightarrow> config_inv (conf dep p c)"
  by (simp add: config_inv_def conf_def distinct_update)

lemma fold_update_distinct:
  "distinct (map fst (ys @ xs)) \<Longrightarrow> fold (\<lambda>(k, v). AList.update k v) xs ys = ys @ xs"
proof (induction xs arbitrary: ys)
  case Nil
  then show ?case by simp
next
  case (Cons x xs)
  obtain k v where x: "x = (k, v)" by (cases x)
  have "k \<notin> fst ` set ys" using Cons(2) x by auto
  then have "AList.update k v ys = ys @ [(k, v)]" by (induction ys) auto
  then show ?case using Cons x by simp
qed

lemma fold_conf:
  "cfg_proxies (fold (\<lambda>(dep, p). conf dep p) xs c) = fold (\<lambda>(k, v). AList.update k v) xs (cfg_proxies c)"
  by (induction xs arbitrary: c) (auto simp: conf_def)

lemma fold_conf_other:
  "fold (\<lambda>(dep, p). conf dep p) xs c = c\<lparr>cfg_proxies := fold (\<lambda>(k, v). AList.update k v) xs (cfg_proxies c)\<rparr>"
  by (induction xs arbitrary: c) (auto simp: conf_def)

text \<open>Naming an unnamed configuration keeps its version, defaults, input and result
  codecs and every dependency, sets the name, and resets the rate limit and the restart
  codec to their defaults.\<close>

theorem set_alternate_name_clone:
  assumes "cfg_name c = None" "config_inv c"
  shows "set_alternate_name n c =
     c\<lparr>cfg_name := Some n, cfg_rate_limit := Some 64, cfg_serialize_restart_input := ''_s_i''\<rparr>"
proof -
  have "fold (\<lambda>(k, v). AList.update k v) (cfg_proxies c) [] = cfg_proxies c"
    using fold_update_distinct [of "[]" "cfg_proxies c"] assms(2) by (simp add: config_inv_def)
  then show ?thesis using assms(1)
    by (simp add: set_alternate_name_def fold_conf_other mk_config_def)
qed

lemma registry_call_Some [simp]: "registry_call (Some name) version = Inl TypeError"
  by (simp add: registry_call_def registry_key_def py_bind_def)

text \<open>C20: The decision worker never gets past its first decision task: it stops with the
  poll's exception, or with \<open>TypeError\<close> from the registry dispatch once the poll
  returned a task.\<close>

theorem worker_single_poll:
  "worker_loop wf_type srv n =
     map_option (\<lambda>(r, n'). (case r of Inl e \<Rightarrow> e | Inr _ \<Rightarrow> TypeError, n')) (poll_next_decision srv n)"
  by (subst worker_loop.simps) (cases "poll_next_decision srv n"; auto split: sum.splits)

lemma config_inv_mk_config: "config_inv (mk_config version name tlist wd dd cp rl di sr sri)"
  by (simp add: config_inv_def mk_config_def)

lemma config_conf_activity_inv:
  "config_inv c \<Longrightarrow> config_inv (config_conf_activity dep version name tlist hb stc sts stc' c)"
  by (simp add: config_conf_activity_def conf_inv)

lemma config_conf_workflow_inv:
  "config_inv c \<Longrightarrow> config_inv (config_conf_workflow dep version name tlist wd dd c)"
  by (simp add: config_conf_workflow_def conf_inv)

lemma set_alternate_name_inv: "config_inv c \<Longrightarrow> config_inv (set_alternate_name n c)"
  by (simp add: set_alternate_name_def fold_conf_other config_inv_def mk_config_def)
     (metis fold_update_distinct append_Nil)


lemma demo_config_cvt:
  "cvt_values (set_alternate_name ''w'' demo_config) =
     Inr (''w'', ''1'', ObjTuple [ObjStr ''tl''], None, None, Some ''TERMINATE'')"
  by (simp add: cvt_values_def set_alternate_name_def demo_config_def config_conf_activity_def conf_def
      mk_config_def timer_encode_def child_policies_def obj_of_def py_bind_def)

theorem register_ignores_incompatible_witness:
  "register (set_alternate_name ''w'' demo_config) RegAlreadyExists (Inr demo_remote) = Inr ()"
  using register_ignores_incompatible [OF demo_config_cvt] by simp

theorem set_alternate_name_clone_witness:
  "set_alternate_name ''w'' demo_config =
     demo_config\<lparr>cfg_name := Some ''w'', cfg_rate_limit := Some 64, cfg_serialize_restart_input := ''_s_i''\<rparr>"
proof -
  have "cfg_name demo_config = None" "config_inv demo_config"
    by (simp_all add: demo_config_def config_conf_activity_def conf_def mk_config_def config_inv_def)
  then show ?thesis using set_alternate_name_clone [of demo_config] by simp
qed


lemma timer_encode_typed: "timer_encode v = Inr w \<Longrightarrow> pred_option positive_decimal w"
  by (auto simp: timer_encode_def positive_decimal_def Let_def split: option.splits if_splits)

text \<open>C22: The values \<open>_cvt_values\<close> hands to SWF are well typed: each timeout is
  unset or the decimal text of a positive integer, and the child policy is one of
  \<open>_CHILD_POLICY\<close>.\<close>

theorem cvt_values_typed:
  "cvt_values c = Inr v \<Longrightarrow> cvt_typed v"
  by (auto simp: cvt_values_def cvt_typed_def py_bind_def timer_encode_typed
      split: option.splits sum.splits if_splits)

theorem cvt_values_typed_witness:
  "cvt_values (bind_workflow ''w'' (default_config ''1'')) =
     Inr (''w'', ''1'', ObjTuple [ObjNone], Some (int_str 3600), Some (int_str 600), Some ''TERMINATE'') \<and>
   cvt_typed (''w'', ''1'', ObjTuple [ObjNone], Some (int_str 3600), Some (int_str 600), Some ''TERMINATE'')"
proof -
  have "cvt_values (bind_workflow ''w'' (default_config ''1'')) =
     Inr (''w'', ''1'', ObjTuple [ObjNone], Some (int_str 3600), Some (int_str 600), Some ''TERMINATE'')"
    by (simp add: bind_workflow_def set_alternate_name_def default_config_def mk_config_def cvt_values_def
        timer_encode_def child_policies_def obj_of_def py_bind_def)
  then show ?thesis using cvt_values_typed by blast
qed

text \<open>\<open>_default_identity\<close> is at most 256 characters long, is the end of
  \<open>fqdn-pid\<close>, and is all of it when that is short enough.\<close>

theorem default_identity_bounds:
  "length (default_identity fqdn pid) \<le> 256 \<and>
   (\<exists>p. p @ default_identity fqdn pid = fqdn @ ''-'' @ int_str pid) \<and>
   (length (fqdn @ ''-'' @ int_str pid) \<le> 256 \<longrightarrow> default_identity fqdn pid = fqdn @ ''-'' @ int_str pid)"
  unfolding default_identity_def Let_def by (metis append_take_drop_id diff_is_0_eq drop_0 length_drop diff_diff_cancel nat_le_linear order_refl)


theorem default_identity_bounds_witness:
  "default_identity ''worker-host'' 7 = ''worker-host-7''"
  using default_identity_bounds [of "''worker-host''" 7] by (simp add: int_str_def nat_str.simps)


lemma register_all_ok:
  "\<forall>(c, out, desc) \<in> set ws1. register c out desc = Inr () \<Longrightarrow>
   register_all (ws1 @ ws) = (case register_all ws of (r, tried) \<Rightarrow> (r, map (\<lambda>(c, _, _). cfg_name c) ws1 @ tried))"
  by (induction ws1) (auto split: prod.splits)

text \<open>C21: At start-up the worker registers its workflows in order and stops at the
  first that raises: the workflows after it are never registered. A
  \<open>RegistrationError\<close> is then only logged and the worker goes on to poll; any other
  exception (a configuration that cannot be converted) ends it.\<close>

theorem start_registration_stops:
  "\<forall>(c, out, desc) \<in> set ws1. register c out desc = Inr () \<Longrightarrow> register c out desc = Inl e \<Longrightarrow>
   register_all (ws1 @ (c, out, desc) # ws2) = (Inl e, map (\<lambda>(c, _, _). cfg_name c) ws1 @ [cfg_name c]) \<and>
   start_registration True (ws1 @ (c, out, desc) # ws2) = (if e = RegistrationError then Inr () else Inl e)"
  by (simp add: register_all_ok start_registration_def)

text \<open>The worker as a whole: a registration error other than \<open>RegistrationError\<close>
  ends it before it polls; otherwise it stops at its first decision task, as
  \<open>worker_loop\<close> does.\<close>

lemma start_workflow_worker_first_task:
  "start_workflow_worker reg_remote ws wf_type srv =
     (case start_registration reg_remote ws of
        Inl e \<Rightarrow> Some (e, 0)
      | Inr _ \<Rightarrow> map_option (\<lambda>(r, n'). (case r of Inl e \<Rightarrow> e | Inr _ \<Rightarrow> TypeError, n'))
                  (poll_next_decision srv 0))"
  by (cases "poll_next_decision srv 0")
     (auto simp: start_workflow_worker_def worker_loop.simps [of wf_type srv 0] split: sum.splits)

theorem start_registration_stops_witness:
  "register_all [(set_alternate_name ''w'' demo_config, RegFailed, Inr demo_remote),
                 (set_alternate_name ''v'' demo_config, RegCreated, Inr demo_remote)] =
     (Inl RegistrationError, [Some ''w'']) \<and>
   start_registration True [(set_alternate_name ''w'' demo_config, RegFailed, Inr demo_remote),
                 (set_alternate_name ''v'' demo_config, RegCreated, Inr demo_remote)] = Inr ()"
proof -
  have r: "register (set_alternate_name ''w'' demo_config) RegFailed (Inr demo_remote) = Inl RegistrationError"
    by (simp add: register_def register_remote_def demo_config_cvt py_bind_def)
  have n: "cfg_name (set_alternate_name ''w'' demo_config) = Some ''w''"
    by (simp add: set_alternate_name_def demo_config_def config_conf_activity_def conf_def mk_config_def
        fold_conf_other)
  show ?thesis
    using start_registration_stops [of "[]", OF _ r, of "[(set_alternate_name ''v'' demo_config, RegCreated, Inr demo_remote)]"] n
    by simp
qed

end
