(* ===== verification/Workflow_Options.thy ===== *)
theory Workflow_Options
  imports Frame
begin

text \<open>
  \<open>SWFWorkflow.options\<close> (src/flowy/task.py, lines 154-163): a context manager that
  sets the workflow's tags for the duration of a \<open>with\<close> block and puts the old tags
  back after it. The restore follows the \<open>yield\<close> without \<open>try\<close>/\<open>finally\<close>, so
  when the block raises (a failed call's \<open>TaskError\<close> caught outside the block, or
  \<open>SuspendTask\<close>) the generator is closed at the \<open>yield\<close> and the tags of the block
  stay in force: a \<open>restart\<close> later in the round sends them. The options of the
  remote spec (\<open>self._spec.options\<close>, in \<open>flowy.spec\<close>, not among the sources) are
  not modelled. The block is a function on the workflow object that returns a value or
  raises, with the workflow object as it left it.
\<close>

definition wf_options :: "string list option option \<Rightarrow> (workflow \<Rightarrow> (py_error + 'a) \<times> workflow) \<Rightarrow>
    workflow \<Rightarrow> (py_error + 'a) \<times> workflow" where
  "wf_options tags body w =
     (let old_tags = wf_tags w;
          w1 = (case tags of None \<Rightarrow> w | Some t \<Rightarrow> w\<lparr>wf_tags := t\<rparr>)
      in (case body w1 of
            (Inl e, w2) \<Rightarrow> (Inl e, w2)
          | (Inr a, w2) \<Rightarrow> (Inr a, w2\<lparr>wf_tags := old_tags\<rparr>)))"

text \<open>A block that raises at once, as a call whose \<open>TaskError\<close> is caught outside it.\<close>

definition raising_block :: "workflow \<Rightarrow> (py_error + unit) \<times> workflow" where
  "raising_block w = (Inl TypeError, w)"

lemma wf_options_returns:
  "body (case tags of None \<Rightarrow> w | Some t \<Rightarrow> w\<lparr>wf_tags := t\<rparr>) = (Inr a, w') \<Longrightarrow>
   wf_options tags body w = (Inr a, w'\<lparr>wf_tags := wf_tags w\<rparr>)"
  by (simp add: wf_options_def)

lemma wf_options_raises:
  "body (case tags of None \<Rightarrow> w | Some t \<Rightarrow> w\<lparr>wf_tags := t\<rparr>) = (Inl e, w') \<Longrightarrow>
   wf_options tags body w = (Inl e, w')"
  by (simp add: wf_options_def)

text \<open>C23: After a \<open>with self.options(tags=t)\<close> block that returns, the tags are
  the old ones again; after a block that raises, the tags of the block stay, and a
  \<open>restart\<close> in the rest of the round sends them.\<close>

theorem options_tags_after_block:
  "wf_options (Some t) body w = (r, w') \<Longrightarrow>
   (\<forall>a. r = Inr a \<longrightarrow> wf_tags w' = wf_tags w) \<and>
   (\<forall>e. r = Inl e \<longrightarrow> wf_tags (snd (body (w\<lparr>wf_tags := t\<rparr>))) = t \<longrightarrow>
      wf_tags w' = t \<and> wf_restart ok (Some i) w' = on_scheduler (restart ok (wf_spec w') i t) w')"
  by (cases "body (w\<lparr>wf_tags := t\<rparr>)")
     (auto simp: wf_options_def wf_restart_def split: sum.splits)

theorem options_tags_after_block_witness:
  "wf_options (Some (Some [''x''])) raising_block (replay_state {} {} Map.empty Map.empty) =
     (Inl TypeError, (replay_state {} {} Map.empty Map.empty)\<lparr>wf_tags := Some [''x'']\<rparr>) \<and>
   wf_restart True (Some ''[]'') ((replay_state {} {} Map.empty Map.empty)\<lparr>wf_tags := Some [''x'']\<rparr>) =
     on_scheduler (restart True (wf_spec (replay_state {} {} Map.empty Map.empty)) ''[]'' (Some [''x'']))
       ((replay_state {} {} Map.empty Map.empty)\<lparr>wf_tags := Some [''x'']\<rparr>)"
proof -
  have r: "wf_options (Some (Some [''x''])) raising_block (replay_state {} {} Map.empty Map.empty) =
     (Inl TypeError, (replay_state {} {} Map.empty Map.empty)\<lparr>wf_tags := Some [''x'']\<rparr>)"
    by (simp add: wf_options_def raising_block_def)
  show ?thesis
    using r options_tags_after_block [OF r, of True "''[]''"] by (simp add: raising_block_def)
qed

end
