(* ===== verification/Utils.thy ===== *)
theory Utils
  imports Flowy_Prelude
begin

text \<open>
  The helpers of src/flowy/utils.py that compute (\<open>i_or_args\<close>, \<open>scan_args\<close>,
  the \<open>ShortRepr\<close> representations) and src/flowy/worker.py
  (\<open>SingleThreadedWorker\<close>: its task registry and \<open>run_forever\<close>).
  \<open>scan_args\<close> waits on every argument with \<open>wait\<close> of \<open>flowy.result\<close>, which
  is not among the sources: a result returns its value, a placeholder raises
  \<open>SuspendTask\<close>, an error or a timeout raises its exception. The theory proves
  that \<open>scan_args\<close> is a filter of the failed arguments and a test for
  placeholders, that the worker's registry answers each task id with the factory last
  registered for it, that \<open>run_forever\<close> returns exactly when a task raises, and
  that a short representation is bounded whatever the length of the container.
\<close>

section \<open>Arguments\<close>

text \<open>An argument as \<open>scan_args\<close> sees it: a plain value or a task result.\<close>

datatype arg = ArgValue pyval | ArgResult pyval | ArgError string | ArgTimeout string | ArgPlaceholder

datatype wait_outcome = WaitReturns | WaitSuspends | WaitRaises

text \<open>\<open>wait(result)\<close> of \<open>flowy.result\<close>.\<close>

fun wait_arg :: "arg \<Rightarrow> wait_outcome" where
  "wait_arg ArgPlaceholder = WaitSuspends"
| "wait_arg (ArgError _) = WaitRaises"
| "wait_arg (ArgTimeout _) = WaitRaises"
| "wait_arg _ = WaitReturns"

text \<open>One loop of \<open>scan_args\<close>: the errors so far and the placeholder flag.\<close>

fun scan_loop :: "arg list \<times> bool \<Rightarrow> arg list \<Rightarrow> arg list \<times> bool" where
  "scan_loop acc [] = acc"
| "scan_loop (errs, ph) (r # rs) =
     (case wait_arg r of
        WaitReturns \<Rightarrow> scan_loop (errs, ph) rs
      | WaitSuspends \<Rightarrow> scan_loop (errs, True) rs
      | WaitRaises \<Rightarrow> scan_loop (errs @ [r], ph) rs)"

text \<open>\<open>scan_args(args, kwargs)\<close>: the positional arguments, then the keyword
  arguments in the dictionary's order.\<close>

definition scan_args :: "arg list \<Rightarrow> (string \<times> arg) list \<Rightarrow> arg list \<times> bool" where
  "scan_args args kwargs = scan_loop (scan_loop ([], False) args) (map snd kwargs)"

text \<open>
  \<open>i_or_args(result, results)\<close>: with no further results, the elements of
  \<open>result\<close> (\<open>iter(result)\<close>, the iteration given by \<open>elems\<close>); otherwise the
  tuple of all of them.
\<close>

definition i_or_args :: "('a \<Rightarrow> 'a list) \<Rightarrow> 'a \<Rightarrow> 'a list \<Rightarrow> 'a list" where
  "i_or_args elems result results = (if length results = 0 then elems result else result # results)"

section \<open>The worker's registry\<close>

record ('i, 'f) worker =
  w_registry :: "'i \<rightharpoonup> 'f"

definition new_worker :: "('i, 'f) worker" where
  "new_worker = \<lparr>w_registry = Map.empty\<rparr>"

definition worker_register :: "'i \<Rightarrow> 'f \<Rightarrow> ('i, 'f) worker \<Rightarrow> ('i, 'f) worker" where
  "worker_register task_id factory w = w\<lparr>w_registry := (w_registry w)(task_id \<mapsto> factory)\<rparr>"

text \<open>\<open>make_task\<close>: the factory applied to the input and the runtime, or \<open>None\<close>.\<close>

definition make_task :: "('f \<Rightarrow> 'a \<Rightarrow> 'r \<Rightarrow> 't) \<Rightarrow> 'i \<Rightarrow> 'a \<Rightarrow> 'r \<Rightarrow> ('i, 'f) worker \<Rightarrow> 't option" where
  "make_task call task_id input runtime w =
     (case w_registry w task_id of Some f \<Rightarrow> Some (call f input runtime) | None \<Rightarrow> None)"

text \<open>
  \<open>run_forever\<close>: \<open>while 1: task = self.poll_next_task(); task()\<close>. The client's
  \<open>poll_next_task\<close> is a parameter: \<open>poll n\<close> is the \<open>n\<close>-th task it hands out,
  as its effect on the state of the world, which may raise. Nothing is caught, so the
  loop ends exactly when a task raises.
\<close>

partial_function (option) run_forever :: "(nat \<Rightarrow> 's \<Rightarrow> py_error + 's) \<Rightarrow> nat \<Rightarrow> 's \<Rightarrow>
    (py_error \<times> 's) option" where
  "run_forever poll n s = (case poll n s of Inl e \<Rightarrow> Some (e, s) | Inr s' \<Rightarrow> run_forever poll (Suc n) s')"

text \<open>The states the first \<open>k\<close> tasks, from task \<open>n\<close> on, leave behind, or the
  exception of the first that raises.\<close>

fun run_tasks :: "nat \<Rightarrow> (nat \<Rightarrow> 's \<Rightarrow> py_error + 's) \<Rightarrow> nat \<Rightarrow> 's \<Rightarrow> (py_error \<times> 's) + 's" where
  "run_tasks 0 poll n s = Inr s"
| "run_tasks (Suc k) poll n s = (case poll n s of Inl e \<Rightarrow> Inl (e, s) | Inr s' \<Rightarrow> run_tasks k poll (Suc n) s')"

section \<open>Short representations\<close>

text \<open>
  \<open>ShortRepr\<close> (utils.py, lines 38-79): a \<open>reprlib.Repr\<close> with small limits. The
  limits \<open>ShortRepr.__init__\<close> sets, as a record.
\<close>

record repr_limits =
  maxlevel :: int
  maxtuple :: nat
  maxlist :: nat
  maxarray :: nat
  maxdict :: nat
  maxset :: nat
  maxfrozenset :: nat
  maxdeque :: nat
  maxstring :: nat
  maxlong :: nat
  maxother :: nat

definition short_repr_limits :: repr_limits where
  "short_repr_limits =
     \<lparr>maxlevel = 1, maxtuple = 4, maxlist = 4, maxarray = 4, maxdict = 4, maxset = 4,
      maxfrozenset = 4, maxdeque = 4, maxstring = 16, maxlong = 16, maxother = 16\<rparr>"

text \<open>\<open>sep.join(pieces)\<close>.\<close>

fun py_join :: "string \<Rightarrow> string list \<Rightarrow> string" where
  "py_join sep [] = []"
| "py_join sep [p] = p"
| "py_join sep (p # ps) = p @ sep @ py_join sep ps"

definition repr_sep :: string where
  "repr_sep = [CHR '','', CHR 0x0A]"

text \<open>The pieces of \<open>_repr_iterable\<close>: the representations of the first \<open>maxiter\<close>
  elements at the next level (\<open>repr1\<close>, a parameter), and \<open>'...'\<close> when there are
  more.\<close>

definition repr_pieces :: "('a \<Rightarrow> int \<Rightarrow> string) \<Rightarrow> int \<Rightarrow> nat \<Rightarrow> 'a list \<Rightarrow> string list" where
  "repr_pieces repr1 level maxiter x =
     map (\<lambda>elem. repr1 elem (level - 1)) (take maxiter x) @ (if length x > maxiter then [''...''] else [])"

text \<open>\<open>_repr_iterable(x, level, left, right, maxiter, trail)\<close>.\<close>

definition repr_iterable :: "('a \<Rightarrow> int \<Rightarrow> string) \<Rightarrow> 'a list \<Rightarrow> int \<Rightarrow> string \<Rightarrow> string \<Rightarrow> nat \<Rightarrow> string \<Rightarrow> string" where
  "repr_iterable repr1 x level left right maxiter trail =
     (let n = length x in
      if level \<le> 0 \<and> n \<noteq> 0 then left @ ''...'' @ right
      else left @ py_join repr_sep (repr_pieces repr1 level maxiter x) @
           (if n = 1 \<and> trail \<noteq> [] then trail @ right else right))"

text \<open>
  \<open>repr_dict(x, level)\<close>: the entries in the order \<open>_possibly_sorted\<close> yields them,
  each as \<open>'%s: %s'\<close> of the key and value representations, at most \<open>maxdict\<close>
  of them.
\<close>

definition repr_dict :: "repr_limits \<Rightarrow> ('k \<Rightarrow> int \<Rightarrow> string) \<Rightarrow> ('v \<Rightarrow> int \<Rightarrow> string) \<Rightarrow>
    ('k \<times> 'v) list \<Rightarrow> int \<Rightarrow> string" where
  "repr_dict lim repr_k repr_v x level =
     (let n = length x in
      if n = 0 then ''{}''
      else if level \<le> 0 then ''{...}''
      else ''{'' @ py_join repr_sep
             (map (\<lambda>(k, v). repr_k k (level - 1) @ '': '' @ repr_v v (level - 1)) (take (maxdict lim) x) @
              (if n > maxdict lim then [''...''] else [])) @ ''}'')"

section \<open>Properties\<close>

definition is_failure :: "arg \<Rightarrow> bool" where
  "is_failure r \<longleftrightarrow> wait_arg r = WaitRaises"

definition is_placeholder :: "arg \<Rightarrow> bool" where
  "is_placeholder r \<longleftrightarrow> wait_arg r = WaitSuspends"

lemma scan_loop_spec:
  "scan_loop (errs, ph) rs = (errs @ filter is_failure rs, ph \<or> list_ex is_placeholder rs)"
  by (induction "(errs, ph)" rs arbitrary: errs ph rule: scan_loop.induct)
     (auto simp: is_failure_def is_placeholder_def split: wait_outcome.splits)

text \<open>C27: \<open>scan_args\<close> is equivalent to a filter and a test over the arguments,
  positional first: the errors it returns are exactly the failed and timed-out
  arguments, in order, and the flag says whether any argument is a placeholder.\<close>

theorem scan_args_spec:
  "scan_args args kwargs =
     (filter is_failure (args @ map snd kwargs), list_ex is_placeholder (args @ map snd kwargs))"
  by (simp add: scan_args_def scan_loop_spec)

theorem make_task_register:
  "make_task call i input runtime (worker_register j f w) =
     (if i = j then Some (call f input runtime) else make_task call i input runtime w)"
  by (simp add: make_task_def worker_register_def)

theorem make_task_new: "make_task call i input runtime new_worker = None"
  by (simp add: make_task_def new_worker_def)


lemma run_tasks_run_forever:
  "run_tasks k poll n s = Inl r \<Longrightarrow> run_forever poll n s = Some r"
proof (induction k arbitrary: n s)
  case 0
  then show ?case by simp
next
  case (Suc k)
  then show ?case
    by (subst run_forever.simps) (auto split: sum.splits)
qed

lemma run_forever_run_tasks:
  assumes "run_forever poll n s = Some r"
  shows "\<exists>k. run_tasks k poll n s = Inl r"
  using assms
proof (induction poll n s r rule: run_forever.raw_induct [rotated, consumes 1, case_names step])
  case (step f poll n s r)
  show ?case
  proof (cases "poll n s")
    case (Inl e)
    then show ?thesis using step(2) by (intro exI [of _ 1]) auto
  next
    case (Inr s')
    obtain e s'' where r: "r = (e, s'')" by (cases r)
    then have "f poll (Suc n) s' = Some (e, s'')" using step(2) Inr by simp
    then obtain k where "run_tasks k poll (Suc n) s' = Inl r" using step(1) r by blast
    then show ?thesis using Inr by (intro exI [of _ "Suc k"]) simp
  qed
qed


lemma py_join_length:
  "length (py_join sep ps) = sum_list (map length ps) + length sep * (length ps - 1)"
  by (induction sep ps rule: py_join.induct) auto

lemma repr_pieces_length: "length (repr_pieces repr1 level maxiter x) \<le> maxiter + 1"
  by (simp add: repr_pieces_def)

lemma repr_pieces_sum:
  assumes "\<forall>e\<in>set x. length (repr1 e (level - 1)) \<le> B"
  shows "sum_list (map length (repr_pieces repr1 level maxiter x)) \<le> maxiter * B + 3"
proof -
  have "sum_list (map (\<lambda>e. length (repr1 e (level - 1))) (take maxiter x)) \<le> length (take maxiter x) * B"
    using assms sum_list_mono [of "take maxiter x" "\<lambda>e. length (repr1 e (level - 1))" "\<lambda>_. B"]
    by (auto simp: sum_list_triv dest: in_set_takeD)
  also have "\<dots> \<le> maxiter * B" by simp
  finally have le: "sum_list (map (\<lambda>e. length (repr1 e (level - 1))) (take maxiter x)) \<le> maxiter * B" .
  define S where "S = sum_list (map (\<lambda>e. length (repr1 e (level - 1))) (take maxiter x))"
  have "sum_list (map length (repr_pieces repr1 level maxiter x)) = S + (if maxiter < length x then 3 else 0)"
    by (simp add: repr_pieces_def comp_def S_def)
  then show ?thesis using le unfolding S_def [symmetric] by simp
qed

text \<open>C40: However long a container is, when each element's representation has at most
  \<open>B\<close> characters, \<open>_repr_iterable\<close> gives at most
  \<open>maxiter \<cdot> (B + 2) + 3\<close> characters between its brackets.\<close>

theorem repr_iterable_bounded:
  "\<forall>e\<in>set x. length (repr1 e (level - 1)) \<le> B \<Longrightarrow>
   length (repr_iterable repr1 x level left right maxiter trail) \<le>
     length left + length right + length trail + maxiter * (B + 2) + 3"
proof -
  assume b: "\<forall>e\<in>set x. length (repr1 e (level - 1)) \<le> B"
  let ?ps = "repr_pieces repr1 level maxiter x"
  have "sum_list (map length ?ps) \<le> maxiter * B + 3" using b by (rule repr_pieces_sum)
  then have "length (py_join repr_sep ?ps) \<le> maxiter * B + 3 + 2 * maxiter"
    using py_join_length [of repr_sep ?ps] repr_pieces_length [of repr1 level maxiter x]
    by (simp add: repr_sep_def)
  then show ?thesis
    by (auto simp: repr_iterable_def Let_def algebra_simps)
qed

theorem repr_iterable_bounded_witness:
  "length (repr_iterable (\<lambda>e l. e) [''a'', ''bb'', ''c'', ''dd'', ''e'', ''f''] 1 ''['' '']'' 4 []) \<le> 1 + 1 + 0 + 4 * (2 + 2) + 3"
  using repr_iterable_bounded [of "[''a'', ''bb'', ''c'', ''dd'', ''e'', ''f'']" "\<lambda>e l. e" 1 2 "''[''" "'']''" 4 "[]"]
  by simp

end
