(* ===== verification/Task_Args.thy ===== *)
theory Task_Args
  imports Activity Frame Context Utils
begin

text \<open>
  The arguments of a task (src/flowy/task.py, lines 13-45, and the input serialiser
  \<open>_s_i\<close> of src/flowy/backend/swf.py, line 26). A proxy that schedules an activity
  or a sub-workflow, and \<open>SWFWorkflow.restart\<close>, write the positional and keyword
  arguments as the JSON text of the pair \<open>[args, kwargs]\<close>; the task that receives
  the input runs \<open>Task.__call__\<close>, which reads it back with \<open>json.loads\<close>, unpacks
  the pair (\<open>args, kwargs = ...\<close>) and calls \<open>self.run(*args, **kwargs)\<close>. The
  JSON codec of the standard library is a parameter, \<open>dumps\<close> and \<open>loads\<close>, the
  latter \<open>None\<close> where \<open>json.loads\<close> raises \<open>ValueError\<close>; the theorems assume
  of it only that it reads back the value it wrote. The theory refines the
  \<open>run\<close> argument of \<open>activity_call\<close> (Activity) and \<open>workflow_call\<close> (Frame)
  into this decoding, and proves that the arguments a proxy serialises into its
  scheduling decision (\<open>activity_schedule\<close>, \<open>workflow_schedule\<close> of Context)
  reach the receiving task's \<open>run\<close> unchanged, and what happens to an input that decodes to anything else: only
  \<open>ValueError\<close> is caught, so an input that is not a pair is dropped with nothing
  reported, and one that is not iterable raises \<open>TypeError\<close> out of
  \<open>__call__\<close> and ends the single-threaded worker.
\<close>

section \<open>Values of json.loads\<close>

text \<open>
  What \<open>json.loads\<close> returns: \<open>None\<close>, a boolean, a number (an int or a float:
  neither is iterable, which is all that matters here), a (unicode) string, a list, or a
  dict, whose keys are strings. A dict is the list of its items in iteration order.
\<close>

datatype pyjson =
    JNull
  | JBool bool
  | JNum int
  | JStr string
  | JArr "pyjson list"
  | JObj "(string \<times> pyjson) list"

text \<open>The type name CPython 2 puts in the message of a \<open>TypeError\<close>.\<close>

fun py_type_name :: "pyjson \<Rightarrow> string" where
  "py_type_name JNull = ''NoneType''"
| "py_type_name (JBool b) = ''bool''"
| "py_type_name (JNum n) = ''int''"
| "py_type_name (JStr s) = ''unicode''"
| "py_type_name (JArr xs) = ''list''"
| "py_type_name (JObj kv) = ''dict''"

text \<open>
  Iteration over a loaded value, as unpacking and \<open>*args\<close> do it: a list yields its
  items, a string its characters, a dict its keys; \<open>None\<close>, booleans and numbers raise
  \<open>TypeError\<close>.
\<close>

fun py_iter :: "pyjson \<Rightarrow> py_error + pyjson list" where
  "py_iter (JArr xs) = Inr xs"
| "py_iter (JStr s) = Inr (map (\<lambda>c. JStr [c]) s)"
| "py_iter (JObj kv) = Inr (map (\<lambda>(k, v). JStr k) kv)"
| "py_iter JNull = Inl TypeError"
| "py_iter (JBool b) = Inl TypeError"
| "py_iter (JNum n) = Inl TypeError"

section \<open>Serialising the arguments\<close>

text \<open>
  \<open>serialize_args(*args, **kwargs)\<close> (task.py 17-19), the restart serialiser of
  \<open>SWFWorkflow\<close>: \<open>json.dumps([args, kwargs])\<close>; the tuple \<open>args\<close> is written as
  a JSON array and the dict \<open>kwargs\<close> as an object.
\<close>

definition serialize_args :: "(pyjson \<Rightarrow> string) \<Rightarrow> pyjson list \<Rightarrow> (string \<times> pyjson) list \<Rightarrow> string" where
  "serialize_args dumps args kwargs = dumps (JArr [JArr args, JObj kwargs])"

text \<open>
  \<open>_s_i\<close> (swf.py 26), the input serialiser of the proxies and of the workflow
  configuration: \<open>json.dumps((args, kwargs))\<close>, the pair as a tuple, which
  \<open>json.dumps\<close> writes as the same JSON array.
\<close>

definition s_i :: "(pyjson \<Rightarrow> string) \<Rightarrow> pyjson list \<Rightarrow> (string \<times> pyjson) list \<Rightarrow> string" where
  "s_i dumps args kwargs = dumps (JArr [JArr args, JObj kwargs])"

section \<open>Task.__call__ with its arguments\<close>

text \<open>
  \<open>args, kwargs = v\<close> (task.py 33): iterate \<open>v\<close> (\<open>TypeError\<close> when it is not
  iterable) and require exactly two items (\<open>ValueError\<close> otherwise).
\<close>

definition unpack_pair :: "pyjson \<Rightarrow> py_error + pyjson \<times> pyjson" where
  "unpack_pair v =
     py_bind (py_iter v) (\<lambda>xs. case xs of [a, k] \<Rightarrow> Inr (a, k) | _ \<Rightarrow> Inl ValueError)"

text \<open>
  The first statement of \<open>Task.__call__\<close> (task.py 33, with
  \<open>_deserialize_arguments = json.loads\<close>, lines 14 and 60): load the input, then
  unpack it.
\<close>

definition deserialize_arguments :: "(string \<Rightarrow> pyjson option) \<Rightarrow> string \<Rightarrow> py_error + pyjson \<times> pyjson" where
  "deserialize_arguments loads input =
     (case loads input of None \<Rightarrow> Inl ValueError | Some v \<Rightarrow> unpack_pair v)"

text \<open>
  \<open>self.run(*args, **kwargs)\<close> (task.py 37): \<open>**kwargs\<close> needs a dict and
  \<open>*args\<close> iterates \<open>args\<close>; CPython 2 checks the keyword argument first. Either
  failure is a \<open>TypeError\<close> raised inside the second \<open>try\<close>, with CPython's
  message.
\<close>

definition star_call :: "pyjson \<Rightarrow> pyjson \<Rightarrow> string + pyjson list \<times> (string \<times> pyjson) list" where
  "star_call a k =
     (case k of
        JObj kv \<Rightarrow>
          (case py_iter a of
             Inl _ \<Rightarrow> Inl (''run() argument after * must be an iterable, not '' @ py_type_name a)
           | Inr xs \<Rightarrow> Inr (xs, kv))
      | _ \<Rightarrow> Inl (''run() argument after ** must be a mapping, not '' @ py_type_name k))"

text \<open>The code an activity runs for the unpacked pair: its \<open>run\<close> on the expanded
  arguments, or the \<open>TypeError\<close> of the expansion.\<close>

definition activity_run_args :: "(pyjson list \<Rightarrow> (string \<times> pyjson) list \<Rightarrow> act_prog) \<Rightarrow>
    pyjson \<Rightarrow> pyjson \<Rightarrow> act_prog" where
  "activity_run_args run a k = (case star_call a k of Inl m \<Rightarrow> ARaise m | Inr (xs, kv) \<Rightarrow> run xs kv)"

definition workflow_run_args :: "(pyjson list \<Rightarrow> (string \<times> pyjson) list \<Rightarrow> wf_prog) \<Rightarrow>
    pyjson \<Rightarrow> pyjson \<Rightarrow> wf_prog" where
  "workflow_run_args run a k = (case star_call a k of Inl m \<Rightarrow> Raise m | Inr (xs, kv) \<Rightarrow> run xs kv)"

text \<open>
  \<open>Task.__call__\<close> of an \<open>SWFActivity\<close> (task.py 31-45) on its stored input and
  token: the \<open>except ValueError\<close> of the first \<open>try\<close> returns \<open>False\<close>; any other
  exception of the first statement (the \<open>TypeError\<close> of unpacking) leaves
  \<open>__call__\<close>; otherwise the activity runs as \<open>activity_call\<close> models it.
\<close>

definition activity_task_call :: "(nat \<Rightarrow> bool) \<Rightarrow> (string \<Rightarrow> pyjson option) \<Rightarrow>
    (pyjson list \<Rightarrow> (string \<times> pyjson) list \<Rightarrow> act_prog) \<Rightarrow> swf_activity \<Rightarrow> swf_log \<Rightarrow>
    py_error + bool \<times> swf_log" where
  "activity_task_call net loads run a log =
     (case deserialize_arguments loads (sa_input a) of
        Inl ValueError \<Rightarrow> Inr (False, log)
      | Inl e \<Rightarrow> Inl e
      | Inr (x, k) \<Rightarrow> Inr (activity_call net (sa_token a) (\<lambda>_. Some (activity_run_args run x k)) (sa_input a) log))"

text \<open>The same \<open>Task.__call__\<close> for an \<open>SWFWorkflow\<close>, on the input of the round.\<close>

definition workflow_task_call :: "bool \<Rightarrow> (int \<Rightarrow> string) \<Rightarrow> (string \<Rightarrow> pyjson option) \<Rightarrow>
    (pyjson list \<Rightarrow> (string \<times> pyjson) list \<Rightarrow> wf_prog) \<Rightarrow> workflow \<Rightarrow> py_error + bool \<times> workflow" where
  "workflow_task_call ok u loads run w =
     (case deserialize_arguments loads (wf_input w) of
        Inl ValueError \<Rightarrow> Inr (False, w)
      | Inl e \<Rightarrow> Inl e
      | Inr (x, k) \<Rightarrow> workflow_call ok u (\<lambda>_. Some (workflow_run_args run x k)) w)"

text \<open>
  \<open>SingleThreadedWorker.run_forever\<close> (worker.py 18-21) serving activities: the
  \<open>n\<close>-th task the client hands out is \<open>tasks n\<close>, and \<open>task()\<close> is its
  \<open>__call__\<close>, whose return value the loop drops.
\<close>

definition activity_worker_poll :: "(nat \<Rightarrow> bool) \<Rightarrow> (string \<Rightarrow> pyjson option) \<Rightarrow>
    (pyjson list \<Rightarrow> (string \<times> pyjson) list \<Rightarrow> act_prog) \<Rightarrow> (nat \<Rightarrow> swf_activity) \<Rightarrow>
    nat \<Rightarrow> swf_log \<Rightarrow> py_error + swf_log" where
  "activity_worker_poll net loads run tasks n log =
     map_sum id snd (activity_task_call net loads run (tasks n) log)"

section \<open>Fixtures\<close>

text \<open>A printer of JSON text in \<open>json.dumps\<close>'s layout (strings without escapes),
  and a reader that knows one value: enough to instantiate the codec law.\<close>

fun json_text :: "pyjson \<Rightarrow> string" where
  "json_text JNull = ''null''"
| "json_text (JBool b) = (if b then ''true'' else ''false'')"
| "json_text (JNum n) = int_str n"
| "json_text (JStr s) = CHR 0x22 # s @ [CHR 0x22]"
| "json_text (JArr xs) = ''['' @ py_join '', '' (map json_text xs) @ '']''"
| "json_text (JObj kv) =
     ''{'' @ py_join '', '' (map (\<lambda>(k, v). CHR 0x22 # k @ CHR 0x22 # '': '' @ json_text v) kv) @ ''}''"

definition reads_back :: "pyjson \<Rightarrow> string \<Rightarrow> pyjson option" where
  "reads_back v s = (if s = json_text v then Some v else None)"


definition demo_activity_run :: "pyjson list \<Rightarrow> (string \<times> pyjson) list \<Rightarrow> act_prog" where
  "demo_activity_run xs kv = AReturn (JsonValue (json_text (JArr xs)))"

section \<open>Decoding the arguments\<close>

lemma py_iter_Inl: "py_iter v = Inl e \<Longrightarrow> e = TypeError"
  by (cases v) auto

lemma star_call_args [simp]: "star_call (JArr args) (JObj kwargs) = Inr (args, kwargs)"
  by (simp add: star_call_def)

text \<open>The value the serialisers write unpacks into the arguments that were written.\<close>

lemma deserialize_arguments_args:
  "loads input = Some (JArr [JArr args, JObj kwargs]) \<Longrightarrow>
   deserialize_arguments loads input = Inr (JArr args, JObj kwargs)"
  by (simp add: deserialize_arguments_def unpack_pair_def)

text \<open>An input that does not load, or loads to an iterable of other than two items,
  raises \<open>ValueError\<close>; one that loads to a value that is not iterable raises
  \<open>TypeError\<close>.\<close>

lemma deserialize_arguments_not_pair:
  assumes "loads input = None \<or> (\<exists>v xs. loads input = Some v \<and> py_iter v = Inr xs \<and> length xs \<noteq> 2)"
  shows "deserialize_arguments loads input = Inl ValueError"
  using assms
  by (auto simp: deserialize_arguments_def unpack_pair_def split: list.splits)

lemma deserialize_arguments_scalar:
  "loads input = Some v \<Longrightarrow> py_iter v = Inl e \<Longrightarrow> deserialize_arguments loads input = Inl TypeError"
  using py_iter_Inl [of v e] by (simp add: deserialize_arguments_def unpack_pair_def)

lemmas task_call_defs = activity_task_call_def workflow_task_call_def activity_worker_poll_def

text \<open>The input a proxy puts into its scheduling decision, once the timer gate lets
  the call through, is the input it serialised.\<close>

lemma activity_schedule_input:
  "\<not> (0 < delay \<and> \<not> ctx_timer_ready c k) \<Longrightarrow>
   \<exists>aid hb stc sts stc' tl. ctx_decisions (activity_schedule p c k delay (Inr i)) =
     ctx_decisions c @ [CtxScheduleActivity aid (ap_name p) (ap_version p) hb stc sts stc' tl i]"
  by (auto simp: activity_schedule_def ctx_schedule_activity_def)

lemma workflow_schedule_input:
  "\<not> (0 < delay \<and> \<not> ctx_timer_ready c k) \<Longrightarrow>
   \<exists>wid dd wd tl. ctx_decisions (workflow_schedule uuid q c k delay (Inr i)) =
     ctx_decisions c @ [CtxStartChild (wp_name q) (wp_version q) wid dd wd tl i]"
  by (auto simp: workflow_schedule_def ctx_schedule_workflow_def)

text \<open>C24: The arguments reach the task unchanged. When the codec reads back the value it
  wrote, the input a proxy schedules for an activity or a sub-workflow (\<open>_s_i\<close>), and
  the input a restart serialises (\<open>serialize_args\<close>), make \<open>Task.__call__\<close> of the
  task that receives it run its code on exactly the positional and keyword arguments
  the caller passed.\<close>

theorem task_args_roundtrip:
  assumes codec: "loads (dumps (JArr [JArr args, JObj kwargs])) = Some (JArr [JArr args, JObj kwargs])"
    and gate: "\<not> (0 < delay \<and> \<not> ctx_timer_ready c k)"
  shows "(\<exists>aid hb stc sts stc' tl i.
            ctx_decisions (activity_schedule p c k delay (Inr (s_i dumps args kwargs))) =
              ctx_decisions c @ [CtxScheduleActivity aid (ap_name p) (ap_version p) hb stc sts stc' tl i] \<and>
            activity_task_call net loads run \<lparr>sa_input = i, sa_token = tok\<rparr> log =
              Inr (activity_call net tok (\<lambda>_. Some (run args kwargs)) i log)) \<and>
         (\<exists>wid dd wd tl i.
            ctx_decisions (workflow_schedule uuid q c k delay (Inr (s_i dumps args kwargs))) =
              ctx_decisions c @ [CtxStartChild (wp_name q) (wp_version q) wid dd wd tl i] \<and>
            workflow_task_call ok u loads run' (w\<lparr>wf_input := i\<rparr>) =
              workflow_call ok u (\<lambda>_. Some (run' args kwargs)) (w\<lparr>wf_input := i\<rparr>)) \<and>
         (wf_input w = serialize_args dumps args kwargs \<longrightarrow>
            workflow_task_call ok u loads run' w = workflow_call ok u (\<lambda>_. Some (run' args kwargs)) w)"
proof -
  have d: "deserialize_arguments loads (dumps (JArr [JArr args, JObj kwargs])) = Inr (JArr args, JObj kwargs)"
    using deserialize_arguments_args [of loads, OF codec] .
  show ?thesis
    using activity_schedule_input [OF gate, of p "s_i dumps args kwargs"]
      workflow_schedule_input [OF gate, of uuid q "s_i dumps args kwargs"] d
    by (auto simp: s_i_def serialize_args_def task_call_defs activity_run_args_def workflow_run_args_def)
qed

text \<open>C25: Only \<open>ValueError\<close> is caught around the decoding: an input that loads to
  \<open>None\<close>, a boolean or a number raises \<open>TypeError\<close> out of \<open>Task.__call__\<close>, so
  \<open>run_forever\<close> ends at that task, with nothing reported to SWF for it.\<close>

theorem scalar_input_stops_worker:
  assumes "loads (sa_input (tasks n)) = Some v" "py_iter v = Inl e"
  shows "run_forever (activity_worker_poll net loads run tasks) n log = Some (TypeError, log)"
  by (subst run_forever.simps) (simp add: task_call_defs deserialize_arguments_scalar [of loads "sa_input (tasks n)" v e, OF assms])

text \<open>C26: An input that does not load, or loads to a list, string or dict of other
  than two items, is dropped: \<open>Task.__call__\<close> returns \<open>False\<close> and sends nothing,
  neither an activity report nor a decision of the workflow, and the worker goes on with
  its next task.\<close>

theorem bad_input_dropped:
  assumes "loads input = None \<or> (\<exists>v xs. loads input = Some v \<and> py_iter v = Inr xs \<and> length xs \<noteq> 2)"
  shows "(sa_input a = input \<longrightarrow> activity_task_call net loads run a log = Inr (False, log)) \<and>
         (wf_input w = input \<longrightarrow> workflow_task_call ok u loads run' w = Inr (False, w)) \<and>
         (sa_input (tasks n) = input \<longrightarrow>
            run_forever (activity_worker_poll net loads run tasks) n log =
            run_forever (activity_worker_poll net loads run tasks) (Suc n) log)"
  using deserialize_arguments_not_pair [of loads input, OF assms]
  by (auto simp: task_call_defs run_forever.simps [of _ n])

text \<open>A pair whose second item is not a dict unpacks, but the call of \<open>run\<close> raises
  \<open>TypeError\<close> inside the second \<open>try\<close>: the activity is failed with CPython's
  message, and \<open>run\<close> never starts.\<close>

lemma star_type_error_fails_activity:
  assumes "loads (sa_input a) = Some (JArr [x, k])" "\<forall>kv. k \<noteq> JObj kv"
  shows "activity_task_call net loads run a log =
     Inr (activity_fail (net (length log)) (sa_token a)
       (''run() argument after ** must be a mapping, not '' @ py_type_name k) log)"
  using assms
  by (cases k) (simp_all add: task_call_defs deserialize_arguments_def unpack_pair_def activity_run_args_def
      star_call_def activity_call_def)

theorem task_args_roundtrip_witness:
  "activity_task_call (\<lambda>_. True) (reads_back (JArr [JArr [JNum 1, JStr ''a''], JObj [(''k'', JNull)]]))
     demo_activity_run \<lparr>sa_input = s_i json_text [JNum 1, JStr ''a''] [(''k'', JNull)], sa_token = ''t''\<rparr> [] =
     Inr (True, [(CompletedRequest (json_text (JArr [JNum 1, JStr ''a''])) ''t'', True)]) \<and>
   (\<exists>aid hb stc sts stc' tl i.
      ctx_decisions (activity_schedule (conf_activity ''a'' ''1'' None None None None None None) demo_context 0 0
        (Inr (s_i json_text [JNum 1, JStr ''a''] [(''k'', JNull)]))) =
        ctx_decisions demo_context @ [CtxScheduleActivity aid ''a'' ''1'' hb stc sts stc' tl i] \<and>
      activity_task_call (\<lambda>_. True) (reads_back (JArr [JArr [JNum 1, JStr ''a''], JObj [(''k'', JNull)]]))
        demo_activity_run \<lparr>sa_input = i, sa_token = ''t''\<rparr> [] =
        Inr (True, [(CompletedRequest (json_text (JArr [JNum 1, JStr ''a''])) ''t'', True)]))"
proof -
  have rb: "reads_back (JArr [JArr [JNum 1, JStr ''a''], JObj [(''k'', JNull)]])
      (json_text (JArr [JArr [JNum 1, JStr ''a''], JObj [(''k'', JNull)]])) =
      Some (JArr [JArr [JNum 1, JStr ''a''], JObj [(''k'', JNull)]])"
    by (simp add: reads_back_def)
  have g: "\<not> (0 < (0::int) \<and> \<not> ctx_timer_ready demo_context 0)" by simp
  have run: "activity_call (\<lambda>_. True) ''t'' (\<lambda>_. Some (demo_activity_run [JNum 1, JStr ''a''] [(''k'', JNull)])) i [] =
      (True, [(CompletedRequest (json_text (JArr [JNum 1, JStr ''a''])) ''t'', True)])" for i
    by (simp add: activity_call_def demo_activity_run_def act_finish_def activity_finish_def)
  obtain aid hb stc sts stc' tl i where
    dec: "ctx_decisions (activity_schedule (conf_activity ''a'' ''1'' None None None None None None) demo_context 0 0
        (Inr (s_i json_text [JNum 1, JStr ''a''] [(''k'', JNull)]))) =
        ctx_decisions demo_context @ [CtxScheduleActivity aid ''a'' ''1'' hb stc sts stc' tl i]"
    and call: "activity_task_call (\<lambda>_. True) (reads_back (JArr [JArr [JNum 1, JStr ''a''], JObj [(''k'', JNull)]]))
        demo_activity_run \<lparr>sa_input = i, sa_token = ''t''\<rparr> [] =
        Inr (activity_call (\<lambda>_. True) ''t'' (\<lambda>_. Some (demo_activity_run [JNum 1, JStr ''a''] [(''k'', JNull)])) i [])"
    using task_args_roundtrip [where loads = "reads_back (JArr [JArr [JNum 1, JStr ''a''], JObj [(''k'', JNull)]])"
      and dumps = json_text and args = "[JNum 1, JStr ''a'']" and kwargs = "[(''k'', JNull)]", OF rb g,
      of "conf_activity ''a'' ''1'' None None None None None None" "\<lambda>_. True" demo_activity_run "''t''" "[]",
      THEN conjunct1]
    by (auto simp: conf_activity_def)
  have i: "i = s_i json_text [JNum 1, JStr ''a''] [(''k'', JNull)]"
    using dec by (simp add: activity_schedule_def ctx_schedule_activity_def)
  show ?thesis using dec call run i by auto
qed

theorem scalar_input_stops_worker_witness:
  "run_forever (activity_worker_poll (\<lambda>_. True) (reads_back JNull) demo_activity_run
     (\<lambda>_. \<lparr>sa_input = ''null'', sa_token = ''t''\<rparr>)) 0 [] = Some (TypeError, [])"
proof -
  have "reads_back JNull (sa_input \<lparr>sa_input = ''null'', sa_token = ''t''\<rparr>) = Some JNull" "py_iter JNull = Inl TypeError"
    by (simp_all add: reads_back_def)
  then show ?thesis
    using scalar_input_stops_worker [of "reads_back JNull" "\<lambda>_. \<lparr>sa_input = ''null'', sa_token = ''t''\<rparr>" 0]
    by simp
qed

theorem bad_input_dropped_witness:
  "activity_task_call (\<lambda>_. True) (reads_back (JArr [JNum 1, JNum 2, JNum 3])) demo_activity_run
     \<lparr>sa_input = ''[1, 2, 3]'', sa_token = ''t''\<rparr> [] = Inr (False, []) \<and>
   workflow_task_call True (\<lambda>_. ''u'') (reads_back (JArr [JNum 1, JNum 2, JNum 3])) (\<lambda>xs kv. Return (RetValue PyNone))
     ((replay_state {} {} Map.empty Map.empty)\<lparr>wf_input := ''[1, 2, 3]''\<rparr>) =
     Inr (False, (replay_state {} {} Map.empty Map.empty)\<lparr>wf_input := ''[1, 2, 3]''\<rparr>) \<and>
   run_forever (activity_worker_poll (\<lambda>_. True) (reads_back (JArr [JNum 1, JNum 2, JNum 3])) demo_activity_run
     (\<lambda>_. \<lparr>sa_input = ''[1, 2, 3]'', sa_token = ''t''\<rparr>)) 0 [] =
   run_forever (activity_worker_poll (\<lambda>_. True) (reads_back (JArr [JNum 1, JNum 2, JNum 3])) demo_activity_run
     (\<lambda>_. \<lparr>sa_input = ''[1, 2, 3]'', sa_token = ''t''\<rparr>)) 1 []"
proof -
  have "json_text (JArr [JNum 1, JNum 2, JNum 3]) = ''[1, 2, 3]''"
    by (simp add: int_str_def nat_str.simps)
  then have "reads_back (JArr [JNum 1, JNum 2, JNum 3]) ''[1, 2, 3]'' = Some (JArr [JNum 1, JNum 2, JNum 3])"
    by (simp add: reads_back_def)
  then have h: "reads_back (JArr [JNum 1, JNum 2, JNum 3]) ''[1, 2, 3]'' = None \<or>
      (\<exists>v xs. reads_back (JArr [JNum 1, JNum 2, JNum 3]) ''[1, 2, 3]'' = Some v \<and> py_iter v = Inr xs \<and> length xs \<noteq> 2)"
    by simp
  show ?thesis
    using bad_input_dropped [where loads = "reads_back (JArr [JNum 1, JNum 2, JNum 3])" and input = "''[1, 2, 3]''",
        OF h, of "\<lparr>sa_input = ''[1, 2, 3]'', sa_token = ''t''\<rparr>" "\<lambda>_. True" demo_activity_run "[]"
        "(replay_state {} {} Map.empty Map.empty)\<lparr>wf_input := ''[1, 2, 3]''\<rparr>" True "\<lambda>_. ''u''"
        "\<lambda>xs kv. Return (RetValue PyNone)" "\<lambda>_. \<lparr>sa_input = ''[1, 2, 3]'', sa_token = ''t''\<rparr>" 0]
    by simp
qed

end
