(* ===== verification/Spec2Isabelle.thy ===== *)
theory Spec2Isabelle
  imports Frame Context Activity Polling Polling_Ends Polling_Refines Config Workflow_Options Utils Task_Args
begin

text \<open>
  \<^bold>\<open>A verification library for flowy's SWF decision engine.\<close>

  flowy (src/flowy) runs workflows on Amazon SWF by replaying deterministic workflow
  code against the execution history at every decision task. The parts and how they
  interact (the design's control flow): the transport delivers the history; the
  \<^emph>\<open>projector\<close> \<open>parse_events\<close> (src/flowy/backend/swf.py) turns it into a
  snapshot (running, timed out, results, errors, order) keyed by call keys; the
  \<^emph>\<open>workflow object\<close> \<open>SWFWorkflow\<close> (src/flowy/task.py) converts the keys to
  integer call ids and answers each call the workflow code makes by position (the
  \<^emph>\<open>call-id allocator\<close> with its retry window and timer gate); the
  \<^emph>\<open>decision accumulator\<close> \<open>SWFScheduler\<close> (task.py) collects scheduling decisions
  under a rate limit and sends one batch, or one terminal decision, per round; the
  \<^emph>\<open>execution frame\<close> \<open>Task.__call__\<close> with \<open>SWFWorkflow._finish\<close> decides how
  the round ends.

  \<^bold>\<open>Theories.\<close>
  \<^item> \<open>Flowy_Prelude\<close>: Python errors as values (\<open>py_error + 'a\<close> with
    \<open>py_bind\<close>), Python builtins the code relies on (\<open>set.remove\<close>, \<open>dict[k]\<close>,
    \<open>list.index\<close>, slicing, \<open>endswith\<close>, \<open>split\<close>, \<open>rsplit\<close>) and their
    shared lemmas.
  \<^item> \<open>Keys\<close>: \<open>str\<close>/\<open>int\<close> on integers (\<open>int_str\<close>, \<open>py_int\<close>) and
    the key codecs of swf.py (\<open>_timer_key\<close>, \<open>_timer_call_key\<close>,
    \<open>_subworkflow_key\<close>, \<open>_subworkflow_call_key\<close>, \<open>_subworkflow_id\<close>,
    \<open>_timer_encode\<close>); round trips of the codecs.
  \<^item> \<open>History\<close>: the events as a datatype with the constructors the projector
    handles, the projector's state as a record (\<open>snapshot\<close> extended by the
    event-to-call index), one function per event handler (\<open>parse_event\<close>) and the
    scan \<open>parse_events\<close>, every \<open>KeyError\<close> and \<open>AssertionError\<close> a value.
    Proved: the snapshot's parts stay disjoint on fresh histories (an invariant of every
    handler); the scan refines a per-call status machine \<open>abs_run\<close> (functional
    refinement through \<open>abs_of\<close>); a second terminal event for a call raises.
  \<^item> \<open>Scheduler\<close>: \<open>SWFScheduler\<close> as a record with one definition per method,
    its runs over a datatype of operations \<open>sched_op\<close>, and the invariant
    \<open>sched_inv\<close> preserved by every operation: at most one batch per round, within
    the rate limit, a terminal decision alone, failure reasons cut to 256.
  \<^item> \<open>Replay\<close>: the workflow object (\<open>SWFWorkflow.__init__\<close>, \<open>_search_timer\<close>,
    \<open>_search_result\<close>, \<open>_reserve_call_ids\<close>, \<open>_schedule\<close>). Proved: every call
    site reserves a block of \<open>1 + (delay > 0) + retry\<close> ids; the scan answers as the
    reference \<open>window_answer\<close>; for non-negative budgets the answer depends only on
    the history of the block (locality, the basis of deterministic replay); the design's
    retry and timer scenarios; what negative budgets do.
  \<^item> \<open>Frame\<close>: the workflow code as a program tree (\<open>wf_prog\<close>: calls with
    continuations that receive the answers, returns, raises, \<open>SuspendTask\<close>), run
    against the workflow object (\<open>run_prog\<close>), and \<open>Task.__call__\<close> with
    \<open>_finish\<close>, \<open>fail\<close>, \<open>restart\<close>. Proved: the code drives the scheduler
    only through its operations, so a round sends at most one well-formed batch; a
    round completes only when nothing is running and no call is pending; the
    placeholder argument of \<open>_finish\<close>; what \<open>SuspendTask\<close> and a zero rate
    limit do.
  \<^item> \<open>Context\<close>: the execution context of swf.py, \<open>SWFContext\<close> (swf.py
    496-606), as a record extending the snapshot, one definition per method, its runs
    over a datatype of operations, and the proxies' \<open>schedule\<close> (swf.py 274-353).
    Proved: at most one batch per round; timers and sub-workflows it starts are read
    back by the projector under their call keys; a fired timer is never ready.
  \<^item> \<open>Activity\<close>: activity-side reporting (\<open>Task.__init__\<close>, \<open>SWFActivity\<close>,
    \<open>AsyncSWFActivity\<close> and the helpers of task.py 63-135) with the client as a log
    of requests. Proved: one outcome per run, after the heartbeats; the value of
    \<open>__call__\<close> on each path.
  \<^item> \<open>Polling\<close>: \<open>poll_next_decision\<close>, \<open>poll_first_page\<close>,
    \<open>poll_response_page\<close> and the generator \<open>events\<close> (swf.py 355-412) against
    a service that is a function of the attempt number and the page token. Proved: the
    first-page loop returns exactly at the first poll with a token, and returns iff
    there is one; a page fetch makes at most seven calls and gives up exactly when all
    seven raise; a returned token and snapshot come from the complete history of one
    poll; a failure while looking for the first event is not retried.
  \<^item> \<open>Polling_Ends\<close>: when the page walk ends, as an inductive predicate
    \<open>stream_ends\<close> over the generator's steps. Proved: it holds exactly when the
    generator's stream is finite, and then the projector's scan returns.
  \<^item> \<open>Polling_Refines\<close>: the abstract decision \<open>decision_of\<close> of a token and a
    complete history (the design's round input). Proved: the scan over the pages is the
    projection of the whole stream, and a poll whose stream is complete is answered by
    \<open>decision_of\<close> at once (with \<open>poll_next_decision_complete\<close>, a two-way
    correspondence between the polling code and the history it reads).
  \<^item> \<open>Config\<close>: \<open>SWFWorkflowConfig\<close> (swf.py 33-230) as a record with its
    dependency registry, \<open>set_alternate_name\<close>, \<open>_cvt_values\<close>,
    \<open>register_remote\<close>, \<open>check_compatible\<close>, \<open>register\<close>, the registry
    dispatch and \<open>register_remote\<close> of \<open>SWFWorkflowRegistry\<close>, and the whole of
    \<open>start_workflow_worker\<close> (its registration step, then its decision loop).
    Proved: the compatibility check never succeeds and its result is ignored; naming a
    configuration resets its rate limit; the worker ends at its first decision task;
    registration at start-up stops at the first workflow that raises, a
    \<open>RegistrationError\<close> is swallowed and the later workflows are never registered;
    the converted values are well typed; the default identity
    (\<open>_default_identity\<close>) fits SWF's 256 characters.
  \<^item> \<open>Workflow_Options\<close>: \<open>SWFWorkflow.options\<close> (task.py 154-163). Proved: the
    old tags come back after a block that returns, but not after one that raises.
  \<^item> \<open>Utils\<close>: \<open>scan_args\<close>, \<open>i_or_args\<close> and \<open>ShortRepr\<close> of utils.py,
    and \<open>SingleThreadedWorker\<close> (worker.py). Proved: \<open>scan_args\<close> is
    equivalent to a filter of the failed arguments and a test for placeholders; the
    registry answers each task id with the factory last registered for it;
    \<open>run_forever\<close> returns exactly when a task raises; a short representation is
    bounded however long the container.
  \<^item> \<open>Task_Args\<close>: the arguments of a task: \<open>serialize_args\<close> (task.py) and
    \<open>_s_i\<close> (swf.py) write the pair \<open>[args, kwargs]\<close>, the values of
    \<open>json.loads\<close> as a datatype \<open>pyjson\<close>, the unpacking and argument expansion of
    \<open>Task.__call__\<close>, refining the \<open>run\<close> argument of \<open>activity_call\<close> and
    \<open>workflow_call\<close>, and \<open>run_forever\<close> serving activities. The JSON codec is a
    parameter that reads back what it writes. Proved: the arguments a proxy or a restart
    serialises reach \<open>run\<close> unchanged; an input that is not a pair is dropped with
    nothing reported; one that is not iterable raises \<open>TypeError\<close> out of
    \<open>__call__\<close> and ends the worker.
  \<^item> \<open>Spec2Isabelle\<close> (this theory): the round across all components
    (\<open>decision_round\<close>) and the design's scenarios A to D run through it, with the
    cross-component failures of timers.

  \<^bold>\<open>Modelling choices.\<close> Strings are \<open>string\<close>; call ids are \<open>int\<close> (Python's
  unbounded integers); sets and dicts of the code are HOL sets and maps; a value the
  code passes around as deserialised JSON is carried as its JSON text (\<open>pyval\<close>),
  except the task arguments, whose decoded structure \<open>Task_Args\<close> models (\<open>pyjson\<close>).
  The outcome of each transport call (\<open>respond_decision_task_completed\<close>) is a
  boolean argument \<open>ok\<close>; the UUIDs of sub-workflows are a function of the call id.
  The history scan and the window scan are structural recursions over finite lists and
  the workflow code is a finite tree, so these definitions are total and need no fuel.
  The polling loops wait on the service and may run forever (\<open>while\<close> until a
  token, a generator over pages without end, a retry of the whole poll); they are
  \<open>partial_function (option)\<close> definitions, not returning is \<open>None\<close>, and the
  theorems that they return are stated as such (\<open>poll_first_page_live\<close>,
  \<open>scan_events_terminates\<close>, \<open>run_forever_returns\<close>). The seven page attempts
  are a \<open>fun\<close> on the attempt count; no fuel is used anywhere.

  \<^bold>\<open>Repairs.\<close> The sources do not run as written; where the intent is evident the
  model follows it, and each repair is a finding of the manifest: \<open>SWFScheduler\<close>
  is declared with \<open>def\<close> (read as a class); \<open>flush\<close> reads \<open>self.closed\<close>
  (read as \<open>_closed\<close>); the rate-limit test reads \<open>self._decisions.data\<close>
  (read as the decision list); \<open>_schedule\<close> omits the call id the scheduler's
  methods take (the cursor is passed); \<open>restart\<close> passes an extra token (dropped);
  \<open>_finish\<close> calls \<open>has_scheduled\<close> (read as \<open>not nothing_scheduled()\<close>);
  \<open>_timer_call_key\<close> reads an unbound \<open>timer_id\<close> (read as its parameter);
  \<open>SWFContext\<close> reads unbound names in \<open>timer_ready\<close>, \<open>fail\<close> and
  \<open>flush\<close> (read as the evident attributes); the polling functions read an unbound
  \<open>layer1\<close>, \<open>self\<close> and \<open>_parse_events\<close> and swap domain and task list (the
  service is a parameter and the scan consumes the generator); \<open>_cvt_values\<close>
  tests an unbound \<open>child_policy\<close> (read as the converted policy). The
  spec objects of \<open>flowy.spec\<close> (not among the sources) are modelled from the design
  (\<open>spec_schedule\<close>, \<open>spec_restart\<close>), and so is the composition of the round.

  \<^bold>\<open>Not modelled.\<close> The boto transport itself (a parameter of each model),
  \<open>json.dumps\<close> and \<open>json.loads\<close> (parameters of \<open>Task_Args\<close>; elsewhere JSON is text),
  the attributes of the start event that \<open>poll_next_decision\<close> reads into the
  context, activity registration, the venusian scan and the base classes of
  \<open>flowy.base\<close> (not among the sources; \<open>WorkflowConfig.conf\<close> is modelled
  from its use), the spec's \<open>options\<close> of \<open>flowy.spec\<close>, the proxies'
  \<open>bind\<close> (its default \<open>_DescCounter()\<close> and the \<open>ContextBoundProxy\<close> it
  returns are defined nowhere), the logging setup and the stack-frame introspection of
  utils.py (\<open>caller_module\<close>, \<open>caller_package\<close>), and the tests; the manifest
  lists each with its reason.
\<close>

section \<open>A decision round across the components\<close>

text \<open>
  The round of the design's control flow: the history is projected into a snapshot
  (\<open>parse_events\<close>, History), the workflow object is built over it with a fresh
  scheduler (\<open>SWFWorkflow.__init__\<close>, Replay), and the frame runs the workflow code
  and ends the round (\<open>Task.__call__\<close>, Frame). The sources do not compose these
  pieces in one function (the polling code in swf.py builds an \<open>SWFContext\<close>
  instead), so the composition follows the design.
\<close>

definition decision_round :: "bool \<Rightarrow> (int \<Rightarrow> string) \<Rightarrow> token \<Rightarrow> int \<Rightarrow> remote_spec \<Rightarrow>
    string list option \<Rightarrow> (string \<Rightarrow> wf_prog option) \<Rightarrow> string \<Rightarrow> event list \<Rightarrow> py_error + bool \<times> workflow" where
  "decision_round ok u tok lim sp tags run input evs =
     py_bind (parse_events evs) (\<lambda>s.
       py_bind (mk_workflow (new_scheduler tok lim) input tok s sp tags) (\<lambda>w. workflow_call ok u run w))"

text \<open>What a round returns, with the batches its scheduler sent.\<close>

definition sent_of :: "py_error + bool \<times> workflow \<Rightarrow> py_error + bool \<times> (token \<times> decision list \<times> bool) list" where
  "sent_of r = (case r of Inl e \<Rightarrow> Inl e | Inr (b, w) \<Rightarrow> Inr (b, sent (wf_scheduler w)))"

text \<open>The events SWF records before the first decision of an execution.\<close>

definition start_history :: "event list" where
  "start_history = [OtherEvent ''WorkflowExecutionStarted'', OtherEvent ''DecisionTaskScheduled'',
     OtherEvent ''DecisionTaskStarted'']"

text \<open>Workflow code of the design's scenarios B and C: one activity call with
  \<open>retry = 2\<close>, respectively \<open>delay = 10\<close>, returning its result once found.\<close>

definition retry_program :: "string \<Rightarrow> wf_prog option" where
  "retry_program input = Some (CallActivity demo_spec ''[1]'' 2 0
     (\<lambda>r. if fst r = FOUND then Return (RetResult (snd r)) else Return RetPlaceholder))"

definition timer_program :: "string \<Rightarrow> wf_prog option" where
  "timer_program input = Some (CallActivity demo_spec ''[1]'' 0 10
     (\<lambda>r. if fst r = FOUND then Return (RetResult (snd r)) else Return RetPlaceholder))"

section \<open>Lemmas\<close>

lemma parse_events_start: "parse_events start_history = Inr \<lparr>running = {}, timedout = {}, results = Map.empty, errors = Map.empty, order = []\<rparr>"
  by (simp add: parse_events_def start_history_def parse_init_def snapshot.truncate_def)

lemma mk_workflow_empty:
  "mk_workflow sch input tok \<lparr>running = {}, timedout = {}, results = Map.empty, errors = Map.empty, order = []\<rparr> sp tags =
   Inr \<lparr>wf_scheduler = sch, wf_running = {}, wf_timedout = {}, wf_results = Map.empty, wf_errors = Map.empty,
        wf_spec = sp, wf_tags = tags, wf_call_id = 0, wf_input = input, wf_token = tok\<rparr>"
  by (simp add: mk_workflow_def int_keys_ok_def)

lemma int_str_literals [simp]:
  "int_str 0 = ''0''" "int_str 1 = ''1''" "int_str 10 = ''10''"
  by (simp_all add: int_str_def nat_str.simps)

lemma int_str_eq_literal [simp]:
  "int_str i = ''0'' \<longleftrightarrow> i = 0" "int_str i = ''1'' \<longleftrightarrow> i = 1"
  using int_str_inj [of i 0] int_str_inj [of i 1] by simp_all

lemma py_int_literals [simp]: "py_int ''0'' = Inr 0" "py_int ''1'' = Inr 1"
  using py_int_int_str [of 0] py_int_int_str [of 1] by simp_all

section \<open>Properties of rounds\<close>

text \<open>Scenario A of the design: with an empty history and code that returns a
  constant, the round sends exactly one batch, the completion with that constant.\<close>

theorem scenario_A_complete:
  "sent_of (decision_round True u ''tok'' 64 sp tags (\<lambda>x. Some (Return (RetValue (PyStr c)))) ''[[], {}]''
      start_history) = Inr (True, [(''tok'', [CompleteWorkflowExecution c], True)])"
  by (simp add: decision_round_def parse_events_start mk_workflow_empty workflow_call_def wf_finish_def
      has_scheduled_def nothing_scheduled_def has_running_def new_scheduler_def on_scheduler_def complete_def
      flush_def serialize_result_def sent_of_def)


text \<open>Scenario C of the design cannot be replayed: round 1 starts the timer
  under the bare call id \<open>'0'\<close>, and the history that echoes it makes the next
  round raise \<open>AssertionError\<close> in the projector; a timer started under the tagged
  key (as the swf.py context does) fires into the result \<open>'0:t'\<close>, and the next
  round raises \<open>ValueError\<close> when it converts the keys.\<close>

theorem scenario_C_timer_rounds:
  "sent_of (decision_round True u ''tok'' 64 sp tags timer_program ''[[], {}]'' start_history) =
     Inr (True, [(''tok'', [StartTimer ''10'' ''0''], True)]) \<and>
   decision_round True u ''tok'' 64 sp tags timer_program ''[[], {}]''
      (start_history @ [TimerStarted ''0'']) = Inl AssertionError \<and>
   decision_round True u ''tok'' 64 sp tags timer_program ''[[], {}]''
      (start_history @ [TimerStarted (timer_key ''0''), TimerFired (timer_key ''0'')]) = Inl ValueError"
proof -
  have "timer_call_key ''0'' = Inl AssertionError" using timer_call_key_int_str [of 0] by simp
  moreover have "py_int (timer_key ''0'') = Inl ValueError" by simp
  ultimately show ?thesis
    by (simp add: decision_round_def parse_events_def start_history_def parse_init_def snapshot.truncate_def
      py_set_remove_def mk_workflow_def int_keys_ok_def workflow_call_def timer_program_def
      wf_finish_def has_scheduled_def nothing_scheduled_def has_running_def new_scheduler_def
      on_scheduler_def flush_def sent_of_def replay_unfold upto_3 domIff)
qed


text \<open>A business error discards the accumulated schedules: code that schedules an
  activity and then raises sends only the failure, its reason cut to 256
  characters.\<close>

theorem business_error_fails_round:
  "sent_of (decision_round True u ''tok'' 64 sp tags
      (\<lambda>x. Some (CallActivity demo_spec ''[1]'' 0 0 (\<lambda>r. Raise m))) ''[[], {}]'' start_history) =
   Inr (True, [(''tok'', [FailWorkflowExecution (take 256 m)], True)])"
  by (simp add: decision_round_def parse_events_start mk_workflow_empty workflow_call_def
      new_scheduler_def on_scheduler_def wf_fail_def fail_def py_prefix_def flush_def sent_of_def
      replay_unfold upto_3)

text \<open>C33: Whenever the projected snapshot holds the result of a fired timer, the round
  raises \<open>ValueError\<close>: the projector stores it under the tagged key
  \<open>'k:t'\<close>, which \<open>int()\<close> rejects in \<open>SWFWorkflow.__init__\<close>.\<close>

theorem fired_timer_breaks_round:
  assumes "parse_events evs = Inr s" "timer_key k \<in> dom (results s)"
  shows "decision_round ok u tok lim sp tags run input evs = Inl ValueError"
proof -
  have "\<not> int_keys_ok (dom (results s))"
    using assms(2) py_int_timer_key [of k] unfolding int_keys_ok_def by force
  then show ?thesis using assms(1) by (simp add: decision_round_def mk_workflow_def)
qed


theorem fired_timer_breaks_round_witness:
  "parse_events (start_history @ [TimerStarted (timer_key ''0''), TimerFired (timer_key ''0'')]) =
     Inr \<lparr>running = {}, timedout = {}, results = [timer_key ''0'' \<mapsto> PyNone], errors = Map.empty, order = []\<rparr> \<and>
   timer_key ''0'' \<in> dom (results \<lparr>running = {}, timedout = {}, results = [timer_key ''0'' \<mapsto> PyNone],
     errors = Map.empty, order = []\<rparr>) \<and>
   decision_round True (\<lambda>i. []) ''tok'' 64 demo_spec None timer_program ''[[], {}]''
     (start_history @ [TimerStarted (timer_key ''0''), TimerFired (timer_key ''0'')]) = Inl ValueError"
proof -
  have p: "parse_events (start_history @ [TimerStarted (timer_key ''0''), TimerFired (timer_key ''0'')]) =
     Inr \<lparr>running = {}, timedout = {}, results = [timer_key ''0'' \<mapsto> PyNone], errors = Map.empty, order = []\<rparr>"
    by (simp add: parse_events_def start_history_def parse_init_def snapshot.truncate_def py_set_remove_def)
  show ?thesis
    using fired_timer_breaks_round [OF p, of "''0''" True "\<lambda>i. []" "''tok''" 64 demo_spec None timer_program]
      p by simp
qed


end
